theory Spec2Isabelle
  imports Complex_Main "HOL-Library.Word" "HOL-Library.Sublist"
begin

section \<open>JavaScript values and strings\<close>

text \<open>
  The fragments service is JavaScript. Two kinds of strings occur. Strings of the HTTP
  layer (header values, owner ids, fragment ids, error messages) are modelled as
  \<open>string\<close>: a list of characters with codes 0..255, which is what Node delivers for a
  header value. Decoded fragment content is a list of Unicode code points (see the section on
  UTF-8). Buffers are lists of bytes.
\<close>

type_synonym byte = "8 word"
type_synonym unicode = "nat list"

text \<open>A JavaScript number: a finite double is one of the reals, beside NaN and the infinities.\<close>

datatype jsnum = NaN | Finite real | PosInfinity | NegInfinity

text \<open>The values a caller can pass for the \<open>size\<close> property of a fragment.\<close>

datatype jsval = Undefined | Null | Boolean bool | Number jsnum | String string

text \<open>An exception: the class of the thrown object and its \<open>message\<close>.\<close>

datatype error = Error string | TypeError string

fun message :: "error \<Rightarrow> string" where
  "message (Error m) = m"
| "message (TypeError m) = m"

text \<open>\<open>n < 0\<close> on JavaScript numbers: every comparison with NaN is false.\<close>

fun less_zero :: "jsnum \<Rightarrow> bool" where
  "less_zero NaN = False"
| "less_zero (Finite r) = (r < 0)"
| "less_zero PosInfinity = False"
| "less_zero NegInfinity = True"

text \<open>
  \<open>String.prototype.trim\<close> removes white space and line terminators at both ends. On code
  points these are TAB, LF, VT, FF, CR, SPACE, U+00A0, U+1680, U+2000..U+200A, U+2028, U+2029,
  U+202F, U+205F, U+3000 and U+FEFF.
\<close>

definition js_whitespace :: "nat \<Rightarrow> bool" where
  "js_whitespace n =
     ((9 \<le> n \<and> n \<le> 13) \<or> n = 32 \<or> n = 160 \<or> n = 5760 \<or> (8192 \<le> n \<and> n \<le> 8202) \<or>
      n = 8232 \<or> n = 8233 \<or> n = 8239 \<or> n = 8287 \<or> n = 12288 \<or> n = 65279)"

fun trim_end :: "('a \<Rightarrow> bool) \<Rightarrow> 'a list \<Rightarrow> 'a list" where
  "trim_end ws [] = []"
| "trim_end ws (c # cs) = (let r = trim_end ws cs in if ws c \<and> r = [] then [] else c # r)"

definition trim_by :: "('a \<Rightarrow> bool) \<Rightarrow> 'a list \<Rightarrow> 'a list" where
  "trim_by ws s = trim_end ws (dropWhile ws s)"

definition trim :: "string \<Rightarrow> string" where
  "trim s = trim_by (\<lambda>c. js_whitespace (of_char c)) s"

text \<open>
  \<open>String.prototype.toLowerCase\<close> on characters up to U+00FF: A..Z and the upper case
  letters U+00C0..U+00DE (without the multiplication sign U+00D7) move up by 32.
\<close>

definition lower_char :: "char \<Rightarrow> char" where
  "lower_char c =
     (let n = (of_char c :: nat)
      in if (65 \<le> n \<and> n \<le> 90) \<or> (192 \<le> n \<and> n \<le> 222 \<and> n \<noteq> 215) then char_of (n + 32) else c)"

definition toLowerCase :: "string \<Rightarrow> string" where
  "toLowerCase s = map lower_char s"

text \<open>\<open>s.includes(sub)\<close>: \<open>sub\<close> occurs in \<open>s\<close> as a contiguous run.\<close>

fun str_includes :: "string \<Rightarrow> string \<Rightarrow> bool" where
  "str_includes [] sub = (sub = [])"
| "str_includes (c # cs) sub = (prefix sub (c # cs) \<or> str_includes cs sub)"

section \<open>The content-type package\<close>

text \<open>
  \<open>contentType.parse\<close> comes from the npm package content-type, which the repository
  imports and does not contain. Its \<open>parse\<close> takes the text before the first semicolon,
  trims it, requires it to match \<open>token "/" token\<close> (TypeError "invalid media type"
  otherwise) and lower-cases it. When there is a semicolon, the rest must be a sequence of
  parameters \<open>; key = value\<close> that reaches the end of the header, where a value is a token or a
  quoted string (TypeError "invalid parameter format" otherwise). An empty argument is
  refused with TypeError "argument string is required".

  Only the \<open>type\<close> property of the result is used by the repository, so \<open>contentType_parse\<close>
  returns it.
\<close>

definition is_token_char :: "char \<Rightarrow> bool" where
  "is_token_char c =
     (let n = (of_char c :: nat)
      in n \<in> set [33, 35, 36, 37, 38, 39, 42, 43, 45, 46, 94, 95, 96, 124, 126] \<or>
         (48 \<le> n \<and> n \<le> 57) \<or> (65 \<le> n \<and> n \<le> 90) \<or> (97 \<le> n \<and> n \<le> 122))"

definition is_token :: "string \<Rightarrow> bool" where
  "is_token s = (s \<noteq> [] \<and> list_all is_token_char s)"

definition is_media_type :: "string \<Rightarrow> bool" where
  "is_media_type ty =
     (case dropWhile (\<lambda>c. c \<noteq> CHR ''/'') ty of
        [] \<Rightarrow> False
      | _ # subtype \<Rightarrow> is_token (takeWhile (\<lambda>c. c \<noteq> CHR ''/'') ty) \<and> is_token subtype)"

definition is_space :: "char \<Rightarrow> bool" where
  "is_space c = (c = CHR '' '')"

text \<open>The inside of a quoted string, up to and including the closing quote.\<close>

fun match_quoted :: "string \<Rightarrow> string option" where
  "match_quoted [] = None"
| "match_quoted (c # cs) =
     (let n = (of_char c :: nat)
      in if n = 34 then Some cs
         else if n = 92 then
           (case cs of
              [] \<Rightarrow> None
            | d # ds \<Rightarrow>
                if (of_char d :: nat) = 11 \<or> 32 \<le> (of_char d :: nat) then match_quoted ds else None)
         else if n = 11 \<or> n = 32 \<or> n = 33 \<or> (35 \<le> n \<and> n \<le> 91) \<or> (93 \<le> n \<and> n \<le> 126) \<or> 128 \<le> n
           then match_quoted cs
         else None)"

definition match_value :: "string \<Rightarrow> string option" where
  "match_value s =
     (case s of
        [] \<Rightarrow> None
      | c # cs \<Rightarrow>
          if (of_char c :: nat) = 34 then match_quoted cs
          else if takeWhile is_token_char s = [] then None
          else Some (dropWhile is_token_char s))"

text \<open>
  One match of the parameter pattern at the start of \<open>s\<close>; the result is what follows the
  match.
\<close>

definition match_param :: "string \<Rightarrow> string option" where
  "match_param s =
     (case s of
        [] \<Rightarrow> None
      | c # s1 \<Rightarrow>
          if c \<noteq> CHR '';'' then None
          else
            let s2 = dropWhile is_space s1 in
            if takeWhile is_token_char s2 = [] then None
            else
              (case dropWhile is_space (dropWhile is_token_char s2) of
                 [] \<Rightarrow> None
               | e # s5 \<Rightarrow>
                   if e \<noteq> CHR ''='' then None
                   else
                     (case match_value (dropWhile is_space s5) of
                        None \<Rightarrow> None
                      | Some s7 \<Rightarrow> Some (dropWhile is_space s7))))"

lemma match_quoted_shorter: "match_quoted s = Some r \<Longrightarrow> length r < length s"
proof (induction s arbitrary: r rule: match_quoted.induct)
  case 1
  then show ?case by simp
next
  case (2 c cs)
  then show ?case
    by (fastforce simp: Let_def split: if_splits list.splits)
qed

lemma match_value_shorter: "match_value s = Some r \<Longrightarrow> length r \<le> length s"
  unfolding match_value_def
  by (auto split: list.splits if_splits dest!: match_quoted_shorter
      intro: order_trans [OF length_dropWhile_le])

lemma match_param_shorter: "match_param s = Some r \<Longrightarrow> length r < length s"
proof -
  assume a: "match_param s = Some r"
  then obtain s1 where s: "s = CHR '';'' # s1"
    unfolding match_param_def by (auto split: list.splits if_splits)
  from a s obtain s5 s7 where
    e: "dropWhile is_space (dropWhile is_token_char (dropWhile is_space s1)) = CHR ''='' # s5"
    and v: "match_value (dropWhile is_space s5) = Some s7"
    and r: "r = dropWhile is_space s7"
    unfolding match_param_def
    by (auto simp: Let_def split: list.splits if_splits option.splits)
  have "length r \<le> length s7" using r by (simp add: length_dropWhile_le)
  also have "\<dots> \<le> length (dropWhile is_space s5)" using v by (rule match_value_shorter)
  also have "\<dots> \<le> length s5" by (rule length_dropWhile_le)
  also have "\<dots> < length (CHR ''='' # s5)" by simp
  also have "\<dots> \<le> length (dropWhile is_token_char (dropWhile is_space s1))"
    unfolding e [symmetric] by (rule length_dropWhile_le)
  also have "\<dots> \<le> length (dropWhile is_space s1)" by (rule length_dropWhile_le)
  also have "\<dots> \<le> length s1" by (rule length_dropWhile_le)
  finally show ?thesis using s by simp
qed

text \<open>
  The parameter loop: \<open>s\<close> starts at the first semicolon; every match must start where the
  previous one ended, and the last one must end with the header.
\<close>

function params_ok :: "string \<Rightarrow> bool" where
  "params_ok s =
     (case match_param s of
        None \<Rightarrow> False
      | Some r \<Rightarrow> r = [] \<or> params_ok r)"
  by pat_completeness auto
termination
  by (relation "measure length") (auto dest: match_param_shorter)

definition contentType_parse :: "string \<Rightarrow> error + string" where
  "contentType_parse header =
     (if header = [] then Inl (TypeError ''argument string is required'')
      else
        let ty = trim (takeWhile (\<lambda>c. c \<noteq> CHR '';'') header);
            rest = dropWhile (\<lambda>c. c \<noteq> CHR '';'') header
        in if \<not> is_media_type ty then Inl (TypeError ''invalid media type'')
           else if rest \<noteq> [] \<and> \<not> params_ok rest then Inl (TypeError ''invalid parameter format'')
           else Inr (toLowerCase ty))"


section \<open>The Fragment entity (src/model/fragment.js)\<close>

text \<open>
  An instance of the class \<open>Fragment\<close>. The accessors are \<open>fid\<close>, \<open>ftype\<close> and \<open>fsize\<close> for
  the properties \<open>id\<close>, \<open>type\<close> and \<open>size\<close>.
\<close>

record Fragment =
  fid :: string
  ownerId :: string
  created :: string
  updated :: string
  ftype :: string
  fsize :: jsnum

text \<open>
  The object passed to the constructor. A property that is absent (\<open>undefined\<close>) is \<open>None\<close>;
  the callers in the repository pass strings for every property but \<open>size\<close>.
\<close>

record Fragment_args =
  arg_id :: "string option"
  arg_ownerId :: "string option"
  arg_created :: "string option"
  arg_updated :: "string option"
  arg_type :: "string option"
  arg_size :: jsval

text \<open>\<open>!v\<close> for a string or \<open>undefined\<close>: the empty string is falsy as well.\<close>

definition falsy :: "string option \<Rightarrow> bool" where
  "falsy v = (case v of None \<Rightarrow> True | Some s \<Rightarrow> s = [])"

text \<open>\<open>v || d\<close> for a string or \<open>undefined\<close>.\<close>

definition or_else :: "string option \<Rightarrow> string \<Rightarrow> string" where
  "or_else v d = (case v of None \<Rightarrow> d | Some s \<Rightarrow> if s = [] then d else s)"

definition supportedTypes :: "string list" where
  "supportedTypes =
     [''text/plain'', ''text/markdown'', ''text/html'', ''text/csv'', ''application/json'',
      ''application/yaml'', ''image/png'', ''image/jpeg'', ''image/webp'', ''image/gif'']"

text \<open>\<open>Fragment.isSupportedType\<close>: a header that does not parse is not supported.\<close>

definition isSupportedType :: "string \<Rightarrow> bool" where
  "isSupportedType v =
     (case contentType_parse v of
        Inl _ \<Rightarrow> False
      | Inr ty \<Rightarrow> ty \<in> set supportedTypes)"

text \<open>
  The constructor. \<open>now\<close> is the reading of the clock (\<open>new Date().toISOString()\<close>) and
  \<open>uuid\<close> the value \<open>randomUUID()\<close> would return; both are non-empty strings produced outside
  the repository. \<open>size\<close> defaults to 0 when it is absent.
\<close>

definition Fragment_constructor :: "string \<Rightarrow> string \<Rightarrow> Fragment_args \<Rightarrow> error + Fragment" where
  "Fragment_constructor now uuid a =
     (if falsy (arg_ownerId a) then Inl (Error ''ownerId is required'')
      else if falsy (arg_type a) then Inl (Error ''type is required'')
      else if \<not> isSupportedType (the (arg_type a))
        then Inl (Error (''Unsupported type: '' @ the (arg_type a)))
      else
        (case (case arg_size a of Undefined \<Rightarrow> Number (Finite 0) | v \<Rightarrow> v) of
           Number n \<Rightarrow>
             if less_zero n then Inl (Error ''size cannot be negative'')
             else Inr \<lparr>fid = or_else (arg_id a) uuid,
                       ownerId = the (arg_ownerId a),
                       created = or_else (arg_created a) now,
                       updated = or_else (arg_updated a) now,
                       ftype = the (arg_type a),
                       fsize = n\<rparr>
         | _ \<Rightarrow> Inl (Error ''size must be a number'')))"

text \<open>The getter \<open>mimeType\<close>: it throws what \<open>contentType.parse\<close> throws.\<close>

definition mimeType :: "Fragment \<Rightarrow> error + string" where
  "mimeType f = contentType_parse (ftype f)"

text \<open>The getter \<open>isText\<close>.\<close>

definition isText :: "Fragment \<Rightarrow> error + bool" where
  "isText f = (case mimeType f of Inl e \<Rightarrow> Inl e | Inr m \<Rightarrow> Inr (prefix ''text/'' m))"

section \<open>Buffers and text: UTF-8\<close>

text \<open>
  \<open>buffer.toString('utf8')\<close> decodes a buffer into a string and \<open>Buffer.from(s, 'utf8')\<close> encodes
  it back. The decoded string is modelled by its code points. The decoder never fails: a byte
  that cannot start or continue a well-formed sequence is replaced by U+FFFD (65533), one
  replacement for each maximal ill-formed prefix, and decoding goes on at the byte that did not
  fit.
\<close>

definition ascii :: "string \<Rightarrow> unicode" where
  "ascii s = map of_char s"

definition continuation :: "nat \<Rightarrow> nat \<Rightarrow> byte \<Rightarrow> bool" where
  "continuation lo hi b = (lo \<le> unat b \<and> unat b \<le> hi)"

text \<open>
  The bounds on the byte after a lead byte of a three or four byte sequence: they exclude
  overlong forms, surrogates and code points above U+10FFFF.
\<close>

definition lower_boundary :: "nat \<Rightarrow> nat" where
  "lower_boundary n = (if n = 224 then 160 else if n = 240 then 144 else 128)"

definition upper_boundary :: "nat \<Rightarrow> nat" where
  "upper_boundary n = (if n = 237 then 159 else if n = 244 then 143 else 191)"

text \<open>
  The number of bytes of the sequence a lead byte announces; 0 for a byte that cannot start
  one (a continuation byte, the overlong leads 0xC0 and 0xC1, and 0xF5 and above).
\<close>

definition bytes_needed :: "nat \<Rightarrow> nat" where
  "bytes_needed n =
     (if n < 128 then 1
      else if 194 \<le> n \<and> n \<le> 223 then 2
      else if 224 \<le> n \<and> n \<le> 239 then 3
      else if 240 \<le> n \<and> n \<le> 244 then 4
      else 0)"

fun utf8_decode :: "byte list \<Rightarrow> unicode" where
  "utf8_decode [] = []"
| "utf8_decode (b # bs) =
     (let n = unat b; k = bytes_needed n in
      if k = 1 then n # utf8_decode bs
      else if k = 2 then
        (case bs of
           [] \<Rightarrow> [65533]
         | c # cs \<Rightarrow>
             if continuation 128 191 c
             then ((n mod 32) * 64 + unat c mod 64) # utf8_decode cs
             else 65533 # utf8_decode bs)
      else if k = 3 then
        (case bs of
           [] \<Rightarrow> [65533]
         | c # cs \<Rightarrow>
             if continuation (lower_boundary n) (upper_boundary n) c then
               (case cs of
                  [] \<Rightarrow> [65533]
                | d # ds \<Rightarrow>
                    if continuation 128 191 d
                    then ((n mod 16) * 4096 + (unat c mod 64) * 64 + unat d mod 64) # utf8_decode ds
                    else 65533 # utf8_decode cs)
             else 65533 # utf8_decode bs)
      else if k = 4 then
        (case bs of
           [] \<Rightarrow> [65533]
         | c # cs \<Rightarrow>
             if continuation (lower_boundary n) (upper_boundary n) c then
               (case cs of
                  [] \<Rightarrow> [65533]
                | d # ds \<Rightarrow>
                    if continuation 128 191 d then
                      (case ds of
                         [] \<Rightarrow> [65533]
                       | e # es \<Rightarrow>
                           if continuation 128 191 e
                           then ((n mod 8) * 262144 + (unat c mod 64) * 4096 + (unat d mod 64) * 64
                                   + unat e mod 64) # utf8_decode es
                           else 65533 # utf8_decode ds)
                    else 65533 # utf8_decode cs)
             else 65533 # utf8_decode bs)
      else 65533 # utf8_decode bs)"

text \<open>
  Encoding a code point. A lone surrogate (which decoding never produces) is written as
  U+FFFD, as Node does; so is a number that is no code point at all.
\<close>

definition encode_code_point :: "nat \<Rightarrow> byte list" where
  "encode_code_point cp =
     (if cp < 128 then [of_nat cp]
      else if cp < 2048 then [of_nat (192 + cp div 64), of_nat (128 + cp mod 64)]
      else if (55296 \<le> cp \<and> cp \<le> 57343) \<or> 1114112 \<le> cp then [239, 191, 189]
      else if cp < 65536 then
        [of_nat (224 + cp div 4096), of_nat (128 + (cp div 64) mod 64), of_nat (128 + cp mod 64)]
      else
        [of_nat (240 + cp div 262144), of_nat (128 + (cp div 4096) mod 64),
         of_nat (128 + (cp div 64) mod 64), of_nat (128 + cp mod 64)])"

definition utf8_encode :: "unicode \<Rightarrow> byte list" where
  "utf8_encode u = concat (map encode_code_point u)"

text \<open>A Unicode scalar value: a code point that is not a surrogate.\<close>

definition scalar_value :: "nat \<Rightarrow> bool" where
  "scalar_value cp = (cp < 55296 \<or> (57344 \<le> cp \<and> cp < 1114112))"

section \<open>JSON values and \<open>JSON.stringify\<close>\<close>

text \<open>
  A JavaScript value as \<open>JSON.stringify\<close> sees it. The properties of an object are kept in
  the order in which \<open>Object.keys\<close> lists them.
\<close>

datatype json = JNull | JBoolean bool | JNumber jsnum | JString unicode | JArray "json list"
  | JObject "(unicode \<times> json) list" | JUndefined

definition hex_digit :: "nat \<Rightarrow> nat" where
  "hex_digit d = (if d < 10 then 48 + d else 87 + d)"

text \<open>The escapes of a JSON string: the quote, the backslash, the control characters.\<close>

definition quote_char :: "nat \<Rightarrow> unicode" where
  "quote_char c =
     (if c = 34 then [92, 34]
      else if c = 92 then [92, 92]
      else if c = 8 then [92, 98]
      else if c = 12 then [92, 102]
      else if c = 10 then [92, 110]
      else if c = 13 then [92, 114]
      else if c = 9 then [92, 116]
      else if c < 32 \<or> (55296 \<le> c \<and> c \<le> 57343) then
        [92, 117, hex_digit (c div 4096), hex_digit ((c div 256) mod 16),
         hex_digit ((c div 16) mod 16), hex_digit (c mod 16)]
      else [c])"

definition quote :: "unicode \<Rightarrow> unicode" where
  "quote s = [34] @ concat (map quote_char s) @ [34]"

definition indentation :: "nat \<Rightarrow> unicode" where
  "indentation i = replicate (2 * i) 32"

fun join :: "'a list \<Rightarrow> 'a list list \<Rightarrow> 'a list" where
  "join sep [] = []"
| "join sep [x] = x"
| "join sep (x # y # ys) = x @ sep @ join sep (y # ys)"

text \<open>
  \<open>JSON.stringify(value, null, 2)\<close> for a value that is not \<open>undefined\<close>, at nesting depth
  \<open>i\<close>. Inside an array \<open>undefined\<close> is written \<open>null\<close>; a property whose value is \<open>undefined\<close>
  is left out. \<open>ns\<close> writes a finite number (\<open>Number.prototype.toString\<close>).
\<close>

fun serialize :: "(real \<Rightarrow> unicode) \<Rightarrow> nat \<Rightarrow> json \<Rightarrow> unicode" where
  "serialize ns i JNull = ascii ''null''"
| "serialize ns i JUndefined = ascii ''null''"
| "serialize ns i (JBoolean b) = (if b then ascii ''true'' else ascii ''false'')"
| "serialize ns i (JNumber n) = (case n of Finite r \<Rightarrow> ns r | _ \<Rightarrow> ascii ''null'')"
| "serialize ns i (JString s) = quote s"
| "serialize ns i (JArray xs) =
     (if xs = [] then ascii ''[]''
      else [91, 10] @ indentation (Suc i)
           @ join ([44, 10] @ indentation (Suc i)) (map (serialize ns (Suc i)) xs)
           @ [10] @ indentation i @ [93])"
| "serialize ns i (JObject kvs) =
     (let members = map (\<lambda>kv. quote (fst kv) @ [58, 32] @ serialize ns (Suc i) (snd kv))
                        (filter (\<lambda>kv. snd kv \<noteq> JUndefined) kvs)
      in if members = [] then ascii ''{}''
         else [123, 10] @ indentation (Suc i) @ join ([44, 10] @ indentation (Suc i)) members
              @ [10] @ indentation i @ [125])"

text \<open>\<open>JSON.stringify(value, null, 2)\<close>: \<open>None\<close> is the result \<open>undefined\<close>.\<close>

definition JSON_stringify :: "(real \<Rightarrow> unicode) \<Rightarrow> json \<Rightarrow> unicode option" where
  "JSON_stringify ns v = (if v = JUndefined then None else Some (serialize ns 0 v))"

subsection \<open>Assigning a property\<close>

text \<open>
  \<open>obj[key] = value\<close> on a plain object, for a string value. An existing property keeps its
  place. A new one is listed after the existing ones, unless its key is an array index (a
  canonical decimal number below \<open>2^32 - 1\<close>): those are listed first, in ascending order. The
  key \<open>__proto__\<close> is the accessor of \<open>Object.prototype\<close>, whose setter ignores a string: the
  object is unchanged.
\<close>

definition decimal :: "unicode \<Rightarrow> nat" where
  "decimal k = foldl (\<lambda>n d. 10 * n + (d - 48)) 0 k"

definition is_array_index :: "unicode \<Rightarrow> bool" where
  "is_array_index k =
     (k = [48] \<or>
      (k \<noteq> [] \<and> list_all (\<lambda>d. 48 \<le> d \<and> d \<le> 57) k \<and> hd k \<noteq> 48 \<and> decimal k < 4294967295))"

fun insert_property :: "unicode \<Rightarrow> json \<Rightarrow> (unicode \<times> json) list \<Rightarrow> (unicode \<times> json) list" where
  "insert_property k v [] = [(k, v)]"
| "insert_property k v (p # ps) =
     (if is_array_index k \<and> (\<not> is_array_index (fst p) \<or> decimal k < decimal (fst p))
      then (k, v) # p # ps
      else p # insert_property k v ps)"

definition set_property :: "(unicode \<times> json) list \<Rightarrow> unicode \<Rightarrow> json \<Rightarrow> (unicode \<times> json) list" where
  "set_property obj k v =
     (if k = ascii ''__proto__'' then obj
      else if k \<in> set (map fst obj) then map (\<lambda>p. if fst p = k then (k, v) else p) obj
      else insert_property k v obj)"

section \<open>The conversion engine (src/routes/api/get-by-id.js)\<close>

text \<open>
  What a handler answers: a JSON body with its status (\<open>createErrorResponse\<close>, or
  \<open>createSuccessResponse\<close> around a fragment's metadata or a message), a raw body sent with
  its status and Content-Type header, or an error handed to \<open>next\<close>, which leaves the answer
  to the application's error handler.
\<close>

text \<open>
  The list \<open>GET /fragments\<close> answers with: the ids of the user's fragments (an id that a
  stored record lacks is \<open>undefined\<close>), or the fragments themselves. The model keeps the members
  of the list and not their order.
\<close>

datatype fragments = Ids "string option set" | Expanded "Fragment set"

datatype payload = ErrorResponse nat string | FragmentResponse Fragment | MessageResponse string
  | FragmentsResponse fragments

datatype response = Json nat payload | Send nat string "byte list" | Next error

text \<open>
  What the code calls outside the repository: \<open>md.render\<close> of markdown-it; \<open>yaml.load\<close> of
  js-yaml (\<open>None\<close> when it throws); the number formatting of \<open>JSON.stringify\<close>;
  \<open>sharp(data).toFormat(f).toBuffer()\<close> (\<open>Inl\<close> the message of the error it rejects with); the
  clock, where \<open>clock R k\<close> is the k-th reading \<open>new Date().toISOString()\<close> during a request;
  and the value of \<open>randomUUID()\<close>.

  Three parts of the repository's own code are left open in the same record, because no
  property below depends on what they produce: the results of the JSON to YAML and JSON to CSV
  branches of \<open>convertTextToText\<close> (\<open>JSON.parse\<close> with \<open>convertJsonToYaml\<close>, and \<open>JSON.parse\<close> with
  the CSV writer), each either the text produced or the error thrown; and what
  \<open>GET /fragments/:id\<close> answers when a fragment's metadata is stored and its content is not,
  a state no handler produces (the code then reads a property of \<open>undefined\<close>).
\<close>

record runtime =
  md_render :: "unicode \<Rightarrow> unicode"
  yaml_load :: "unicode \<Rightarrow> json option"
  number_toString :: "real \<Rightarrow> unicode"
  sharp_toFormat :: "string \<Rightarrow> byte list \<Rightarrow> string + byte list"
  json_to_yaml :: "unicode \<Rightarrow> error + unicode"
  json_to_csv :: "unicode \<Rightarrow> error + unicode"
  clock :: "nat \<Rightarrow> string"
  randomUUID :: string
  missing_data :: "Fragment \<Rightarrow> string option \<Rightarrow> response"

text \<open>\<open>s.split(sep)\<close> for a separator of one character.\<close>

fun js_split :: "'a \<Rightarrow> 'a list \<Rightarrow> 'a list list" where
  "js_split sep [] = [[]]"
| "js_split sep (c # cs) =
     (if c = sep then [] # js_split sep cs
      else (case js_split sep cs of [] \<Rightarrow> [[c]] | x # xs \<Rightarrow> (c # x) # xs))"

definition trim_u :: "unicode \<Rightarrow> unicode" where
  "trim_u s = trim_by js_whitespace s"

text \<open>\<open>text.replace(/<[^>]*>/g, '')\<close>: every \<open><\<close> up to the next \<open>>\<close> is removed.\<close>

function strip_tags :: "unicode \<Rightarrow> unicode" where
  "strip_tags [] = []"
| "strip_tags (c # cs) =
     (if c = 60 then
        (case dropWhile (\<lambda>x. x \<noteq> 62) cs of
           [] \<Rightarrow> c # cs
         | _ # rest \<Rightarrow> strip_tags rest)
      else c # strip_tags cs)"
  by pat_completeness auto
termination
proof (relation "measure length")
  fix c x :: nat and cs rest :: "nat list"
  assume "dropWhile (\<lambda>x. x \<noteq> 62) cs = x # rest"
  then have "length (x # rest) \<le> length cs"
    using length_dropWhile_le [of "\<lambda>x. x \<noteq> 62" cs] by simp
  then show "(rest, c # cs) \<in> measure length" by simp
qed auto

text \<open>\<open>values[i] || ''\<close>.\<close>

definition value_at :: "unicode list \<Rightarrow> nat \<Rightarrow> unicode" where
  "value_at values i = (if i < length values then values ! i else [])"

text \<open>The object built for one data line of a CSV text.\<close>

definition csv_row :: "unicode list \<Rightarrow> unicode \<Rightarrow> json" where
  "csv_row headers line =
     (let values = map trim_u (js_split 44 line)
      in JObject (foldl (\<lambda>obj ih. set_property obj (snd ih) (JString (value_at values (fst ih))))
                        [] (enumerate 0 headers)))"

text \<open>The rows of the CSV to JSON branch, before they are written out.\<close>

definition csv_rows :: "unicode \<Rightarrow> json list" where
  "csv_rows text =
     (let lines = filter (\<lambda>line. trim_u line \<noteq> []) (js_split 10 text)
      in case lines of
           [] \<Rightarrow> []
         | header # rest \<Rightarrow> map (csv_row (map trim_u (js_split 44 header))) rest)"

definition convertTextToText :: "runtime \<Rightarrow> byte list \<Rightarrow> string \<Rightarrow> string \<Rightarrow> error + byte list" where
  "convertTextToText R data sourceType targetType =
     (let text = utf8_decode data in
      if sourceType = ''text/markdown'' \<and> targetType = ''text/html''
        then Inr (utf8_encode (md_render R text))
      else if sourceType = ''text/html'' \<and> targetType = ''text/markdown''
        then Inr (utf8_encode (strip_tags text))
      else if sourceType = ''application/json'' \<and> targetType = ''application/yaml''
        then (case json_to_yaml R text of Inl e \<Rightarrow> Inl e | Inr y \<Rightarrow> Inr (utf8_encode y))
      else if sourceType = ''application/yaml'' \<and> targetType = ''application/json''
        then
          (case (case yaml_load R text of
                   None \<Rightarrow> None
                 | Some json \<Rightarrow> JSON_stringify (number_toString R) json) of
             Some s \<Rightarrow> Inr (utf8_encode s)
           | None \<Rightarrow>
               Inr (utf8_encode (serialize (number_toString R) 0
                                   (JObject [(ascii ''content'', JString text)]))))
      else if sourceType = ''text/csv'' \<and> targetType = ''application/json''
        then Inr (utf8_encode (serialize (number_toString R) 0 (JArray (csv_rows text))))
      else if sourceType = ''application/json'' \<and> targetType = ''text/csv''
        then (case json_to_csv R text of Inl e \<Rightarrow> Inl e | Inr c \<Rightarrow> Inr (utf8_encode c))
      else Inr (utf8_encode text))"

definition outputFormat :: "string \<Rightarrow> string option" where
  "outputFormat targetType =
     (if targetType = ''image/png'' then Some ''png''
      else if targetType = ''image/jpeg'' then Some ''jpeg''
      else if targetType = ''image/webp'' then Some ''webp''
      else if targetType = ''image/gif'' then Some ''gif''
      else None)"

definition convertImageToImage :: "runtime \<Rightarrow> byte list \<Rightarrow> string \<Rightarrow> string \<Rightarrow> error + byte list" where
  "convertImageToImage R data sourceType targetType =
     (case outputFormat targetType of
        None \<Rightarrow>
          Inl (Error (''Image conversion failed: '' @ ''Unsupported target image format: '' @ targetType))
      | Some fmt \<Rightarrow>
          (case sharp_toFormat R fmt data of
             Inl m \<Rightarrow> Inl (Error (''Image conversion failed: '' @ m))
           | Inr converted \<Rightarrow> Inr converted))"

definition textTypes :: "string list" where
  "textTypes =
     [''text/plain'', ''text/markdown'', ''text/html'', ''text/csv'', ''application/json'',
      ''application/yaml'']"

definition imageTypes :: "string list" where
  "imageTypes = [''image/png'', ''image/jpeg'', ''image/webp'', ''image/gif'']"

definition isConversionSupported :: "string \<Rightarrow> string \<Rightarrow> bool" where
  "isConversionSupported sourceType targetType =
     (if sourceType = targetType then True
      else if sourceType \<in> set textTypes \<and> targetType \<in> set textTypes then True
      else if sourceType \<in> set imageTypes \<and> targetType \<in> set imageTypes then True
      else False)"

definition convertFragmentData :: "runtime \<Rightarrow> byte list \<Rightarrow> string \<Rightarrow> string \<Rightarrow> error + byte list" where
  "convertFragmentData R data sourceType targetType =
     (if sourceType = targetType then Inr data
      else if sourceType \<in> set textTypes \<and> targetType \<in> set textTypes
        then convertTextToText R data sourceType targetType
      else if sourceType \<in> set imageTypes \<and> targetType \<in> set imageTypes
        then convertImageToImage R data sourceType targetType
      else Inl (Error (''Conversion from '' @ sourceType @ '' to '' @ targetType @ '' is not supported'')))"

text \<open>
  The table \<open>extensionToMimeType\<close>. Every key starts with a dot, so no inherited property of
  the object can be looked up through it.
\<close>

definition extensionToMimeType :: "string \<Rightarrow> string option" where
  "extensionToMimeType =
     map_of [(''.txt'', ''text/plain''), (''.md'', ''text/markdown''), (''.html'', ''text/html''),
             (''.json'', ''application/json''), (''.csv'', ''text/csv''),
             (''.yaml'', ''application/yaml''), (''.yml'', ''application/yaml''),
             (''.png'', ''image/png''), (''.jpg'', ''image/jpeg''), (''.jpeg'', ''image/jpeg''),
             (''.webp'', ''image/webp''), (''.gif'', ''image/gif''), (''.avif'', ''image/avif'')]"

text \<open>\<open>s.lastIndexOf(c)\<close>; \<open>None\<close> is the result -1.\<close>

definition lastIndexOf :: "'a list \<Rightarrow> 'a \<Rightarrow> nat option" where
  "lastIndexOf s c =
     (if c \<in> set s then Some (length s - 1 - length (takeWhile (\<lambda>x. x \<noteq> c) (rev s))) else None)"

text \<open>\<open>parseFragmentId\<close>: the id and the extension (\<open>None\<close> is \<open>null\<close>).\<close>

definition parseFragmentId :: "string \<Rightarrow> string \<times> string option" where
  "parseFragmentId idParam =
     (case lastIndexOf idParam CHR ''.'' of
        None \<Rightarrow> (idParam, None)
      | Some lastDot \<Rightarrow>
          if lastDot = 0 \<or> lastDot = length idParam - 1 then (idParam, None)
          else (take lastDot idParam, Some (drop (lastDot + 1) idParam)))"

section \<open>Base64\<close>

text \<open>
  \<open>Buffer.from(s, 'base64')\<close>. The decoder reads the string by its UTF-16 code units and of
  each unit only the low eight bits: a code point of the supplementary planes is two units (a
  surrogate pair), and a unit above 255 counts as the character of its low byte. Characters
  outside the alphabet (the URL-safe letters \<open>-\<close> and \<open>_\<close> belong to it) are skipped, the first
  \<open>=\<close> ends the input, four characters give three bytes and a last group of three or two
  characters gives two bytes or one.
\<close>

definition utf16_units :: "unicode \<Rightarrow> nat list" where
  "utf16_units s =
     concat (map (\<lambda>cp. if cp < 65536 then [cp]
                       else [55296 + (cp - 65536) div 1024, 56320 + (cp - 65536) mod 1024]) s)"

definition unbase64 :: "nat \<Rightarrow> nat option" where
  "unbase64 c =
     (if 65 \<le> c \<and> c \<le> 90 then Some (c - 65)
      else if 97 \<le> c \<and> c \<le> 122 then Some (c - 71)
      else if 48 \<le> c \<and> c \<le> 57 then Some (c + 4)
      else if c = 43 \<or> c = 45 then Some 62
      else if c = 47 \<or> c = 95 then Some 63
      else None)"

fun decode_groups :: "nat list \<Rightarrow> byte list" where
  "decode_groups (a # b # c # d # rest) =
     [of_nat (a * 4 + b div 16), of_nat ((b mod 16) * 16 + c div 4), of_nat ((c mod 4) * 64 + d)]
       @ decode_groups rest"
| "decode_groups [a, b, c] = [of_nat (a * 4 + b div 16), of_nat ((b mod 16) * 16 + c div 4)]"
| "decode_groups [a, b] = [of_nat (a * 4 + b div 16)]"
| "decode_groups _ = []"

definition base64_decode :: "unicode \<Rightarrow> byte list" where
  "base64_decode s =
     decode_groups
       (List.map_filter unbase64
          (takeWhile (\<lambda>c. c \<noteq> 61) (map (\<lambda>u. u mod 256) (utf16_units s))))"

section \<open>The memory backend\<close>

text \<open>
  Modelled from the spec: the class \<open>MemoryDB\<close> (\<open>src/model/data/memory/memory-db.js\<close>, which
  is not among the sources). The spec describes the ephemeral backend as a key-value store keyed
  by \<open>(ownerId, id)\<close>, where a lookup of a key that was never written gives \<open>absent\<close> and the
  deletion of a non-existent key is an error "missing entry for key"; the repository's test
  \<open>memory.test.js\<close> gives the message in full.
\<close>

type_synonym 'v MemoryDB = "string \<times> string \<Rightarrow> 'v option"

definition db_get :: "'v MemoryDB \<Rightarrow> string \<Rightarrow> string \<Rightarrow> 'v option" where
  "db_get db primaryKey secondaryKey = db (primaryKey, secondaryKey)"

definition db_put :: "'v MemoryDB \<Rightarrow> string \<Rightarrow> string \<Rightarrow> 'v \<Rightarrow> 'v MemoryDB" where
  "db_put db primaryKey secondaryKey v = db((primaryKey, secondaryKey) \<mapsto> v)"

definition db_del :: "'v MemoryDB \<Rightarrow> string \<Rightarrow> string \<Rightarrow> error option \<times> 'v MemoryDB" where
  "db_del db primaryKey secondaryKey =
     (case db (primaryKey, secondaryKey) of
        None \<Rightarrow>
          (Some (Error (''missing entry for primaryKey='' @ primaryKey @ '' and secondaryKey=''
                         @ secondaryKey)), db)
      | Some _ \<Rightarrow> (None, db((primaryKey, secondaryKey) := None)))"

text \<open>
  The two databases of \<open>src/model/data/memory/index.js\<close>. The metadata is stored as the JSON
  text of the fragment and parsed when read; \<open>JSON_roundtrip\<close> is what
  \<open>JSON.parse(JSON.stringify(fragment))\<close> gives: the six properties, with a size that is not
  finite turned into \<open>null\<close>.
\<close>

record memory =
  metadata :: "Fragment_args MemoryDB"
  contents :: "byte list MemoryDB"

definition JSON_roundtrip :: "Fragment \<Rightarrow> Fragment_args" where
  "JSON_roundtrip f =
     \<lparr>arg_id = Some (fid f), arg_ownerId = Some (ownerId f), arg_created = Some (created f),
      arg_updated = Some (updated f), arg_type = Some (ftype f),
      arg_size = (case fsize f of Finite r \<Rightarrow> Number (Finite r) | _ \<Rightarrow> Null)\<rparr>"

definition writeFragment :: "Fragment \<Rightarrow> memory \<Rightarrow> memory" where
  "writeFragment fragment s =
     s\<lparr>metadata := db_put (metadata s) (ownerId fragment) (fid fragment) (JSON_roundtrip fragment)\<rparr>"

definition readFragment :: "string \<Rightarrow> string \<Rightarrow> memory \<Rightarrow> Fragment_args option" where
  "readFragment owner i s = db_get (metadata s) owner i"

definition writeFragmentData :: "string \<Rightarrow> string \<Rightarrow> byte list \<Rightarrow> memory \<Rightarrow> memory" where
  "writeFragmentData owner i buffer s = s\<lparr>contents := db_put (contents s) owner i buffer\<rparr>"

definition readFragmentData :: "string \<Rightarrow> string \<Rightarrow> memory \<Rightarrow> byte list option" where
  "readFragmentData owner i s = db_get (contents s) owner i"

text \<open>
  \<open>deleteFragment\<close> starts both deletions (\<open>Promise.all\<close>); each one takes effect whether or
  not the other fails, and the first failure is the result.
\<close>

definition deleteFragment :: "string \<Rightarrow> string \<Rightarrow> memory \<Rightarrow> error option \<times> memory" where
  "deleteFragment owner i s =
     (let (e1, m) = db_del (metadata s) owner i;
          (e2, d) = db_del (contents s) owner i
      in (case e1 of Some e \<Rightarrow> Some e | None \<Rightarrow> e2, s\<lparr>metadata := m, contents := d\<rparr>))"

text \<open>
  Modelled from the spec: \<open>query\<close> of the class \<open>MemoryDB\<close>, which is not among the sources.
  The spec describes it as the list of the records stored for an owner, in the order of their
  insertion; the model keeps the records listed and not their order.
\<close>

definition db_query :: "'v MemoryDB \<Rightarrow> string \<Rightarrow> 'v set" where
  "db_query db primaryKey = {v. \<exists>secondaryKey. db (primaryKey, secondaryKey) = Some v}"

text \<open>
  \<open>listFragments\<close>: the parsed records when \<open>expand\<close> is set and their ids otherwise; when
  nothing is stored for the owner the result is the empty list whatever \<open>expand\<close> is.
\<close>

datatype listing = ListedIds "string option set" | Listed "Fragment_args set"

definition listFragments :: "string \<Rightarrow> bool \<Rightarrow> memory \<Rightarrow> listing" where
  "listFragments owner expand s =
     (let fragments = db_query (metadata s) owner
      in if fragments = {} then ListedIds {}
         else if expand then Listed fragments
         else ListedIds (arg_id ` fragments))"

section \<open>The methods of Fragment that use the database\<close>

text \<open>The body of a request after the raw body parser: a Buffer, or the empty object.\<close>

datatype body = Buffer "byte list" | NoBuffer

definition byId :: "runtime \<Rightarrow> string \<Rightarrow> string \<Rightarrow> memory \<Rightarrow> error + Fragment" where
  "byId R owner i s =
     (case readFragment owner i s of
        None \<Rightarrow> Inl (Error (''Fragment not found: '' @ i))
      | Some fragment \<Rightarrow> Fragment_constructor (clock R 0) (randomUUID R) fragment)"

text \<open>
  \<open>Fragment.byUser\<close>: with \<open>expand\<close> every listed record goes through the constructor, and
  the result is \<open>None\<close> when the constructor throws for one of them; a list of ids (with
  \<open>expand\<close> only the empty list is one) is returned as it is.
\<close>

definition byUser :: "runtime \<Rightarrow> string \<Rightarrow> bool \<Rightarrow> memory \<Rightarrow> fragments option" where
  "byUser R owner expand s =
     (case listFragments owner expand s of
        ListedIds ids \<Rightarrow> Some (Ids ids)
      | Listed records \<Rightarrow>
          if \<exists>a\<in>records. isl (Fragment_constructor (clock R 0) (randomUUID R) a) then None
          else Some (Expanded ((\<lambda>a. projr (Fragment_constructor (clock R 0) (randomUUID R) a))
                                 ` records)))"

definition save :: "string \<Rightarrow> Fragment \<Rightarrow> memory \<Rightarrow> Fragment \<times> memory" where
  "save now f s = (let f' = f\<lparr>updated := now\<rparr> in (f', writeFragment f' s))"

definition setData :: "string \<Rightarrow> string \<Rightarrow> body \<Rightarrow> Fragment \<Rightarrow> memory \<Rightarrow> (error + Fragment) \<times> memory" where
  "setData now1 now2 d f s =
     (case d of
        NoBuffer \<Rightarrow> (Inl (Error ''data must be a Buffer''), s)
      | Buffer bytes \<Rightarrow>
          let f1 = f\<lparr>fsize := Finite (real (length bytes)), updated := now1\<rparr>;
              s1 = writeFragmentData (ownerId f1) (fid f1) bytes s;
              (f2, s2) = save now2 f1 s1
          in (Inr f2, s2))"

definition getData :: "Fragment \<Rightarrow> memory \<Rightarrow> byte list option" where
  "getData f s = readFragmentData (ownerId f) (fid f) s"

section \<open>The routes (src/routes/api)\<close>

text \<open>
  A request as a handler sees it: \<open>req.user\<close> (set by the authentication middleware, absent
  when nobody is authenticated), the Content-Type header, \<open>req.body\<close> and \<open>req.params.id\<close>.
\<close>

record request =
  user :: "string option"
  content_type :: "string option"
  body :: body
  id_param :: string

text \<open>
  The raw body parser of \<open>index.js\<close> (\<open>express.raw\<close> with \<open>limit: '5mb'\<close> and the \<open>type\<close>
  function of the repository): the body becomes a Buffer when the request has one and its
  Content-Type parses to a supported type; a body above the limit is refused.
\<close>

record raw_request =
  raw_user :: "string option"
  raw_content_type :: "string option"
  has_body :: bool
  raw_payload :: "byte list"
  raw_id_param :: string

definition rawBody_type :: "string option \<Rightarrow> bool" where
  "rawBody_type h =
     (if falsy h then False
      else (case contentType_parse (the h) of Inl _ \<Rightarrow> False | Inr ty \<Rightarrow> isSupportedType ty))"

definition rawBody :: "raw_request \<Rightarrow> error + request" where
  "rawBody q =
     (if has_body q \<and> rawBody_type (raw_content_type q) then
        if 5 * 1024 * 1024 < length (raw_payload q) then Inl (Error ''request entity too large'')
        else Inr \<lparr>user = raw_user q, content_type = raw_content_type q,
                  body = Buffer (raw_payload q), id_param = raw_id_param q\<rparr>
      else Inr \<lparr>user = raw_user q, content_type = raw_content_type q, body = NoBuffer,
                id_param = raw_id_param q\<rparr>)"

text \<open>The \<open>catch\<close> block shared by the handlers that look a fragment up.\<close>

definition on_error :: "error \<Rightarrow> response" where
  "on_error err =
     (if str_includes (message err) ''Fragment not found''
      then Json 404 (ErrorResponse 404 ''Fragment not found'')
      else Next err)"

text \<open>
  \<open>POST /fragments\<close> (post.js). A body of more than seven bytes whose first seven bytes read
  \<open>base64,\<close> is replaced by the base64 decoding of the rest.
\<close>

definition decode_body :: "byte list \<Rightarrow> byte list" where
  "decode_body b =
     (if 7 < length b \<and> utf8_decode (take 7 b) = ascii ''base64,''
      then base64_decode (utf8_decode (drop 7 b)) else b)"


definition post :: "runtime \<Rightarrow> request \<Rightarrow> memory \<Rightarrow> response \<times> memory" where
  "post R req s =
     (if falsy (user req) then (Json 401 (ErrorResponse 401 ''Authentication required''), s)
      else if falsy (content_type req) \<or> trim (the (content_type req)) = []
        then (Json 400 (ErrorResponse 400 ''Content-Type header is required''), s)
      else
        (case contentType_parse (trim (the (content_type req))) of
           Inl _ \<Rightarrow> (Json 400 (ErrorResponse 400 ''Invalid Content-Type header''), s)
         | Inr parsedType \<Rightarrow>
             if \<not> isSupportedType parsedType
               then (Json 415 (ErrorResponse 415 ''Unsupported content type''), s)
             else
               (case body req of
                  NoBuffer \<Rightarrow> (Json 400 (ErrorResponse 400 ''Body required''), s)
                | Buffer b \<Rightarrow>
                    if length b = 0 then (Json 400 (ErrorResponse 400 ''Body required''), s)
                    else
                      let bodyData = decode_body b in
                        (case Fragment_constructor (clock R 0) (randomUUID R)
                                \<lparr>arg_id = None, arg_ownerId = user req, arg_created = None,
                                 arg_updated = None, arg_type = content_type req,
                                 arg_size = Number (Finite (real (length bodyData)))\<rparr> of
                           Inl err \<Rightarrow> (Next err, s)
                         | Inr fragment \<Rightarrow>
                             let (f1, s1) = save (clock R 1) fragment s;
                                 (r, s2) = setData (clock R 2) (clock R 3) (Buffer bodyData) f1 s1
                             in (case r of
                                   Inl err \<Rightarrow> (Next err, s2)
                                 | Inr f2 \<Rightarrow> (Json 201 (FragmentResponse f2), s2))))))"

text \<open>\<open>PUT /fragments/:id\<close> (put.js).\<close>

definition put :: "runtime \<Rightarrow> request \<Rightarrow> memory \<Rightarrow> response \<times> memory" where
  "put R req s =
     (if falsy (user req) then (Json 401 (ErrorResponse 401 ''Authentication required''), s)
      else if id_param req = [] then (Json 400 (ErrorResponse 400 ''Fragment ID required''), s)
      else if falsy (content_type req) \<or> trim (the (content_type req)) = []
        then (Json 400 (ErrorResponse 400 ''Content-Type header is required''), s)
      else
        (case contentType_parse (trim (the (content_type req))) of
           Inl _ \<Rightarrow> (Json 400 (ErrorResponse 400 ''Invalid Content-Type header''), s)
         | Inr requestMimeType \<Rightarrow>
             (case body req of
                NoBuffer \<Rightarrow> (Json 400 (ErrorResponse 400 ''Body required''), s)
              | Buffer b \<Rightarrow>
                  if length b = 0 then (Json 400 (ErrorResponse 400 ''Body required''), s)
                  else
                    (case byId R (the (user req)) (id_param req) s of
                       Inl err \<Rightarrow> (on_error err, s)
                     | Inr fragment \<Rightarrow>
                         (case mimeType fragment of
                            Inl err \<Rightarrow> (on_error err, s)
                          | Inr existingMimeType \<Rightarrow>
                              if existingMimeType \<noteq> requestMimeType
                                then (Json 400 (ErrorResponse 400
                                        ''Content-Type does not match existing fragment type''), s)
                              else
                                let f1 = (if the (content_type req) \<noteq> ftype fragment
                                          then fragment\<lparr>ftype := the (content_type req)\<rparr>
                                          else fragment);
                                    (r, s1) = setData (clock R 1) (clock R 2) (Buffer b) f1 s
                                in (case r of
                                      Inl err \<Rightarrow> (on_error err, s1)
                                    | Inr f2 \<Rightarrow> (Json 200 (FragmentResponse f2), s1)))))))"

text \<open>\<open>DELETE /fragments/:id\<close> (delete.js).\<close>

definition delete :: "runtime \<Rightarrow> request \<Rightarrow> memory \<Rightarrow> response \<times> memory" where
  "delete R req s =
     (if falsy (user req) then (Json 401 (ErrorResponse 401 ''Authentication required''), s)
      else if id_param req = [] then (Json 400 (ErrorResponse 400 ''Fragment ID required''), s)
      else
        (case byId R (the (user req)) (id_param req) s of
           Inl err \<Rightarrow> (on_error err, s)
         | Inr fragment \<Rightarrow>
             (case deleteFragment (the (user req)) (id_param req) s of
                (Some err, s1) \<Rightarrow> (on_error err, s1)
              | (None, s1) \<Rightarrow> (Json 200 (MessageResponse ''Fragment deleted successfully''), s1))))"

text \<open>
  \<open>GET /fragments/:id/info\<close> (get-by-id-info.js). With an empty id the handler calls the
  result of \<open>res.json\<close> as a function, which throws.
\<close>

definition get_by_id_info :: "runtime \<Rightarrow> request \<Rightarrow> memory \<Rightarrow> response \<times> memory" where
  "get_by_id_info R req s =
     (if falsy (user req) then (Json 401 (ErrorResponse 401 ''Authentication required''), s)
      else if id_param req = []
        then (Next (TypeError ''res.status(...).json(...) is not a function''), s)
      else
        (case byId R (the (user req)) (id_param req) s of
           Inl err \<Rightarrow> (on_error err, s)
         | Inr fragment \<Rightarrow> (Json 200 (FragmentResponse fragment), s)))"

text \<open>
  \<open>GET /fragments\<close> (get.js). \<open>expand\<close> is the query parameter of that name, when it is a
  string. Whatever \<open>Fragment.byUser\<close> throws is answered with status 500.
\<close>

definition get :: "runtime \<Rightarrow> string option \<Rightarrow> request \<Rightarrow> memory \<Rightarrow> response \<times> memory" where
  "get R expand req s =
     (if falsy (user req) then (Json 401 (ErrorResponse 401 ''Authentication required''), s)
      else
        (case byUser R (the (user req)) (expand = Some ''1'' \<or> expand = Some ''true'') s of
           None \<Rightarrow> (Json 500 (ErrorResponse 500 ''Unable to retrieve fragments''), s)
         | Some fragments \<Rightarrow> (Json 200 (FragmentsResponse fragments), s)))"

text \<open>
  \<open>GET /fragments/:id\<close> (get-by-id.js), with an optional extension in the id. The media type
  of the fragment is read first where the code reads it first (in the log entry of an unknown
  extension, or in the check of the conversion).
\<close>

definition get_by_id :: "runtime \<Rightarrow> request \<Rightarrow> memory \<Rightarrow> response \<times> memory" where
  "get_by_id R req s =
     (if falsy (user req) then (Json 401 (ErrorResponse 401 ''Authentication required''), s)
      else
        let (fragmentId, extension) = parseFragmentId (id_param req) in
        if fragmentId = [] then (Json 400 (ErrorResponse 400 ''Fragment ID required''), s)
        else
          (case byId R (the (user req)) fragmentId s of
             Inl err \<Rightarrow> (on_error err, s)
           | Inr fragment \<Rightarrow>
               let fragmentData = getData fragment s in
               if falsy extension then
                 (case fragmentData of
                    None \<Rightarrow> (missing_data R fragment extension, s)
                  | Some d \<Rightarrow> (Send 200 (ftype fragment) d, s))
               else
                 (case mimeType fragment of
                    Inl err \<Rightarrow> (on_error err, s)
                  | Inr sourceType \<Rightarrow>
                      (case extensionToMimeType (''.'' @ toLowerCase (the extension)) of
                         None \<Rightarrow>
                           (Json 415 (ErrorResponse 415
                              (''Unknown or unsupported type: '' @ the extension)), s)
                       | Some targetMimeType \<Rightarrow>
                           if \<not> isConversionSupported sourceType targetMimeType
                             then (Json 415 (ErrorResponse 415
                                     (''Cannot convert '' @ sourceType @ '' to '' @ targetMimeType)), s)
                           else
                             (case fragmentData of
                                None \<Rightarrow> (missing_data R fragment extension, s)
                              | Some d \<Rightarrow>
                                  if sourceType \<noteq> targetMimeType then
                                    (case convertFragmentData R d sourceType targetMimeType of
                                       Inl err \<Rightarrow> (Json 415 (ErrorResponse 415 (message err)), s)
                                     | Inr responseData \<Rightarrow> (Send 200 targetMimeType responseData, s))
                                  else (Send 200 targetMimeType d, s))))))"

text \<open>The two routes that run the raw body parser before their handler.\<close>

definition route_post :: "runtime \<Rightarrow> raw_request \<Rightarrow> memory \<Rightarrow> response \<times> memory" where
  "route_post R q s = (case rawBody q of Inl err \<Rightarrow> (Next err, s) | Inr req \<Rightarrow> post R req s)"

definition route_put :: "runtime \<Rightarrow> raw_request \<Rightarrow> memory \<Rightarrow> response \<times> memory" where
  "route_put R q s = (case rawBody q of Inl err \<Rightarrow> (Next err, s) | Inr req \<Rightarrow> put R req s)"

section \<open>Fixtures for evaluating the handlers\<close>

text \<open>
  \<open>reset\<close> of the memory backend: both databases empty.
\<close>

definition reset :: memory where
  "reset = \<lparr>metadata = Map.empty, contents = Map.empty\<rparr>"

text \<open>
  A runtime on which the handlers can be evaluated at concrete requests. The clock and the
  generated id are fixed; markdown rendering is a placeholder; \<open>yaml.load\<close> and \<open>sharp\<close> are
  the ones of a payload they reject, and the two open branches those of a text that is not JSON.
  For a fragment whose content is missing it gives what a read without conversion does: the
  handler reads the length of \<open>undefined\<close> and hands the error to \<open>next\<close>.
\<close>

definition test_runtime :: runtime where
  "test_runtime =
     \<lparr>md_render = (\<lambda>t. t),
      yaml_load = (\<lambda>t. None),
      number_toString = (\<lambda>r. []),
      sharp_toFormat = (\<lambda>f d. Inl ''Input buffer contains unsupported image format''),
      json_to_yaml = (\<lambda>t. Inl (Error ''Invalid JSON: Unexpected end of JSON input'')),
      json_to_csv = (\<lambda>t. Inl (Error ''Invalid JSON: Unexpected end of JSON input'')),
      clock = (\<lambda>k. ''2024-01-01T00:00:00.000Z''),
      randomUUID = ''30a84843-0cd4-4975-95ba-b96112aea189'',
      missing_data =
        (\<lambda>f e. Next (TypeError ''Cannot read properties of undefined (reading 'length')''))\<rparr>"

text \<open>The store after \<open>user1\<close> has created one \<open>text/plain\<close> fragment with the content \<open>Hi\<close>.\<close>

definition one_fragment :: memory where
  "one_fragment =
     snd (post test_runtime
            \<lparr>user = Some ''user1'', content_type = Some ''text/plain'', body = Buffer [72, 105],
             id_param = []\<rparr> reset)"


subsection \<open>Notions used to state owner isolation\<close>

text \<open>The answer of every by-id handler for a fragment that does not exist.\<close>

definition not_found :: response where
  "not_found = Json 404 (ErrorResponse 404 ''Fragment not found'')"

text \<open>
  A store is well keyed when the metadata kept under a pair of keys names that owner and that
  id, as everything \<open>writeFragment\<close> stores for a fragment does.
\<close>

definition well_keyed :: "memory \<Rightarrow> bool" where
  "well_keyed s =
     (\<forall>owner i a. metadata s (owner, i) = Some a \<longrightarrow> arg_ownerId a = Some owner \<and> arg_id a = Some i)"

text \<open>Two stores hold the same for every owner other than \<open>B\<close>.\<close>

definition same_for_others :: "string \<Rightarrow> memory \<Rightarrow> memory \<Rightarrow> bool" where
  "same_for_others B s s' =
     (\<forall>owner i. owner \<noteq> B \<longrightarrow>
        metadata s' (owner, i) = metadata s (owner, i) \<and> contents s' (owner, i) = contents s (owner, i))"

text \<open>Two stores hold the same for the owner \<open>B\<close>.\<close>

definition same_for :: "string \<Rightarrow> memory \<Rightarrow> memory \<Rightarrow> bool" where
  "same_for B s1 s2 =
     (\<forall>i. metadata s1 (B, i) = metadata s2 (B, i) \<and> contents s1 (B, i) = contents s2 (B, i))"

section \<open>Verified properties\<close>

subsection \<open>Evaluation of the content-type parser\<close>

lemmas ct_eval = contentType_parse_def trim_def trim_by_def js_whitespace_def is_media_type_def
  is_token_def is_token_char_def toLowerCase_def lower_char_def match_param_def match_value_def
  is_space_def

lemma parse_text_plain: "contentType_parse ''text/plain'' = Inr ''text/plain''"
  by (simp add: ct_eval)

lemma parse_application_xml: "contentType_parse ''application/xml'' = Inr ''application/xml''"
  by (simp add: ct_eval)

subsection \<open>C7: validation in the Fragment constructor\<close>

text \<open>
  C7. The constructor runs its checks in this order and throws at the first that fails:
  a missing \<open>ownerId\<close> ("ownerId is required") and a missing \<open>type\<close> ("type is required")
  are the spec's ValidationError; a type whose media type does not parse or is not in the
  registry \<open>supportedTypes\<close> ("Unsupported type: ...") is the spec's UnsupportedType; a \<open>size\<close>
  that is not a number ("size must be a number") or is negative ("size cannot be negative") is
  again a ValidationError. When every check passes the fragment is built: its \<open>id\<close> is the
  supplied one, or the generated \<open>uuid\<close> when none is supplied, and \<open>created\<close> and \<open>updated\<close>
  are the supplied ones, or the current time when not supplied. That the generated id is unique
  is a property of \<open>crypto.randomUUID\<close>, whose result is an input here.
\<close>

theorem Fragment_constructor_validation:
  fixes a :: Fragment_args and now uuid :: string
  defines "r \<equiv> Fragment_constructor now uuid a"
  shows "(falsy (arg_ownerId a) \<longrightarrow> r = Inl (Error ''ownerId is required''))
    \<and> (\<not> falsy (arg_ownerId a) \<and> falsy (arg_type a) \<longrightarrow> r = Inl (Error ''type is required''))
    \<and> (\<not> falsy (arg_ownerId a) \<and> arg_type a = Some t \<and> t \<noteq> [] \<and>
         (\<forall>m. contentType_parse t = Inr m \<longrightarrow> m \<notin> set supportedTypes) \<longrightarrow>
           r = Inl (Error (''Unsupported type: '' @ t)))
    \<and> (\<not> falsy (arg_ownerId a) \<and> arg_type a = Some t \<and> t \<noteq> [] \<and>
         contentType_parse t = Inr m \<and> m \<in> set supportedTypes \<longrightarrow>
           (arg_size a = Number n \<and> less_zero n \<longrightarrow> r = Inl (Error ''size cannot be negative''))
         \<and> (arg_size a \<noteq> Undefined \<and> (\<forall>k. arg_size a \<noteq> Number k) \<longrightarrow>
               r = Inl (Error ''size must be a number''))
         \<and> ((arg_size a = Undefined \<and> n = Finite 0) \<or> (arg_size a = Number n \<and> \<not> less_zero n) \<longrightarrow>
               r = Inr \<lparr>fid = (if falsy (arg_id a) then uuid else the (arg_id a)),
                        ownerId = the (arg_ownerId a),
                        created = (if falsy (arg_created a) then now else the (arg_created a)),
                        updated = (if falsy (arg_updated a) then now else the (arg_updated a)),
                        ftype = t, fsize = n\<rparr>))"
  unfolding r_def Fragment_constructor_def isSupportedType_def falsy_def or_else_def
  by (auto split: sum.splits jsval.splits option.splits)


theorem Fragment_constructor_validation_witness:
  "Fragment_constructor ''2024-01-01T00:00:00.000Z'' ''uuid-1''
      \<lparr>arg_id = None, arg_ownerId = None, arg_created = None, arg_updated = None,
       arg_type = Some ''text/plain'', arg_size = Undefined\<rparr> = Inl (Error ''ownerId is required'')
   \<and> Fragment_constructor ''2024-01-01T00:00:00.000Z'' ''uuid-1''
      \<lparr>arg_id = None, arg_ownerId = Some ''user1'', arg_created = None, arg_updated = None,
       arg_type = None, arg_size = Undefined\<rparr> = Inl (Error ''type is required'')
   \<and> Fragment_constructor ''2024-01-01T00:00:00.000Z'' ''uuid-1''
      \<lparr>arg_id = None, arg_ownerId = Some ''user1'', arg_created = None, arg_updated = None,
       arg_type = Some ''application/xml'', arg_size = Undefined\<rparr>
       = Inl (Error ''Unsupported type: application/xml'')
   \<and> Fragment_constructor ''2024-01-01T00:00:00.000Z'' ''uuid-1''
      \<lparr>arg_id = None, arg_ownerId = Some ''user1'', arg_created = None, arg_updated = None,
       arg_type = Some ''text/plain'', arg_size = Number (Finite (- 1))\<rparr>
       = Inl (Error ''size cannot be negative'')
   \<and> Fragment_constructor ''2024-01-01T00:00:00.000Z'' ''uuid-1''
      \<lparr>arg_id = None, arg_ownerId = Some ''user1'', arg_created = None, arg_updated = None,
       arg_type = Some ''text/plain'', arg_size = String ''12''\<rparr>
       = Inl (Error ''size must be a number'')
   \<and> Fragment_constructor ''2024-01-01T00:00:00.000Z'' ''uuid-1''
      \<lparr>arg_id = None, arg_ownerId = Some ''user1'', arg_created = None, arg_updated = None,
       arg_type = Some ''text/plain'', arg_size = Undefined\<rparr>
       = Inr \<lparr>fid = ''uuid-1'', ownerId = ''user1'', created = ''2024-01-01T00:00:00.000Z'',
              updated = ''2024-01-01T00:00:00.000Z'', ftype = ''text/plain'', fsize = Finite 0\<rparr>"
  using
    Fragment_constructor_validation [where now = "''2024-01-01T00:00:00.000Z''" and uuid = "''uuid-1''"
      and a = "\<lparr>arg_id = None, arg_ownerId = None, arg_created = None, arg_updated = None,
       arg_type = Some ''text/plain'', arg_size = Undefined\<rparr>"]
    Fragment_constructor_validation [where now = "''2024-01-01T00:00:00.000Z''" and uuid = "''uuid-1''"
      and a = "\<lparr>arg_id = None, arg_ownerId = Some ''user1'', arg_created = None, arg_updated = None,
       arg_type = None, arg_size = Undefined\<rparr>"]
    Fragment_constructor_validation [where now = "''2024-01-01T00:00:00.000Z''" and uuid = "''uuid-1''"
      and t = "''application/xml''"
      and a = "\<lparr>arg_id = None, arg_ownerId = Some ''user1'', arg_created = None, arg_updated = None,
       arg_type = Some ''application/xml'', arg_size = Undefined\<rparr>"]
    Fragment_constructor_validation [where now = "''2024-01-01T00:00:00.000Z''" and uuid = "''uuid-1''"
      and t = "''text/plain''" and m = "''text/plain''" and n = "Finite (- 1)"
      and a = "\<lparr>arg_id = None, arg_ownerId = Some ''user1'', arg_created = None, arg_updated = None,
       arg_type = Some ''text/plain'', arg_size = Number (Finite (- 1))\<rparr>"]
    Fragment_constructor_validation [where now = "''2024-01-01T00:00:00.000Z''" and uuid = "''uuid-1''"
      and t = "''text/plain''" and m = "''text/plain''"
      and a = "\<lparr>arg_id = None, arg_ownerId = Some ''user1'', arg_created = None, arg_updated = None,
       arg_type = Some ''text/plain'', arg_size = String ''12''\<rparr>"]
    Fragment_constructor_validation [where now = "''2024-01-01T00:00:00.000Z''" and uuid = "''uuid-1''"
      and t = "''text/plain''" and m = "''text/plain''" and n = "Finite 0"
      and a = "\<lparr>arg_id = None, arg_ownerId = Some ''user1'', arg_created = None, arg_updated = None,
       arg_type = Some ''text/plain'', arg_size = Undefined\<rparr>"]
  by (simp add: falsy_def supportedTypes_def parse_text_plain parse_application_xml)

subsection \<open>The UTF-8 decoder, one lead byte at a time\<close>

lemma decode_one: "bytes_needed (unat b) = 1 \<Longrightarrow> utf8_decode (b # bs) = unat b # utf8_decode bs"
  by (simp add: Let_def split del: if_split)

lemma decode_none:
  "bytes_needed (unat b) = 0 \<Longrightarrow> utf8_decode (b # bs) = 65533 # utf8_decode bs"
  by (simp add: Let_def split del: if_split)

lemma decode_two:
  "bytes_needed (unat b) = 2 \<Longrightarrow>
   utf8_decode (b # bs) =
     (case bs of
        [] \<Rightarrow> [65533]
      | c # cs \<Rightarrow>
          if continuation 128 191 c
          then ((unat b mod 32) * 64 + unat c mod 64) # utf8_decode cs
          else 65533 # utf8_decode bs)"
  by (simp add: Let_def split del: if_split)

lemma decode_three:
  "bytes_needed (unat b) = 3 \<Longrightarrow>
   utf8_decode (b # bs) =
     (case bs of
        [] \<Rightarrow> [65533]
      | c # cs \<Rightarrow>
          if continuation (lower_boundary (unat b)) (upper_boundary (unat b)) c then
            (case cs of
               [] \<Rightarrow> [65533]
             | d # ds \<Rightarrow>
                 if continuation 128 191 d
                 then ((unat b mod 16) * 4096 + (unat c mod 64) * 64 + unat d mod 64) # utf8_decode ds
                 else 65533 # utf8_decode cs)
          else 65533 # utf8_decode bs)"
  by (simp add: Let_def split del: if_split)

lemma decode_four:
  "bytes_needed (unat b) = 4 \<Longrightarrow>
   utf8_decode (b # bs) =
     (case bs of
        [] \<Rightarrow> [65533]
      | c # cs \<Rightarrow>
          if continuation (lower_boundary (unat b)) (upper_boundary (unat b)) c then
            (case cs of
               [] \<Rightarrow> [65533]
             | d # ds \<Rightarrow>
                 if continuation 128 191 d then
                   (case ds of
                      [] \<Rightarrow> [65533]
                    | e # es \<Rightarrow>
                        if continuation 128 191 e
                        then ((unat b mod 8) * 262144 + (unat c mod 64) * 4096 + (unat d mod 64) * 64
                                + unat e mod 64) # utf8_decode es
                        else 65533 # utf8_decode ds)
                 else 65533 # utf8_decode cs)
          else 65533 # utf8_decode bs)"
  by (simp add: Let_def split del: if_split)


lemma mod_range: "k * m \<le> (c::nat) \<Longrightarrow> c < k * m + m \<Longrightarrow> c mod m = c - k * m"
proof -
  assume a: "k * m \<le> c" "c < k * m + m"
  then obtain r where r: "c = k * m + r" by (metis le_Suc_ex)
  with a have "r < m" by simp
  with r show ?thesis by simp
qed

lemma two_byte_ge: "bytes_needed n = 2 \<Longrightarrow> (128::nat) \<le> (n mod 32) * 64 + x"
proof -
  assume "bytes_needed n = 2"
  then have b: "194 \<le> n \<and> n \<le> 223" by (auto simp: bytes_needed_def split: if_splits)
  then have "n mod 32 = n - 6 * 32" by (intro mod_range) simp_all
  with b have "2 \<le> n mod 32" by linarith
  then have "2 * 64 \<le> (n mod 32) * 64" by (rule mult_le_mono1)
  then show ?thesis by simp
qed

lemma three_byte_ge:
  assumes "bytes_needed n = 3" "lower_boundary n \<le> c" "c \<le> (191::nat)"
  shows "(128::nat) \<le> (n mod 16) * 4096 + ((c mod 64) * 64 + y)"
proof (cases "n = 224")
  case True
  with assms have c: "160 \<le> c" by (simp add: lower_boundary_def)
  with assms have "c mod 64 = c - 2 * 64" by (intro mod_range) simp_all
  with c have "32 \<le> c mod 64" by linarith
  then have "32 * 64 \<le> (c mod 64) * 64" by (rule mult_le_mono1)
  then show ?thesis by simp
next
  case False
  from assms(1) have b: "224 \<le> n \<and> n \<le> 239" by (auto simp: bytes_needed_def split: if_splits)
  then have "n mod 16 = n - 14 * 16" by (intro mod_range) simp_all
  with False b have "1 \<le> n mod 16" by linarith
  then have "1 * 4096 \<le> (n mod 16) * 4096" by (rule mult_le_mono1)
  then show ?thesis by simp
qed

lemma four_byte_ge:
  assumes "bytes_needed n = 4" "lower_boundary n \<le> c" "c \<le> (191::nat)"
  shows "(128::nat) \<le> (n mod 8) * 262144 + ((c mod 64) * 4096 + y)"
proof (cases "n = 240")
  case True
  with assms have c: "144 \<le> c" by (simp add: lower_boundary_def)
  with assms have "c mod 64 = c - 2 * 64" by (intro mod_range) simp_all
  with c have "16 \<le> c mod 64" by linarith
  then have "16 * 4096 \<le> (c mod 64) * 4096" by (rule mult_le_mono1)
  then show ?thesis by simp
next
  case False
  from assms(1) have b: "240 \<le> n \<and> n \<le> 244" by (auto simp: bytes_needed_def split: if_splits)
  then have "n mod 8 = n - 30 * 8" by (intro mod_range) simp_all
  with False b have "1 \<le> n mod 8" by linarith
  then have "1 * 262144 \<le> (n mod 8) * 262144" by (rule mult_le_mono1)
  then show ?thesis by simp
qed

lemma upper_boundary_le: "upper_boundary n \<le> 191"
  by (simp add: upper_boundary_def)

lemma bytes_needed_high:
  "128 \<le> n \<Longrightarrow> bytes_needed n = 0 \<or> bytes_needed n = 2 \<or> bytes_needed n = 3 \<or> bytes_needed n = 4"
  by (simp add: bytes_needed_def)

lemma decode_ascii: "unat b < 128 \<Longrightarrow> utf8_decode (b # bs) = unat b # utf8_decode bs"
  by (rule decode_one) (simp add: bytes_needed_def)

lemma utf8_decode_high_head:
  assumes "128 \<le> unat b"
  shows "\<exists>c rest. utf8_decode (b # bs) = c # rest \<and> 128 \<le> c"
proof -
  let ?n = "unat b"
  from bytes_needed_high [OF assms]
  consider "bytes_needed ?n = 0" | "bytes_needed ?n = 2" | "bytes_needed ?n = 3"
    | "bytes_needed ?n = 4" by auto
  then show ?thesis
  proof cases
    case 1
    then show ?thesis by (simp add: decode_none del: utf8_decode.simps)
  next
    case 2
    then show ?thesis using two_byte_ge [of ?n]
      by (auto simp: decode_two simp del: utf8_decode.simps split: list.splits)
  next
    case 3
    then show ?thesis using three_byte_ge [of ?n] upper_boundary_le [of ?n]
      by (auto simp: decode_three continuation_def add.assoc simp del: utf8_decode.simps
          split: list.splits intro: order_trans)
  next
    case 4
    then show ?thesis using four_byte_ge [of ?n] upper_boundary_le [of ?n]
      by (auto simp: decode_four continuation_def add.assoc simp del: utf8_decode.simps
          split: list.splits intro: order_trans)
  qed
qed

lemma utf8_decode_ascii_head:
  assumes "utf8_decode bs = c # rest" "c < 128"
  shows "\<exists>bs'. bs = of_nat c # bs' \<and> utf8_decode bs' = rest"
proof (cases bs)
  case Nil
  with assms show ?thesis by simp
next
  case (Cons b bs')
  have "unat b < 128"
  proof (rule ccontr)
    assume "\<not> unat b < 128"
    then have "128 \<le> unat b" by simp
    from utf8_decode_high_head [OF this, of bs'] assms Cons show False by auto
  qed
  then have "utf8_decode (b # bs') = unat b # utf8_decode bs'"
    by (rule decode_ascii)
  with assms Cons show ?thesis by auto
qed

lemma utf8_decode_Nil: "utf8_decode bs = [] \<Longrightarrow> bs = []"
proof (cases bs)
  case Nil
  then show ?thesis by simp
next
  case (Cons b bs')
  assume a: "utf8_decode bs = []"
  show ?thesis
  proof (cases "unat b < 128")
    case True
    then have "utf8_decode (b # bs') = unat b # utf8_decode bs'"
      by (rule decode_ascii)
    with a Cons show ?thesis by simp
  next
    case False
    then have "128 \<le> unat b" by simp
    from utf8_decode_high_head [OF this, of bs'] a Cons show ?thesis by auto
  qed
qed

lemma base64_prefix_bytes:
  "utf8_decode bs = ascii ''base64,'' \<longleftrightarrow> bs = [98, 97, 115, 101, 54, 52, 44]"
proof
  assume a: "utf8_decode bs = ascii ''base64,''"
  then have "utf8_decode bs = 98 # [97, 115, 101, 54, 52, 44]" by (simp add: ascii_def)
  from utf8_decode_ascii_head [OF this] obtain b1 where b1: "bs = 98 # b1" "utf8_decode b1 = 97 # [115, 101, 54, 52, 44]" by auto
  from utf8_decode_ascii_head [OF b1(2)] obtain b2 where b2: "b1 = 97 # b2" "utf8_decode b2 = 115 # [101, 54, 52, 44]" by auto
  from utf8_decode_ascii_head [OF b2(2)] obtain b3 where b3: "b2 = 115 # b3" "utf8_decode b3 = 101 # [54, 52, 44]" by auto
  from utf8_decode_ascii_head [OF b3(2)] obtain b4 where b4: "b3 = 101 # b4" "utf8_decode b4 = 54 # [52, 44]" by auto
  from utf8_decode_ascii_head [OF b4(2)] obtain b5 where b5: "b4 = 54 # b5" "utf8_decode b5 = 52 # [44]" by auto
  from utf8_decode_ascii_head [OF b5(2)] obtain b6 where b6: "b5 = 52 # b6" "utf8_decode b6 = 44 # []" by auto
  from utf8_decode_ascii_head [OF b6(2)] obtain b7 where b7: "b6 = 44 # b7" "utf8_decode b7 = []" by auto
  from utf8_decode_Nil [OF b7(2)] b1 b2 b3 b4 b5 b6 b7
  show "bs = [98, 97, 115, 101, 54, 52, 44]" by simp
next
  assume "bs = [98, 97, 115, 101, 54, 52, 44]"
  then show "utf8_decode bs = ascii ''base64,''"
    by (simp add: ascii_def decode_ascii del: utf8_decode.simps(2))
qed

subsection \<open>Writing and reading back through the memory backend\<close>

lemma trim_text_plain: "trim ''text/plain'' = ''text/plain''"
  by (simp add: ct_eval)

lemma supported_text_plain: "isSupportedType ''text/plain''"
  by (simp add: isSupportedType_def parse_text_plain supportedTypes_def)

lemma setData_Buffer:
  "setData now1 now2 (Buffer d) f s =
     (Inr (f\<lparr>fsize := Finite (real (length d)), updated := now2\<rparr>),
      s\<lparr>contents := (contents s)((ownerId f, fid f) \<mapsto> d),
        metadata := (metadata s)((ownerId f, fid f) \<mapsto>
           JSON_roundtrip (f\<lparr>fsize := Finite (real (length d)), updated := now2\<rparr>))\<rparr>)"
  by (simp add: setData_def save_def writeFragment_def writeFragmentData_def db_put_def Let_def)

lemma setData_size:
  assumes "setData now1 now2 (Buffer d) f s = (Inr f2, s2)"
  shows "db_get (contents s2) (ownerId f2) (fid f2) = Some d
       \<and> db_get (metadata s2) (ownerId f2) (fid f2) = Some (JSON_roundtrip f2)
       \<and> fsize f2 = Finite (real (length d))"
  using assms unfolding setData_Buffer by (auto simp: db_get_def)

lemma post_created:
  assumes "user req = Some owner" "owner \<noteq> []" "content_type req = Some h" "trim h \<noteq> []"
    "contentType_parse (trim h) = Inr t" "isSupportedType t" "isSupportedType h"
    "body req = Buffer b" "b \<noteq> []"
  shows "post R req s =
     (Json 201 (FragmentResponse
        \<lparr>fid = randomUUID R, ownerId = owner, created = clock R 0, updated = clock R 3,
         ftype = h, fsize = Finite (real (length (decode_body b)))\<rparr>),
      s\<lparr>contents := (contents s)((owner, randomUUID R) \<mapsto> decode_body b),
        metadata := (metadata s)((owner, randomUUID R) \<mapsto>
          JSON_roundtrip \<lparr>fid = randomUUID R, ownerId = owner, created = clock R 0,
             updated = clock R 3, ftype = h, fsize = Finite (real (length (decode_body b)))\<rparr>)\<rparr>)"
proof -
  have h: "h \<noteq> []" using assms(4) by (auto simp: trim_def trim_by_def)
  have c: "Fragment_constructor (clock R 0) (randomUUID R)
             \<lparr>arg_id = None, arg_ownerId = Some owner, arg_created = None, arg_updated = None,
              arg_type = Some h, arg_size = Number (Finite (real (length (decode_body b))))\<rparr>
           = Inr \<lparr>fid = randomUUID R, ownerId = owner, created = clock R 0, updated = clock R 0,
                  ftype = h, fsize = Finite (real (length (decode_body b)))\<rparr>"
    using assms(2,7) h by (simp add: Fragment_constructor_def falsy_def or_else_def)
  show ?thesis
    unfolding post_def
    using assms h c
    by (simp add: falsy_def Let_def save_def writeFragment_def db_put_def setData_Buffer)
qed

lemma byId_stored:
  assumes "readFragment owner i s = Some (JSON_roundtrip f)" "ownerId f \<noteq> []"
    "isSupportedType (ftype f)" "fsize f = Finite r" "0 \<le> r" "fid f \<noteq> []"
  shows "\<exists>f'. byId R owner i s = Inr f' \<and> fid f' = fid f \<and> ownerId f' = ownerId f
            \<and> ftype f' = ftype f \<and> fsize f' = fsize f"
proof -
  have "ftype f \<noteq> []" using assms(3)
    by (auto simp: isSupportedType_def contentType_parse_def)
  then show ?thesis
    using assms
    by (simp add: byId_def Fragment_constructor_def JSON_roundtrip_def falsy_def or_else_def)
qed

subsection \<open>C5: the stored size is the length of the stored content\<close>

text \<open>
  C5. Whenever \<open>POST /fragments\<close> answers 201 or \<open>PUT /fragments/:id\<close> answers 200 with a
  fragment, the content stored under the fragment's key \<open>(ownerId, id)\<close> has exactly as many
  bytes as the \<open>size\<close> of the metadata stored under the same key, which is also the size in the
  answer.
\<close>

theorem stored_size_is_content_length:
  assumes "post R req s = (Json 201 (FragmentResponse f), s')
         \<or> put R req s = (Json 200 (FragmentResponse f), s')"
  shows "\<exists>d. db_get (contents s') (ownerId f) (fid f) = Some d
           \<and> db_get (metadata s') (ownerId f) (fid f) = Some (JSON_roundtrip f)
           \<and> arg_size (JSON_roundtrip f) = Number (Finite (real (length d)))
           \<and> fsize f = Finite (real (length d))"
proof -
  from assms obtain now1 now2 d f0 s0 where "setData now1 now2 (Buffer d) f0 s0 = (Inr f, s')"
  proof
    assume p: "post R req s = (Json 201 (FragmentResponse f), s')"
    then show ?thesis
      unfolding post_def
      by (auto simp: Let_def split: if_splits sum.splits body.splits prod.splits intro: that)
  next
    assume p: "put R req s = (Json 200 (FragmentResponse f), s')"
    then show ?thesis
      unfolding put_def on_error_def
      by (auto simp: Let_def split: if_splits sum.splits body.splits prod.splits intro: that)
  qed
  from setData_size [OF this] show ?thesis
    by (auto simp: JSON_roundtrip_def)
qed

subsection \<open>C1: create, then read\<close>

lemma decode_body_plain:
  "\<not> (7 < length b \<and> take 7 b = [98, 97, 115, 101, 54, 52, 44]) \<Longrightarrow> decode_body b = b"
  by (auto simp: decode_body_def base64_prefix_bytes)

lemma decode_body_hello:
  "decode_body [98, 97, 115, 101, 54, 52, 44, 83, 71, 86, 115, 98, 71, 56, 61] = [72, 101, 108, 108, 111]"
  by (simp add: decode_body_def ascii_def base64_decode_def utf16_units_def decode_ascii unbase64_def
      del: utf8_decode.simps(2))

lemma base64_low_byte: "base64_decode [321, 81, 61, 61] = [1]"
  by (simp add: base64_decode_def utf16_units_def unbase64_def List.map_filter_simps)

lemma rawBody_text_plain:
  assumes "raw_content_type q = Some ''text/plain''" "has_body q"
    "length (raw_payload q) \<le> 5 * 1024 * 1024"
  shows "rawBody q = Inr \<lparr>user = raw_user q, content_type = Some ''text/plain'',
                          body = Buffer (raw_payload q), id_param = raw_id_param q\<rparr>"
  using assms
  by (simp add: rawBody_def rawBody_type_def falsy_def parse_text_plain supported_text_plain)

lemma parseFragmentId_no_dot: "CHR ''.'' \<notin> set p \<Longrightarrow> parseFragmentId p = (p, None)"
  by (simp add: parseFragmentId_def lastIndexOf_def)

lemma read_back:
  assumes m: "db_get (metadata s) owner i = Some (JSON_roundtrip f)"
    and c: "db_get (contents s) owner i = Some d"
    and f: "ownerId f = owner" "fid f = i" "owner \<noteq> []" "i \<noteq> []" "CHR ''.'' \<notin> set i"
      "isSupportedType (ftype f)" "fsize f = Finite r" "0 \<le> r"
    and r: "user rd = Some owner" "id_param rd = i"
  shows "(\<exists>f'. get_by_id_info R rd s = (Json 200 (FragmentResponse f'), s) \<and> fsize f' = fsize f
             \<and> fid f' = i \<and> ftype f' = ftype f)
       \<and> get_by_id R rd s = (Send 200 (ftype f) d, s)"
proof -
  from byId_stored [of owner i s f r R] m f
  obtain f' where f': "byId R owner i s = Inr f'" "fid f' = i" "ownerId f' = owner"
    "ftype f' = ftype f" "fsize f' = fsize f"
    by (auto simp: readFragment_def)
  have "get_by_id_info R rd s = (Json 200 (FragmentResponse f'), s)"
    using r f f' by (simp add: get_by_id_info_def falsy_def)
  moreover have "get_by_id R rd s = (Send 200 (ftype f) d, s)"
    using r f f' c
    by (simp add: get_by_id_def falsy_def parseFragmentId_no_dot getData_def readFragmentData_def)
  ultimately show ?thesis using f' by simp
qed

text \<open>
  C1, as amended. For every owner and every byte sequence \<open>X\<close> that is not empty, is at most
  5 MiB long and does not consist of the seven bytes \<open>base64,\<close> followed by more, creating a
  fragment of type \<open>text/plain\<close> with body \<open>X\<close> through \<open>POST /fragments\<close> answers 201 with
  \<open>size = length X\<close>; reading the metadata back gives the same size, and reading the content
  with no extension gives exactly the bytes \<open>X\<close> with Content-Type \<open>text/plain\<close>. The generated
  id is taken to be non-empty and without a dot, as a UUID is.
\<close>

theorem create_then_read_roundtrip:
  assumes q: "raw_user q = Some owner" "owner \<noteq> []" "raw_content_type q = Some ''text/plain''"
      "has_body q" "raw_payload q = X"
    and X: "X \<noteq> []" "length X \<le> 5 * 1024 * 1024"
      "\<not> (7 < length X \<and> take 7 X = [98, 97, 115, 101, 54, 52, 44])"
    and uuid: "randomUUID R \<noteq> []" "CHR ''.'' \<notin> set (randomUUID R)"
    and rd: "user rd = Some owner" "id_param rd = randomUUID R"
  shows "\<exists>f s'. route_post R q s = (Json 201 (FragmentResponse f), s')
           \<and> fid f = randomUUID R \<and> ownerId f = owner \<and> ftype f = ''text/plain''
           \<and> fsize f = Finite (real (length X))
           \<and> (\<exists>f'. get_by_id_info R' rd s' = (Json 200 (FragmentResponse f'), s')
                    \<and> fid f' = fid f \<and> fsize f' = Finite (real (length X)))
           \<and> get_by_id R' rd s' = (Send 200 ''text/plain'' X, s')"
proof -
  let ?f = "\<lparr>fid = randomUUID R, ownerId = owner, created = clock R 0, updated = clock R 3,
             ftype = ''text/plain'', fsize = Finite (real (length X))\<rparr>"
  let ?s = "s\<lparr>contents := (contents s)((owner, randomUUID R) \<mapsto> X),
              metadata := (metadata s)((owner, randomUUID R) \<mapsto> JSON_roundtrip ?f)\<rparr>"
  have body: "decode_body X = X" using X(3) by (rule decode_body_plain)
  have raw: "rawBody q = Inr \<lparr>user = Some owner, content_type = Some ''text/plain'',
                               body = Buffer X, id_param = raw_id_param q\<rparr>"
    using rawBody_text_plain [of q] q X by simp
  have "post R \<lparr>user = Some owner, content_type = Some ''text/plain'', body = Buffer X,
                 id_param = raw_id_param q\<rparr> s = (Json 201 (FragmentResponse ?f), ?s)"
    using post_created [where req = "\<lparr>user = Some owner, content_type = Some ''text/plain'',
        body = Buffer X, id_param = raw_id_param q\<rparr>" and owner = owner and h = "''text/plain''"
        and t = "''text/plain''" and b = X and R = R and s = s] q(2) X(1)
    by (simp add: trim_text_plain parse_text_plain supported_text_plain body)
  then have p: "route_post R q s = (Json 201 (FragmentResponse ?f), ?s)"
    by (simp add: route_post_def raw)
  have "(\<exists>f'. get_by_id_info R' rd ?s = (Json 200 (FragmentResponse f'), ?s) \<and> fsize f' = fsize ?f
             \<and> fid f' = randomUUID R \<and> ftype f' = ftype ?f)
       \<and> get_by_id R' rd ?s = (Send 200 (ftype ?f) X, ?s)"
    by (rule read_back [where r = "real (length X)"])
      (use q uuid rd in \<open>simp_all add: db_get_def supported_text_plain\<close>)
  with p show ?thesis by auto
qed

theorem create_then_read_roundtrip_witness:
  "(\<exists>f s'. route_post test_runtime
        \<lparr>raw_user = Some ''user1'', raw_content_type = Some ''text/plain'', has_body = True,
         raw_payload = [72, 105], raw_id_param = []\<rparr> reset = (Json 201 (FragmentResponse f), s')
      \<and> fid f = ''30a84843-0cd4-4975-95ba-b96112aea189'' \<and> ownerId f = ''user1''
      \<and> ftype f = ''text/plain'' \<and> fsize f = Finite 2
      \<and> (\<exists>f'. get_by_id_info test_runtime
                 \<lparr>user = Some ''user1'', content_type = None, body = NoBuffer,
                  id_param = ''30a84843-0cd4-4975-95ba-b96112aea189''\<rparr> s'
                   = (Json 200 (FragmentResponse f'), s')
               \<and> fid f' = fid f \<and> fsize f' = Finite 2)
      \<and> get_by_id test_runtime
            \<lparr>user = Some ''user1'', content_type = None, body = NoBuffer,
             id_param = ''30a84843-0cd4-4975-95ba-b96112aea189''\<rparr> s'
          = (Send 200 ''text/plain'' [72, 105], s'))"
  using create_then_read_roundtrip [where R = test_runtime and R' = test_runtime
      and owner = "''user1''" and X = "[72, 105]" and s = reset
      and q = "\<lparr>raw_user = Some ''user1'', raw_content_type = Some ''text/plain'', has_body = True,
         raw_payload = [72, 105], raw_id_param = []\<rparr>"
      and rd = "\<lparr>user = Some ''user1'', content_type = None, body = NoBuffer,
                  id_param = ''30a84843-0cd4-4975-95ba-b96112aea189''\<rparr>"]
  by (simp add: test_runtime_def)

theorem create_then_read_roundtrip_counterexample:
  "fst (route_post test_runtime
      \<lparr>raw_user = Some ''user1'', raw_content_type = Some ''text/plain'', has_body = True,
       raw_payload = [], raw_id_param = []\<rparr> reset)
     = Json 400 (ErrorResponse 400 ''Body required'')
   \<and> fst (get_by_id test_runtime
        \<lparr>user = Some ''user1'', content_type = None, body = NoBuffer,
         id_param = ''30a84843-0cd4-4975-95ba-b96112aea189''\<rparr>
        (snd (route_post test_runtime
          \<lparr>raw_user = Some ''user1'', raw_content_type = Some ''text/plain'', has_body = True,
           raw_payload = [98, 97, 115, 101, 54, 52, 44, 83, 71, 86, 115, 98, 71, 56, 61],
           raw_id_param = []\<rparr> reset)))
     = Send 200 ''text/plain'' [72, 101, 108, 108, 111]"
proof -
  have e: "fst (route_post test_runtime
      \<lparr>raw_user = Some ''user1'', raw_content_type = Some ''text/plain'', has_body = True,
       raw_payload = [], raw_id_param = []\<rparr> reset)
     = Json 400 (ErrorResponse 400 ''Body required'')"
    by (simp add: route_post_def rawBody_text_plain post_def falsy_def trim_text_plain
        parse_text_plain supported_text_plain)
  let ?f = "\<lparr>fid = ''30a84843-0cd4-4975-95ba-b96112aea189'', ownerId = ''user1'',
           created = ''2024-01-01T00:00:00.000Z'', updated = ''2024-01-01T00:00:00.000Z'',
           ftype = ''text/plain'', fsize = Finite 5\<rparr>"
  let ?s = "reset\<lparr>contents := (contents reset)((''user1'', ''30a84843-0cd4-4975-95ba-b96112aea189'') \<mapsto> [72, 101, 108, 108, 111]),
          metadata := (metadata reset)((''user1'', ''30a84843-0cd4-4975-95ba-b96112aea189'') \<mapsto>
            JSON_roundtrip ?f)\<rparr>"
  have b: "route_post test_runtime
          \<lparr>raw_user = Some ''user1'', raw_content_type = Some ''text/plain'', has_body = True,
           raw_payload = [98, 97, 115, 101, 54, 52, 44, 83, 71, 86, 115, 98, 71, 56, 61],
           raw_id_param = []\<rparr> reset
     = (Json 201 (FragmentResponse ?f), ?s)"
    using post_created [where req = "\<lparr>user = Some ''user1'', content_type = Some ''text/plain'',
        body = Buffer [98, 97, 115, 101, 54, 52, 44, 83, 71, 86, 115, 98, 71, 56, 61],
        id_param = []\<rparr>" and owner = "''user1''" and h = "''text/plain''"
        and t = "''text/plain''" and b = "[98, 97, 115, 101, 54, 52, 44, 83, 71, 86, 115, 98, 71, 56, 61]"
        and R = test_runtime and s = reset]
    by (simp add: route_post_def rawBody_text_plain trim_text_plain parse_text_plain
        supported_text_plain decode_body_hello test_runtime_def)
  have "get_by_id test_runtime
        \<lparr>user = Some ''user1'', content_type = None, body = NoBuffer,
         id_param = ''30a84843-0cd4-4975-95ba-b96112aea189''\<rparr> ?s
        = (Send 200 (ftype ?f) [72, 101, 108, 108, 111], ?s)"
    by (rule read_back [where r = 5 and owner = "''user1''", THEN conjunct2])
       (simp_all add: db_get_def supported_text_plain)
  with e b show ?thesis by simp
qed

theorem stored_size_is_content_length_witness:
  "post test_runtime
      \<lparr>user = Some ''user1'', content_type = Some ''text/plain'', body = Buffer [72, 105],
       id_param = []\<rparr> reset
     = (Json 201 (FragmentResponse
          \<lparr>fid = ''30a84843-0cd4-4975-95ba-b96112aea189'', ownerId = ''user1'',
           created = ''2024-01-01T00:00:00.000Z'', updated = ''2024-01-01T00:00:00.000Z'',
           ftype = ''text/plain'', fsize = Finite 2\<rparr>),
        reset\<lparr>contents := (contents reset)((''user1'', ''30a84843-0cd4-4975-95ba-b96112aea189'') \<mapsto> [72, 105]),
          metadata := (metadata reset)((''user1'', ''30a84843-0cd4-4975-95ba-b96112aea189'') \<mapsto>
            JSON_roundtrip \<lparr>fid = ''30a84843-0cd4-4975-95ba-b96112aea189'', ownerId = ''user1'',
           created = ''2024-01-01T00:00:00.000Z'', updated = ''2024-01-01T00:00:00.000Z'',
           ftype = ''text/plain'', fsize = Finite 2\<rparr>)\<rparr>)
   \<and> (\<exists>d. db_get (contents (reset\<lparr>contents := (contents reset)((''user1'', ''30a84843-0cd4-4975-95ba-b96112aea189'') \<mapsto> [72, 105]),
          metadata := (metadata reset)((''user1'', ''30a84843-0cd4-4975-95ba-b96112aea189'') \<mapsto>
            JSON_roundtrip \<lparr>fid = ''30a84843-0cd4-4975-95ba-b96112aea189'', ownerId = ''user1'',
           created = ''2024-01-01T00:00:00.000Z'', updated = ''2024-01-01T00:00:00.000Z'',
           ftype = ''text/plain'', fsize = Finite 2\<rparr>)\<rparr>)) ''user1'' ''30a84843-0cd4-4975-95ba-b96112aea189'' = Some d
       \<and> length d = 2)"
proof -
  let ?f = "\<lparr>fid = ''30a84843-0cd4-4975-95ba-b96112aea189'', ownerId = ''user1'',
           created = ''2024-01-01T00:00:00.000Z'', updated = ''2024-01-01T00:00:00.000Z'',
           ftype = ''text/plain'', fsize = Finite 2\<rparr>"
  let ?s = "reset\<lparr>contents := (contents reset)((''user1'', ''30a84843-0cd4-4975-95ba-b96112aea189'') \<mapsto> [72, 105]),
          metadata := (metadata reset)((''user1'', ''30a84843-0cd4-4975-95ba-b96112aea189'') \<mapsto>
            JSON_roundtrip ?f)\<rparr>"
  let ?req = "\<lparr>user = Some ''user1'', content_type = Some ''text/plain'',
        body = Buffer [72, 105], id_param = []\<rparr>"
  have p: "post test_runtime ?req reset = (Json 201 (FragmentResponse ?f), ?s)"
    using post_created [where req = ?req and owner = "''user1''" and h = "''text/plain''"
        and t = "''text/plain''" and b = "[72, 105]" and R = test_runtime and s = reset]
    by (simp add: trim_text_plain parse_text_plain supported_text_plain decode_body_plain
        test_runtime_def)
  from stored_size_is_content_length [of test_runtime ?req reset ?f ?s] p
  have "\<exists>d. db_get (contents ?s) (ownerId ?f) (fid ?f) = Some d
          \<and> fsize ?f = Finite (real (length d))"
    by blast
  with p show ?thesis by auto
qed

subsection \<open>Trimming a header does not change its media type\<close>

lemma trim_end_Nil_iff: "trim_end W xs = [] \<longleftrightarrow> (\<forall>x\<in>set xs. W x)"
  by (induction xs) (auto simp: Let_def)

lemma dropWhile_all: "\<forall>x\<in>set xs. W x \<Longrightarrow> dropWhile W xs = []"
  by simp

lemma dropWhile_trim_end: "dropWhile W (trim_end W xs) = trim_end W (dropWhile W xs)"
  by (induction xs) (auto simp: Let_def trim_end_Nil_iff dropWhile_all)

lemma trim_end_takeWhile:
  assumes "\<And>c. W c \<Longrightarrow> P c"
  shows "trim_end W (takeWhile P (trim_end W xs)) = trim_end W (takeWhile P xs)"
proof (induction xs)
  case Nil
  then show ?case by simp
next
  case (Cons c xs)
  show ?case
  proof (cases "W c \<and> trim_end W xs = []")
    case True
    then have "\<forall>x\<in>set (takeWhile P xs). W x"
      by (auto simp: trim_end_Nil_iff dest: set_takeWhileD)
    then have "trim_end W (takeWhile P xs) = []" by (simp add: trim_end_Nil_iff)
    with True assms show ?thesis by (simp add: Let_def)
  next
    case False
    with Cons show ?thesis by (auto simp: Let_def)
  qed
qed

lemma takeWhile_dropWhile_commute:
  assumes "\<And>c. W c \<Longrightarrow> P c"
  shows "takeWhile P (dropWhile W xs) = dropWhile W (takeWhile P xs)"
  using assms by (induction xs) auto

lemma trim_by_takeWhile:
  assumes "\<And>c. W c \<Longrightarrow> P c"
  shows "trim_by W (takeWhile P (trim_by W xs)) = trim_by W (takeWhile P xs)"
proof -
  have "trim_by W (takeWhile P (trim_by W xs))
      = dropWhile W (trim_end W (takeWhile P (trim_end W (dropWhile W xs))))"
    by (simp add: trim_by_def dropWhile_trim_end)
  also have "\<dots> = dropWhile W (trim_end W (takeWhile P (dropWhile W xs)))"
    by (simp add: trim_end_takeWhile [OF assms])
  also have "\<dots> = dropWhile W (trim_end W (dropWhile W (takeWhile P xs)))"
    by (simp add: takeWhile_dropWhile_commute [OF assms])
  also have "\<dots> = trim_by W (takeWhile P xs)"
    by (simp add: trim_by_def dropWhile_trim_end)
  finally show ?thesis .
qed

lemma whitespace_not_semicolon: "js_whitespace (of_char c) \<Longrightarrow> c \<noteq> CHR '';''"
  by (auto simp: js_whitespace_def)

lemma media_type_of_trimmed:
  "trim (takeWhile (\<lambda>c. c \<noteq> CHR '';'') (trim h)) = trim (takeWhile (\<lambda>c. c \<noteq> CHR '';'') h)"
  unfolding trim_def by (rule trim_by_takeWhile) (rule whitespace_not_semicolon)

lemma parse_trim_same:
  assumes "contentType_parse h = Inr t" "contentType_parse (trim h) = Inr t'"
  shows "t' = t"
  using assms
  by (auto simp: contentType_parse_def Let_def media_type_of_trimmed split: if_splits)

subsection \<open>C4: an update keeps the media type\<close>

lemma one_fragment_eq:
  "one_fragment =
     \<lparr>metadata = [(''user1'', ''30a84843-0cd4-4975-95ba-b96112aea189'') \<mapsto>
         JSON_roundtrip \<lparr>fid = ''30a84843-0cd4-4975-95ba-b96112aea189'', ownerId = ''user1'',
           created = ''2024-01-01T00:00:00.000Z'', updated = ''2024-01-01T00:00:00.000Z'',
           ftype = ''text/plain'', fsize = Finite 2\<rparr>],
      contents = [(''user1'', ''30a84843-0cd4-4975-95ba-b96112aea189'') \<mapsto> [72, 105]]\<rparr>"
  unfolding one_fragment_def
  using post_created [where req = "\<lparr>user = Some ''user1'', content_type = Some ''text/plain'',
        body = Buffer [72, 105], id_param = []\<rparr>" and owner = "''user1''" and h = "''text/plain''"
        and t = "''text/plain''" and b = "[72, 105]" and R = test_runtime and s = reset]
  by (simp add: trim_text_plain parse_text_plain supported_text_plain decode_body_plain
      test_runtime_def reset_def)

lemma byId_one_fragment:
  "byId test_runtime ''user1'' ''30a84843-0cd4-4975-95ba-b96112aea189'' one_fragment
     = Inr \<lparr>fid = ''30a84843-0cd4-4975-95ba-b96112aea189'', ownerId = ''user1'',
           created = ''2024-01-01T00:00:00.000Z'', updated = ''2024-01-01T00:00:00.000Z'',
           ftype = ''text/plain'', fsize = Finite 2\<rparr>"
  by (simp add: one_fragment_eq byId_def readFragment_def db_get_def JSON_roundtrip_def
      Fragment_constructor_def falsy_def or_else_def supported_text_plain)

lemma byId_depends_on_entry:
  "metadata s1 (owner, i) = metadata s (owner, i) \<Longrightarrow> byId R owner i s1 = byId R owner i s"
  by (simp add: byId_def readFragment_def db_get_def)

lemma constructor_valid:
  assumes "Fragment_constructor now uuid a = Inr f"
  shows "isSupportedType (ftype f) \<and> ownerId f \<noteq> [] \<and> \<not> less_zero (fsize f)"
  using assms
  by (auto simp: Fragment_constructor_def falsy_def split: if_splits jsval.splits option.splits)

lemma put_cases:
  assumes "put R req s = (resp, s')"
  shows "s' = s \<or>
    (\<exists>owner h b f m f2. user req = Some owner \<and> owner \<noteq> [] \<and> id_param req \<noteq> []
       \<and> content_type req = Some h \<and> contentType_parse (trim h) = Inr m
       \<and> body req = Buffer b \<and> b \<noteq> []
       \<and> byId R owner (id_param req) s = Inr f \<and> mimeType f = Inr m
       \<and> setData (clock R 1) (clock R 2) (Buffer b)
            (if h \<noteq> ftype f then f\<lparr>ftype := h\<rparr> else f) s = (Inr f2, s')
       \<and> resp = Json 200 (FragmentResponse f2))"
  using assms unfolding put_def
  by (auto simp: Let_def falsy_def setData_Buffer
      split: if_splits sum.splits body.splits option.splits)


lemma byId_valid:
  assumes "byId R owner i s = Inr f"
  shows "isSupportedType (ftype f) \<and> ownerId f \<noteq> [] \<and> \<not> less_zero (fsize f)"
  using assms constructor_valid
  by (auto simp: byId_def split: option.splits)

lemma rawBody_Buffer:
  assumes "rawBody q = Inr req" "body req = Buffer b"
  shows "\<exists>h t. content_type req = Some h \<and> contentType_parse h = Inr t \<and> isSupportedType t"
  using assms
  by (auto simp: rawBody_def rawBody_type_def falsy_def split: if_splits sum.splits option.splits)

lemma rawBody_fields:
  assumes "rawBody q = Inr req"
  shows "user req = raw_user q \<and> id_param req = raw_id_param q \<and> content_type req = raw_content_type q"
  using assms by (auto simp: rawBody_def split: if_splits)

lemma byId_after_write:
  assumes "isSupportedType (ftype f)" "ownerId f \<noteq> []" "fid f \<noteq> []"
  shows "\<exists>f'. byId R (ownerId f) (fid f)
               (s\<lparr>contents := c,
                  metadata := (metadata s)((ownerId f, fid f) \<mapsto>
                     JSON_roundtrip (f\<lparr>fsize := Finite (real n), updated := u\<rparr>))\<rparr>) = Inr f'
            \<and> ftype f' = ftype f"
proof -
  have "ftype f \<noteq> []" using assms(1)
    by (auto simp: isSupportedType_def contentType_parse_def)
  then show ?thesis using assms
    by (simp add: byId_def readFragment_def db_get_def Fragment_constructor_def JSON_roundtrip_def
        falsy_def or_else_def)
qed

lemma put_keeps_media_type:
  assumes e: "byId R owner i s = Inr f" "mimeType f = Inr m"
    and q: "raw_user q = Some owner" "raw_id_param q = i"
  shows "\<exists>f'. byId R owner i (snd (route_put R q s)) = Inr f' \<and> mimeType f' = Inr m"
proof (cases "rawBody q")
  case (Inl err)
  then show ?thesis using e by (simp add: route_put_def)
next
  case (Inr req)
  obtain resp s' where p: "put R req s = (resp, s')" by (cases "put R req s")
  have r: "route_put R q s = (resp, s')" using Inr p by (simp add: route_put_def)
  from put_cases [OF p] show ?thesis
  proof
    assume "s' = s"
    then show ?thesis using e r by simp
  next
    assume "\<exists>owner h b f m f2. user req = Some owner \<and> owner \<noteq> [] \<and> id_param req \<noteq> []
       \<and> content_type req = Some h \<and> contentType_parse (trim h) = Inr m
       \<and> body req = Buffer b \<and> b \<noteq> []
       \<and> byId R owner (id_param req) s = Inr f \<and> mimeType f = Inr m
       \<and> setData (clock R 1) (clock R 2) (Buffer b)
            (if h \<noteq> ftype f then f\<lparr>ftype := h\<rparr> else f) s = (Inr f2, s')
       \<and> resp = Json 200 (FragmentResponse f2)"
    then obtain owner' h b f0 m0 f2 where
      u: "user req = Some owner'" "owner' \<noteq> []" "id_param req \<noteq> []"
      and h: "content_type req = Some h" "contentType_parse (trim h) = Inr m0"
      and b: "body req = Buffer b"
      and f0: "byId R owner' (id_param req) s = Inr f0" "mimeType f0 = Inr m0"
      and w: "setData (clock R 1) (clock R 2) (Buffer b)
            (if h \<noteq> ftype f0 then f0\<lparr>ftype := h\<rparr> else f0) s = (Inr f2, s')"
      by blast
    from rawBody_fields [OF Inr] q u have o: "owner' = owner" "id_param req = i" by simp_all
    with f0 e have same: "f0 = f" "m0 = m" by simp_all
    from rawBody_Buffer [OF Inr b] h obtain t where t: "contentType_parse h = Inr t" by auto
    from parse_trim_same [OF t h(2)] same have tm: "t = m" by simp
    from byId_valid [OF e(1)] e(2) have v: "isSupportedType (ftype f)" "ownerId f \<noteq> []"
      and msup: "m \<in> set supportedTypes"
      by (auto simp: isSupportedType_def mimeType_def)
    let ?f1 = "if h \<noteq> ftype f then f\<lparr>ftype := h\<rparr> else f"
    have f1: "isSupportedType (ftype ?f1)" "contentType_parse (ftype ?f1) = Inr m"
      "ownerId ?f1 = ownerId f" "fid ?f1 = fid f"
      using v t tm msup e(2) by (auto simp: isSupportedType_def mimeType_def)
    have s': "s' = s\<lparr>contents := (contents s)((ownerId f, fid f) \<mapsto> b),
        metadata := (metadata s)((ownerId f, fid f) \<mapsto>
           JSON_roundtrip (?f1\<lparr>fsize := Finite (real (length b)), updated := clock R 2\<rparr>))\<rparr>"
      using w same f1(3,4) unfolding setData_Buffer by auto
    show ?thesis
    proof (cases "(ownerId f, fid f) = (owner, i)")
      case True
      then have k: "ownerId ?f1 = owner" "fid ?f1 = i" by auto
      have "fid ?f1 \<noteq> []" using k o u by simp
      from byId_after_write [where f = ?f1 and R = R and s = s
          and c = "(contents s)((ownerId f, fid f) \<mapsto> b)" and n = "length b"
          and u = "clock R 2", OF f1(1) _ this] v f1(3)
      obtain f' where "byId R (ownerId ?f1) (fid ?f1)
          (s\<lparr>contents := (contents s)((ownerId f, fid f) \<mapsto> b),
             metadata := (metadata s)((ownerId ?f1, fid ?f1) \<mapsto>
               JSON_roundtrip (?f1\<lparr>fsize := Finite (real (length b)), updated := clock R 2\<rparr>))\<rparr>)
            = Inr f'" "ftype f' = ftype ?f1"
        by auto
      then have "byId R owner i s' = Inr f'" "mimeType f' = Inr m"
        using k s' f1(2) True by (auto simp: mimeType_def)
      then show ?thesis using r by auto
    next
      case False
      then have "metadata s' (owner, i) = metadata s (owner, i)"
        using s' by auto
      from byId_depends_on_entry [OF this] e r show ?thesis by simp
    qed
  qed
qed

lemma put_mismatch:
  assumes "user req = Some owner" "owner \<noteq> []" "id_param req = i" "i \<noteq> []"
    "content_type req = Some h" "trim h \<noteq> []" "contentType_parse (trim h) = Inr t"
    "byId R owner i s = Inr f" "mimeType f = Inr m" "t \<noteq> m"
  shows "put R req s =
     (Json 400 (ErrorResponse 400
        (if (\<exists>b. body req = Buffer b \<and> b \<noteq> [])
         then ''Content-Type does not match existing fragment type'' else ''Body required'')), s)"
proof -
  have h: "h \<noteq> []" using assms(6) by (auto simp: trim_def trim_by_def)
  show ?thesis
    using assms h unfolding put_def
    by (cases "body req") (auto simp: falsy_def)
qed

lemma parse_text_html: "contentType_parse ''text/html'' = Inr ''text/html''"
  by (simp add: ct_eval)

lemma trim_text_html: "trim ''text/html'' = ''text/html''"
  by (simp add: ct_eval)

lemma parse_text_plain_charset:
  "contentType_parse ''text/plain; charset=utf-8'' = Inr ''text/plain''"
  by (simp add: ct_eval)

lemma trim_text_plain_charset: "trim ''text/plain; charset=utf-8'' = ''text/plain; charset=utf-8''"
  by (simp add: ct_eval)

lemma parse_nonempty_trim:
  assumes "contentType_parse (trim h) = Inr t"
  shows "trim h \<noteq> [] \<and> h \<noteq> []"
  using assms by (auto simp: contentType_parse_def trim_def trim_by_def)

lemma route_put_mismatch:
  assumes "raw_user q = Some owner" "owner \<noteq> []" "raw_id_param q = i" "i \<noteq> []"
    "raw_content_type q = Some h" "contentType_parse (trim h) = Inr t"
    "byId R owner i s = Inr f" "mimeType f = Inr m" "t \<noteq> m"
  shows "route_put R q s =
     (if has_body q \<and> rawBody_type (Some h) \<and> 5 * 1024 * 1024 < length (raw_payload q)
        then Next (Error ''request entity too large'')
      else Json 400 (ErrorResponse 400
        (if has_body q \<and> rawBody_type (Some h) \<and> raw_payload q \<noteq> []
         then ''Content-Type does not match existing fragment type'' else ''Body required'')), s)"
proof -
  note n = parse_nonempty_trim [OF assms(6)]
  show ?thesis
  proof (cases "has_body q \<and> rawBody_type (Some h)")
    case False
    then have r: "rawBody q = Inr \<lparr>user = raw_user q, content_type = raw_content_type q,
        body = NoBuffer, id_param = raw_id_param q\<rparr>"
      using assms(5) by (auto simp: rawBody_def)
    from False show ?thesis
      unfolding route_put_def r
      using put_mismatch [where req = "\<lparr>user = raw_user q, content_type = raw_content_type q,
        body = NoBuffer, id_param = raw_id_param q\<rparr>" and owner = owner and i = i and h = h
        and t = t and R = R and s = s and f = f and m = m] assms n
      by auto
  next
    case True
    show ?thesis
    proof (cases "5 * 1024 * 1024 < length (raw_payload q)")
      case big: True
      with True assms(5) have r: "rawBody q = Inl (Error ''request entity too large'')"
        by (simp add: rawBody_def)
      from True big show ?thesis unfolding route_put_def r by simp
    next
      case small: False
      with True assms(5) have r: "rawBody q = Inr \<lparr>user = raw_user q,
          content_type = raw_content_type q, body = Buffer (raw_payload q),
          id_param = raw_id_param q\<rparr>"
        by (simp add: rawBody_def)
      from True small show ?thesis
        unfolding route_put_def r
        using put_mismatch [where req = "\<lparr>user = raw_user q, content_type = raw_content_type q,
          body = Buffer (raw_payload q), id_param = raw_id_param q\<rparr>" and owner = owner
          and i = i and h = h and t = t and R = R and s = s and f = f and m = m] assms n
        by auto
    qed
  qed
qed

lemma supported_text_html: "isSupportedType ''text/html''"
  by (simp add: isSupportedType_def parse_text_html supportedTypes_def)

lemma trim_application_xml: "trim ''application/xml'' = ''application/xml''"
  by (simp add: ct_eval)

lemma unsupported_application_xml: "\<not> isSupportedType ''application/xml''"
  by (simp add: isSupportedType_def parse_application_xml supportedTypes_def)

text \<open>
  C4, as amended. For an existing fragment, a \<open>PUT /fragments/:id\<close> whose Content-Type parses
  to a media type different from the fragment's never succeeds and leaves the store (content
  and metadata) as it was. What it answers depends on the raw body parser, which reads the body
  only of a request that has one and whose Content-Type parses to a registered type: if it
  reads a body of more than 5 MiB the request is refused with "request entity too large"; if
  it reads a non-empty body the answer is status 400 with the type mismatch ("Content-Type does
  not match existing fragment type"); in every other case (no body, an empty body, a type
  that is not registered) the answer is status 400 with "Body required", because the handler
  checks the body before it looks the fragment up. The second part says the same of the handler
  alone, for the body the parser left. Consequently no request through the PUT route changes
  the media type of an existing fragment: after the request the fragment is still there and
  its type parses to the same media type (the update may store a type with other parameters).
\<close>

theorem update_type_stability:
  "(raw_user q = Some owner \<and> owner \<noteq> [] \<and> raw_id_param q = i \<and> i \<noteq> []
      \<and> raw_content_type q = Some h \<and> contentType_parse (trim h) = Inr t
      \<and> byId R owner i s = Inr f \<and> mimeType f = Inr m \<and> t \<noteq> m
    \<longrightarrow> route_put R q s =
         (if has_body q \<and> rawBody_type (Some h) \<and> 5 * 1024 * 1024 < length (raw_payload q)
            then Next (Error ''request entity too large'')
          else Json 400 (ErrorResponse 400
            (if has_body q \<and> rawBody_type (Some h) \<and> raw_payload q \<noteq> []
             then ''Content-Type does not match existing fragment type'' else ''Body required'')), s))
   \<and> (user req = Some owner \<and> owner \<noteq> [] \<and> id_param req = i \<and> i \<noteq> []
      \<and> content_type req = Some h \<and> trim h \<noteq> [] \<and> contentType_parse (trim h) = Inr t
      \<and> byId R owner i s = Inr f \<and> mimeType f = Inr m \<and> t \<noteq> m
    \<longrightarrow> put R req s =
         (Json 400 (ErrorResponse 400
            (if (\<exists>b. body req = Buffer b \<and> b \<noteq> [])
             then ''Content-Type does not match existing fragment type'' else ''Body required'')), s))
   \<and> (byId R owner i s = Inr f \<and> mimeType f = Inr m \<and> raw_user q = Some owner \<and> raw_id_param q = i
    \<longrightarrow> (\<exists>f'. byId R owner i (snd (route_put R q s)) = Inr f' \<and> mimeType f' = Inr m))"
  using route_put_mismatch [of q owner i h t R s f m] put_mismatch [of req owner i h t R s f m]
    put_keeps_media_type [of R owner i s f m q]
  by blast

theorem update_type_stability_witness:
  "route_put test_runtime
      \<lparr>raw_user = Some ''user1'', raw_content_type = Some ''text/html'', has_body = True,
       raw_payload = [60], raw_id_param = ''30a84843-0cd4-4975-95ba-b96112aea189''\<rparr> one_fragment
     = (Json 400 (ErrorResponse 400 ''Content-Type does not match existing fragment type''),
        one_fragment)
   \<and> put test_runtime
      \<lparr>user = Some ''user1'', content_type = Some ''text/html'', body = Buffer [60],
       id_param = ''30a84843-0cd4-4975-95ba-b96112aea189''\<rparr> one_fragment
     = (Json 400 (ErrorResponse 400 ''Content-Type does not match existing fragment type''),
        one_fragment)
   \<and> (\<exists>f'. byId test_runtime ''user1'' ''30a84843-0cd4-4975-95ba-b96112aea189''
         (snd (route_put test_runtime
            \<lparr>raw_user = Some ''user1'', raw_content_type = Some ''text/html'', has_body = True,
             raw_payload = [60],
             raw_id_param = ''30a84843-0cd4-4975-95ba-b96112aea189''\<rparr> one_fragment)) = Inr f'
        \<and> mimeType f' = Inr ''text/plain'')"
  using update_type_stability [where R = test_runtime and owner = "''user1''"
      and i = "''30a84843-0cd4-4975-95ba-b96112aea189''" and s = one_fragment
      and h = "''text/html''" and t = "''text/html''" and m = "''text/plain''"
      and f = "\<lparr>fid = ''30a84843-0cd4-4975-95ba-b96112aea189'', ownerId = ''user1'',
           created = ''2024-01-01T00:00:00.000Z'', updated = ''2024-01-01T00:00:00.000Z'',
           ftype = ''text/plain'', fsize = Finite 2\<rparr>"
      and req = "\<lparr>user = Some ''user1'', content_type = Some ''text/html'', body = Buffer [60],
       id_param = ''30a84843-0cd4-4975-95ba-b96112aea189''\<rparr>"
      and q = "\<lparr>raw_user = Some ''user1'', raw_content_type = Some ''text/html'',
             has_body = True, raw_payload = [60],
             raw_id_param = ''30a84843-0cd4-4975-95ba-b96112aea189''\<rparr>"]
  by (simp add: byId_one_fragment mimeType_def parse_text_plain parse_text_html trim_text_html
      rawBody_type_def falsy_def supported_text_html)

theorem update_type_stability_counterexample:
  "byId test_runtime ''user1'' ''30a84843-0cd4-4975-95ba-b96112aea189'' one_fragment
     = Inr \<lparr>fid = ''30a84843-0cd4-4975-95ba-b96112aea189'', ownerId = ''user1'',
           created = ''2024-01-01T00:00:00.000Z'', updated = ''2024-01-01T00:00:00.000Z'',
           ftype = ''text/plain'', fsize = Finite 2\<rparr>
   \<and> contentType_parse ''text/html'' = Inr ''text/html''
   \<and> route_put test_runtime
        \<lparr>raw_user = Some ''user1'', raw_content_type = Some ''text/html'', has_body = False,
         raw_payload = [], raw_id_param = ''30a84843-0cd4-4975-95ba-b96112aea189''\<rparr> one_fragment
     = (Json 400 (ErrorResponse 400 ''Body required''), one_fragment)
   \<and> contentType_parse ''application/xml'' = Inr ''application/xml''
   \<and> route_put test_runtime
        \<lparr>raw_user = Some ''user1'', raw_content_type = Some ''application/xml'', has_body = True,
         raw_payload = [72], raw_id_param = ''30a84843-0cd4-4975-95ba-b96112aea189''\<rparr> one_fragment
     = (Json 400 (ErrorResponse 400 ''Body required''), one_fragment)"
  by (simp add: byId_one_fragment parse_text_html parse_application_xml route_put_def rawBody_def
      rawBody_type_def put_def falsy_def trim_text_html trim_application_xml
      unsupported_application_xml)

lemma clock_test_runtime: "clock test_runtime k = ''2024-01-01T00:00:00.000Z''"
  by (simp add: test_runtime_def)

lemma update_changes_parameters:
  "fst (route_put test_runtime
            \<lparr>raw_user = Some ''user1'', raw_content_type = Some ''text/plain; charset=utf-8'',
             has_body = True, raw_payload = [72],
             raw_id_param = ''30a84843-0cd4-4975-95ba-b96112aea189''\<rparr> one_fragment)
    = Json 200 (FragmentResponse \<lparr>fid = ''30a84843-0cd4-4975-95ba-b96112aea189'', ownerId = ''user1'',
           created = ''2024-01-01T00:00:00.000Z'', updated = ''2024-01-01T00:00:00.000Z'',
           ftype = ''text/plain; charset=utf-8'', fsize = Finite 1\<rparr>)"
  by (simp add: route_put_def rawBody_def rawBody_type_def put_def falsy_def byId_one_fragment
      mimeType_def parse_text_plain parse_text_plain_charset trim_text_plain_charset
      supported_text_plain setData_Buffer clock_test_runtime)

subsection \<open>Owner isolation\<close>

lemma byId_absent:
  "metadata st (owner, i) = None \<Longrightarrow> byId R owner i st = Inl (Error (''Fragment not found: '' @ i))"
  by (simp add: byId_def readFragment_def db_get_def)

lemma on_error_not_found:
  "on_error (Error (''Fragment not found: '' @ i)) = Json 404 (ErrorResponse 404 ''Fragment not found'')"
  by (simp add: on_error_def)

lemma post_success:
  assumes "post R req s = (Json 201 (FragmentResponse f), s')"
  obtains fr d where
    "setData (clock R 2) (clock R 3) (Buffer d) (fr\<lparr>updated := clock R 1\<rparr>)
       (writeFragment (fr\<lparr>updated := clock R 1\<rparr>) s) = (Inr f, s')"
  using assms unfolding post_def
  by (auto simp: Let_def save_def split: if_splits sum.splits body.splits prod.splits)

lemma post_effect:
  assumes "post R req s = (Json 201 (FragmentResponse f), s')"
  shows "\<exists>d. s' = s\<lparr>contents := (contents s)((ownerId f, fid f) \<mapsto> d),
                    metadata := (metadata s)((ownerId f, fid f) \<mapsto> JSON_roundtrip f)\<rparr>"
proof -
  from post_success [OF assms] obtain fr d where
    "setData (clock R 2) (clock R 3) (Buffer d) (fr\<lparr>updated := clock R 1\<rparr>)
       (writeFragment (fr\<lparr>updated := clock R 1\<rparr>) s) = (Inr f, s')" .
  then have "s' = s\<lparr>contents := (contents s)((ownerId f, fid f) \<mapsto> d),
                    metadata := (metadata s)((ownerId f, fid f) \<mapsto> JSON_roundtrip f)\<rparr>"
    unfolding setData_Buffer by (auto simp: writeFragment_def db_put_def)
  then show ?thesis ..
qed

lemma post_other_owner:
  assumes "post R req s = (Json 201 (FragmentResponse f), s')" "B \<noteq> ownerId f"
  shows "metadata s' (B, i) = metadata s (B, i) \<and> contents s' (B, i) = contents s (B, i)"
proof -
  from post_effect [OF assms(1)] obtain d where
    "s' = s\<lparr>contents := (contents s)((ownerId f, fid f) \<mapsto> d),
            metadata := (metadata s)((ownerId f, fid f) \<mapsto> JSON_roundtrip f)\<rparr>" ..
  then show ?thesis using assms(2) by simp
qed

lemma byId_absent_not_found:
  assumes "metadata st (owner, i) = None"
  obtains e where "byId R owner i st = Inl e" "on_error e = not_found"
  using assms byId_absent [of st owner i R] on_error_not_found [of i]
  by (simp add: not_found_def)

lemma info_absent:
  assumes "user r = Some B" "B \<noteq> []" "id_param r = i" "i \<noteq> []" "metadata st (B, i) = None"
  shows "get_by_id_info R r st = (not_found, st)"
proof -
  from byId_absent_not_found [OF assms(5)]
  obtain e where "byId R B i st = Inl e" "on_error e = not_found" .
  with assms show ?thesis by (simp add: get_by_id_info_def falsy_def)
qed

lemma delete_absent:
  assumes "user r = Some B" "B \<noteq> []" "id_param r = i" "i \<noteq> []" "metadata st (B, i) = None"
  shows "delete R r st = (not_found, st)"
proof -
  from byId_absent_not_found [OF assms(5)]
  obtain e where "byId R B i st = Inl e" "on_error e = not_found" .
  with assms show ?thesis by (simp add: delete_def falsy_def)
qed

lemma get_absent:
  assumes "user r = Some B" "B \<noteq> []" "fst (parseFragmentId (id_param r)) = i" "i \<noteq> []"
    "metadata st (B, i) = None"
  shows "get_by_id R r st = (not_found, st)"
proof -
  from byId_absent_not_found [OF assms(5)]
  obtain e where "byId R B i st = Inl e" "on_error e = not_found" .
  with assms show ?thesis
    by (cases "parseFragmentId (id_param r)") (simp add: get_by_id_def falsy_def)
qed

lemma put_absent:
  assumes "user r = Some B" "B \<noteq> []" "id_param r = i" "i \<noteq> []" "metadata st (B, i) = None"
  shows "put R r st =
     (if falsy (content_type r) \<or> trim (the (content_type r)) = []
        then Json 400 (ErrorResponse 400 ''Content-Type header is required'')
      else if \<not> (\<exists>t. contentType_parse (trim (the (content_type r))) = Inr t)
        then Json 400 (ErrorResponse 400 ''Invalid Content-Type header'')
      else if \<not> (\<exists>b. body r = Buffer b \<and> b \<noteq> [])
        then Json 400 (ErrorResponse 400 ''Body required'')
      else not_found, st)"
proof -
  from byId_absent_not_found [OF assms(5)]
  obtain e where "byId R B i st = Inl e" "on_error e = not_found" .
  with assms show ?thesis
    by (cases "body r"; cases "contentType_parse (trim (the (content_type r)))")
       (simp_all add: put_def falsy_def)
qed

lemma well_keyed_write:
  "well_keyed s \<Longrightarrow>
   well_keyed (s\<lparr>contents := c, metadata := (metadata s)((ownerId f, fid f) \<mapsto> JSON_roundtrip f)\<rparr>)"
  by (auto simp: well_keyed_def JSON_roundtrip_def)

lemma byId_well_keyed:
  assumes "well_keyed s" "byId R owner i s = Inr f" "i \<noteq> []"
  shows "ownerId f = owner \<and> fid f = i"
  using assms
  by (auto simp: well_keyed_def byId_def readFragment_def db_get_def Fragment_constructor_def
      or_else_def split: option.splits if_splits jsval.splits)

lemma info_state: "snd (get_by_id_info R r st) = st"
  by (simp add: get_by_id_info_def split: sum.splits)

lemma get_state: "snd (get_by_id R r st) = st"
  by (simp add: get_by_id_def Let_def split: sum.splits option.splits prod.splits)

lemma delete_frame:
  assumes "user r = Some B"
  shows "same_for_others B st (snd (delete R r st))"
    and "well_keyed st \<Longrightarrow> well_keyed (snd (delete R r st))"
  using assms
  by (auto simp: delete_def deleteFragment_def db_del_def falsy_def Let_def same_for_others_def
      well_keyed_def split: sum.splits option.splits prod.splits if_splits)

lemma put_frame:
  assumes "user r = Some B" "well_keyed st"
  shows "same_for_others B st (snd (put R r st))" and "well_keyed (snd (put R r st))"
proof -
  obtain resp s' where p: "put R r st = (resp, s')" by (cases "put R r st")
  from put_cases [OF p]
  have "same_for_others B st s' \<and> well_keyed s'"
  proof
    assume "s' = st"
    then show ?thesis using assms by (simp add: same_for_others_def)
  next
    assume "\<exists>owner h b f m f2. user r = Some owner \<and> owner \<noteq> [] \<and> id_param r \<noteq> []
       \<and> content_type r = Some h \<and> contentType_parse (trim h) = Inr m
       \<and> body r = Buffer b \<and> b \<noteq> []
       \<and> byId R owner (id_param r) st = Inr f \<and> mimeType f = Inr m
       \<and> setData (clock R 1) (clock R 2) (Buffer b)
            (if h \<noteq> ftype f then f\<lparr>ftype := h\<rparr> else f) st = (Inr f2, s')
       \<and> resp = Json 200 (FragmentResponse f2)"
    then obtain h b f f2 where i: "id_param r \<noteq> []"
      and f: "byId R B (id_param r) st = Inr f"
      and w: "setData (clock R 1) (clock R 2) (Buffer b)
            (if h \<noteq> ftype f then f\<lparr>ftype := h\<rparr> else f) st = (Inr f2, s')"
      using assms(1) by auto
    from byId_well_keyed [OF assms(2) f i] have k: "ownerId f = B" "fid f = id_param r" by simp_all
    let ?f1 = "if h \<noteq> ftype f then f\<lparr>ftype := h\<rparr> else f"
    have k1: "ownerId ?f1 = B" "fid ?f1 = id_param r" using k by auto
    from w have s': "s' = st\<lparr>contents := (contents st)((ownerId f2, fid f2) \<mapsto> b),
        metadata := (metadata st)((ownerId f2, fid f2) \<mapsto> JSON_roundtrip f2)\<rparr>"
      and k2: "ownerId f2 = ownerId ?f1" "fid f2 = fid ?f1"
      unfolding setData_Buffer by auto
    have "well_keyed s'" unfolding s' using assms(2) by (rule well_keyed_write)
    moreover have "same_for_others B st s'"
      unfolding s' using k1 k2 by (simp add: same_for_others_def)
    ultimately show ?thesis by simp
  qed
  with p show "same_for_others B st (snd (put R r st))" and "well_keyed (snd (put R r st))"
    by simp_all
qed

lemma post_outcomes:
  assumes "post R r st = (resp, s')"
  shows "s' = st \<or> (\<exists>f. resp = Json 201 (FragmentResponse f) \<and> user r = Some (ownerId f))"
  using assms unfolding post_def
  by (auto simp: Let_def save_def setData_Buffer falsy_def Fragment_constructor_def
      split: if_splits sum.splits body.splits prod.splits option.splits)

lemma post_frame:
  assumes "user r = Some B"
  shows "same_for_others B st (snd (post R r st))"
    and "well_keyed st \<Longrightarrow> well_keyed (snd (post R r st))"
proof -
  obtain resp s' where p: "post R r st = (resp, s')" by (cases "post R r st")
  from post_outcomes [OF p]
  have "same_for_others B st s' \<and> (well_keyed st \<longrightarrow> well_keyed s')"
  proof
    assume "s' = st"
    then show ?thesis by (simp add: same_for_others_def)
  next
    assume "\<exists>f. resp = Json 201 (FragmentResponse f) \<and> user r = Some (ownerId f)"
    then obtain f where f: "resp = Json 201 (FragmentResponse f)" "ownerId f = B"
      using assms by auto
    from post_effect [of R r st f s'] p f obtain d where
      s': "s' = st\<lparr>contents := (contents st)((ownerId f, fid f) \<mapsto> d),
            metadata := (metadata st)((ownerId f, fid f) \<mapsto> JSON_roundtrip f)\<rparr>" by auto
    show ?thesis unfolding s' using f(2) well_keyed_write [of st f]
      by (simp add: same_for_others_def)
  qed
  with p show "same_for_others B st (snd (post R r st))"
    and "well_keyed st \<Longrightarrow> well_keyed (snd (post R r st))"
    by simp_all
qed

lemma byId_same_for:
  "same_for B s1 s2 \<Longrightarrow> byId R B i s1 = byId R B i s2"
  by (simp add: same_for_def byId_def readFragment_def db_get_def)

lemma info_response:
  assumes "same_for B s1 s2" "user r = Some B"
  shows "fst (get_by_id_info R r s1) = fst (get_by_id_info R r s2)"
  using assms byId_same_for [OF assms(1)]
  by (simp add: get_by_id_info_def split: sum.splits)

lemma post_response: "fst (post R r s1) = fst (post R r s2)"
  by (simp add: post_def Let_def save_def setData_Buffer split: sum.splits body.splits)

lemma put_response:
  assumes "same_for B s1 s2" "user r = Some B"
  shows "fst (put R r s1) = fst (put R r s2)"
  using assms byId_same_for [OF assms(1)]
  by (simp add: put_def Let_def setData_Buffer split: sum.splits body.splits)

lemma delete_response:
  assumes "same_for B s1 s2" "user r = Some B"
  shows "fst (delete R r s1) = fst (delete R r s2)"
  using assms byId_same_for [OF assms(1), of R "id_param r"]
  by (auto simp: delete_def deleteFragment_def db_del_def Let_def same_for_def
      split: sum.splits option.splits)

lemma get_response:
  assumes "same_for B s1 s2" "user r = Some B" "well_keyed s1"
  shows "fst (get_by_id R r s1) = fst (get_by_id R r s2)"
proof (cases "falsy (user r) \<or> fst (parseFragmentId (id_param r)) = []")
  case True
  then show ?thesis by (auto simp: get_by_id_def Let_def split: prod.splits)
next
  case False
  obtain i e where pe: "parseFragmentId (id_param r) = (i, e)" by (cases "parseFragmentId (id_param r)")
  with False have i: "i \<noteq> []" by simp
  have same: "byId R B i s2 = byId R B i s1" using byId_same_for [OF assms(1), of R i] by simp
  show ?thesis
  proof (cases "byId R B i s1")
    case (Inl err)
    then have "byId R B i s2 = Inl err" using same by simp
    with Inl assms(2) False pe show ?thesis
      by (simp add: get_by_id_def)
  next
    case (Inr f)
    then have b2: "byId R B i s2 = Inr f" using same by simp
    from byId_well_keyed [OF assms(3) Inr i] have "ownerId f = B" by simp
    then have "getData f s1 = getData f s2"
      using assms(1) by (simp add: getData_def readFragmentData_def db_get_def same_for_def)
    with Inr b2 assms(2) False pe show ?thesis
      by (simp add: get_by_id_def Let_def split: option.splits sum.splits)
  qed
qed

lemma parse_nonempty: "contentType_parse x = Inr t \<Longrightarrow> x \<noteq> []"
  by (auto simp: contentType_parse_def)

lemma trim_nonempty: "trim h \<noteq> [] \<Longrightarrow> h \<noteq> []"
  by (auto simp: trim_def trim_by_def)

lemma isolation_of_created:
  assumes c: "post R req s = (Json 201 (FragmentResponse f), s')" "fid f \<noteq> []"
    and b: "user r = Some B" "B \<noteq> []" "B \<noteq> ownerId f" "metadata s (B, fid f) = None"
  shows "(id_param r = fid f \<longrightarrow>
            get_by_id_info R' r s' = (not_found, s') \<and> delete R' r s' = (not_found, s')
          \<and> put R' r s' = (fst (put R' r s), s')
          \<and> ((\<exists>h t b. content_type r = Some h \<and> contentType_parse (trim h) = Inr t
                 \<and> body r = Buffer b \<and> b \<noteq> []) \<longrightarrow> put R' r s' = (not_found, s')))
       \<and> (fst (parseFragmentId (id_param r)) = fid f \<longrightarrow> get_by_id R' r s' = (not_found, s'))"
proof -
  from post_other_owner [OF c(1) b(3), of "fid f"] b(4)
  have m: "metadata s' (B, fid f) = None" by simp
  have g: "fst (parseFragmentId (id_param r)) = fid f \<longrightarrow> get_by_id R' r s' = (not_found, s')"
    using get_absent [OF b(1,2) _ c(2) m] by blast
  have "id_param r = fid f \<longrightarrow>
            get_by_id_info R' r s' = (not_found, s') \<and> delete R' r s' = (not_found, s')
          \<and> put R' r s' = (fst (put R' r s), s')
          \<and> ((\<exists>h t b. content_type r = Some h \<and> contentType_parse (trim h) = Inr t
                 \<and> body r = Buffer b \<and> b \<noteq> []) \<longrightarrow> put R' r s' = (not_found, s'))"
  proof
    assume i: "id_param r = fid f"
    note p' = put_absent [OF b(1,2) i c(2) m, of R']
    note p = put_absent [OF b(1,2) i c(2) b(4), of R']
    have "put R' r s' = (fst (put R' r s), s')" unfolding p' p by simp
    moreover have "(\<exists>h t b. content_type r = Some h \<and> contentType_parse (trim h) = Inr t
                 \<and> body r = Buffer b \<and> b \<noteq> []) \<longrightarrow> put R' r s' = (not_found, s')"
    proof
      assume "\<exists>h t b. content_type r = Some h \<and> contentType_parse (trim h) = Inr t
                 \<and> body r = Buffer b \<and> b \<noteq> []"
      then obtain h t b where h: "content_type r = Some h" "contentType_parse (trim h) = Inr t"
        "body r = Buffer b" "b \<noteq> []" by blast
      from parse_nonempty [OF h(2)] have "trim h \<noteq> []" .
      with trim_nonempty have "h \<noteq> []" by blast
      with h \<open>trim h \<noteq> []\<close> show "put R' r s' = (not_found, s')"
        unfolding p' by (simp add: falsy_def)
    qed
    ultimately show "get_by_id_info R' r s' = (not_found, s') \<and> delete R' r s' = (not_found, s')
          \<and> put R' r s' = (fst (put R' r s), s')
          \<and> ((\<exists>h t b. content_type r = Some h \<and> contentType_parse (trim h) = Inr t
                 \<and> body r = Buffer b \<and> b \<noteq> []) \<longrightarrow> put R' r s' = (not_found, s'))"
      using info_absent [OF b(1,2) i c(2) m, of R'] delete_absent [OF b(1,2) i c(2) m, of R']
      by blast
  qed
  with g show ?thesis by blast
qed

lemma list_state: "snd (get R e r s) = s"
  by (simp add: get_def split: option.splits)

lemma db_query_same:
  "same_for B s1 s2 \<Longrightarrow> db_query (metadata s1) B = db_query (metadata s2) B"
  by (simp add: same_for_def db_query_def)

lemma list_response:
  assumes "user r = Some B" "same_for B s1 s2"
  shows "fst (get R e r s1) = fst (get R e r s2)"
  using assms db_query_same [OF assms(2)]
  by (simp add: get_def byUser_def listFragments_def split: option.splits)

lemma list_of_created:
  assumes "post R req s = (Json 201 (FragmentResponse f), s')" "user r = Some B" "B \<noteq> ownerId f"
  shows "get R' e r s' = (fst (get R' e r s), s')"
proof -
  have "same_for B s' s"
    using post_other_owner [OF assms(1,3)] by (simp add: same_for_def)
  from list_response [OF assms(2) this, of R' e] list_state [of R' e r s'] show ?thesis
    by (metis prod.collapse)
qed

lemma constructor_owner:
  assumes "Fragment_constructor now uuid a = Inr f" "arg_ownerId a = Some B"
  shows "ownerId f = B"
  using assms
  by (auto simp: Fragment_constructor_def falsy_def or_else_def
      split: if_splits jsval.splits option.splits)

lemma list_own:
  assumes "user r = Some B" "well_keyed st"
    "fst (get R e r st) = Json 200 (FragmentsResponse (Expanded fs))"
  shows "\<forall>f\<in>fs. ownerId f = B"
proof
  fix f assume f: "f \<in> fs"
  let ?c = "Fragment_constructor (clock R 0) (randomUUID R)"
  from assms(1,3) have e: "\<not> (\<exists>a\<in>db_query (metadata st) B. isl (?c a))"
    and fs: "fs = (\<lambda>a. projr (?c a)) ` db_query (metadata st) B"
    by (auto simp: get_def byUser_def listFragments_def Let_def falsy_def
        split: option.splits if_splits listing.splits)
  from f fs obtain a where a: "a \<in> db_query (metadata st) B" "f = projr (?c a)" by blast
  with e have "?c a = Inr f" by (cases "?c a") auto
  moreover from a(1) assms(2) have "arg_ownerId a = Some B"
    by (auto simp: db_query_def well_keyed_def)
  ultimately show "ownerId f = B" by (rule constructor_owner)
qed

lemma list_ids:
  assumes "user r = Some B" "B \<noteq> []" "well_keyed st" "e \<noteq> Some ''1''" "e \<noteq> Some ''true''"
  shows "get R e r st
           = (Json 200 (FragmentsResponse (Ids {Some i | i. metadata st (B, i) \<noteq> None})), st)"
proof -
  have "arg_id ` db_query (metadata st) B = {Some i | i. metadata st (B, i) \<noteq> None}"
  proof (intro set_eqI iffI)
    fix x assume "x \<in> arg_id ` db_query (metadata st) B"
    then obtain a i where a: "metadata st (B, i) = Some a" "x = arg_id a"
      by (auto simp: db_query_def)
    with assms(3) have "arg_id a = Some i" by (auto simp: well_keyed_def)
    with a show "x \<in> {Some i | i. metadata st (B, i) \<noteq> None}" by auto
  next
    fix x assume "x \<in> {Some i | i. metadata st (B, i) \<noteq> None}"
    then obtain i a where a: "x = Some i" "metadata st (B, i) = Some a" by auto
    with assms(3) have "arg_id a = Some i" by (auto simp: well_keyed_def)
    with a show "x \<in> arg_id ` db_query (metadata st) B"
      by (force simp: db_query_def)
  qed
  moreover have "db_query (metadata st) B = {} \<Longrightarrow> {Some i | i. metadata st (B, i) \<noteq> None} = {}"
    by (auto simp: db_query_def)
  ultimately show ?thesis
    using assms(1,2,4,5)
    by (auto simp: get_def byUser_def listFragments_def Let_def falsy_def)
qed

text \<open>
  C6, as amended. A fragment is reachable only through its owner, and to every other
  authenticated user it is indistinguishable from a fragment that does not exist. Let a fragment
  \<open>f\<close> be created, and let \<open>B\<close> be another user, who had nothing stored under the id of
  \<open>f\<close>. Then for \<open>B\<close> the metadata query and the deletion of that id answer NotFound, the read
  of that id, with any extension, answers NotFound, the update answers what it answered
  before \<open>f\<close> existed, which is NotFound once the request has passed the validation of its
  content type and body, and the list of the fragments of \<open>B\<close> is what it was before \<open>f\<close>
  existed; none of them changes the store. Moreover no request of \<open>B\<close>, to any of the six
  handlers (create, update, delete, read, metadata query, list), changes what the store holds
  for another owner; every fragment in the list of \<open>B\<close> is owned by \<open>B\<close>, and the ids listed
  for \<open>B\<close> are exactly the ids under which the store holds a record for \<open>B\<close>; and the answer
  to a request of \<open>B\<close> depends only on what the store holds for \<open>B\<close>.
\<close>

theorem owner_isolation:
  "(post R req s = (Json 201 (FragmentResponse f), s') \<and> fid f \<noteq> [] \<and> user r = Some B \<and> B \<noteq> []
      \<and> B \<noteq> ownerId f \<and> metadata s (B, fid f) = None \<longrightarrow>
      (id_param r = fid f \<longrightarrow>
            get_by_id_info R' r s' = (not_found, s') \<and> delete R' r s' = (not_found, s')
          \<and> put R' r s' = (fst (put R' r s), s')
          \<and> ((\<exists>h t b. content_type r = Some h \<and> contentType_parse (trim h) = Inr t
                 \<and> body r = Buffer b \<and> b \<noteq> []) \<longrightarrow> put R' r s' = (not_found, s')))
       \<and> (fst (parseFragmentId (id_param r)) = fid f \<longrightarrow> get_by_id R' r s' = (not_found, s'))
       \<and> get R' e r s' = (fst (get R' e r s), s'))
   \<and> (user r = Some B \<and> well_keyed st \<longrightarrow>
        (\<forall>H\<in>{post R', put R', delete R', get_by_id R', get_by_id_info R', get R' e}.
            same_for_others B st (snd (H r st)) \<and> well_keyed (snd (H r st)))
        \<and> (\<forall>fs. fst (get R' e r st) = Json 200 (FragmentsResponse (Expanded fs)) \<longrightarrow>
               (\<forall>f\<in>fs. ownerId f = B))
        \<and> (B \<noteq> [] \<and> e \<noteq> Some ''1'' \<and> e \<noteq> Some ''true'' \<longrightarrow>
             get R' e r st
               = (Json 200 (FragmentsResponse (Ids {Some i | i. metadata st (B, i) \<noteq> None})), st)))
   \<and> (user r = Some B \<and> well_keyed s1 \<and> same_for B s1 s2 \<longrightarrow>
        (\<forall>H\<in>{post R', put R', delete R', get_by_id R', get_by_id_info R', get R' e}.
            fst (H r s1) = fst (H r s2)))"
proof -
  have a: "post R req s = (Json 201 (FragmentResponse f), s') \<and> fid f \<noteq> [] \<and> user r = Some B \<and> B \<noteq> []
      \<and> B \<noteq> ownerId f \<and> metadata s (B, fid f) = None \<longrightarrow>
      (id_param r = fid f \<longrightarrow>
            get_by_id_info R' r s' = (not_found, s') \<and> delete R' r s' = (not_found, s')
          \<and> put R' r s' = (fst (put R' r s), s')
          \<and> ((\<exists>h t b. content_type r = Some h \<and> contentType_parse (trim h) = Inr t
                 \<and> body r = Buffer b \<and> b \<noteq> []) \<longrightarrow> put R' r s' = (not_found, s')))
       \<and> (fst (parseFragmentId (id_param r)) = fid f \<longrightarrow> get_by_id R' r s' = (not_found, s'))
       \<and> get R' e r s' = (fst (get R' e r s), s')"
    using isolation_of_created [of R req s f s' r B R'] list_of_created [of R req s f s' r B R' e]
    by blast
  have b1: "user r = Some B \<and> well_keyed st \<longrightarrow>
        (\<forall>H\<in>{post R', put R', delete R', get_by_id R', get_by_id_info R', get R' e}.
            same_for_others B st (snd (H r st)) \<and> well_keyed (snd (H r st)))"
    using post_frame [of r B st R'] put_frame [of r B st R'] delete_frame [of r B st R']
    by (simp add: get_state info_state list_state same_for_others_def)
  have b2: "user r = Some B \<and> well_keyed st \<longrightarrow>
        (\<forall>fs. fst (get R' e r st) = Json 200 (FragmentsResponse (Expanded fs)) \<longrightarrow>
               (\<forall>f\<in>fs. ownerId f = B))"
    using list_own [of r B st R' e] by blast
  have c: "user r = Some B \<and> well_keyed s1 \<and> same_for B s1 s2 \<longrightarrow>
        (\<forall>H\<in>{post R', put R', delete R', get_by_id R', get_by_id_info R', get R' e}.
            fst (H r s1) = fst (H r s2))"
    using post_response [of R' r s1 s2] put_response [of B s1 s2 r R']
      delete_response [of B s1 s2 r R'] get_response [of B s1 s2 r R']
      info_response [of B s1 s2 r R'] list_response [of r B s1 s2 R' e]
    by simp
  have b3: "user r = Some B \<and> well_keyed st \<longrightarrow>
        (B \<noteq> [] \<and> e \<noteq> Some ''1'' \<and> e \<noteq> Some ''true'' \<longrightarrow>
             get R' e r st
               = (Json 200 (FragmentsResponse (Ids {Some i | i. metadata st (B, i) \<noteq> None})), st))"
    using list_ids [of r B st e R'] by blast
  from b1 b2 b3 have b: "user r = Some B \<and> well_keyed st \<longrightarrow>
        (\<forall>H\<in>{post R', put R', delete R', get_by_id R', get_by_id_info R', get R' e}.
            same_for_others B st (snd (H r st)) \<and> well_keyed (snd (H r st)))
        \<and> (\<forall>fs. fst (get R' e r st) = Json 200 (FragmentsResponse (Expanded fs)) \<longrightarrow>
               (\<forall>f\<in>fs. ownerId f = B))
        \<and> (B \<noteq> [] \<and> e \<noteq> Some ''1'' \<and> e \<noteq> Some ''true'' \<longrightarrow>
             get R' e r st
               = (Json 200 (FragmentsResponse (Ids {Some i | i. metadata st (B, i) \<noteq> None})), st))"
    by blast
  from a b c show ?thesis by (intro conjI)
qed

lemma post_one_fragment:
  "post test_runtime
      \<lparr>user = Some ''user1'', content_type = Some ''text/plain'', body = Buffer [72, 105],
       id_param = []\<rparr> reset
     = (Json 201 (FragmentResponse
          \<lparr>fid = ''30a84843-0cd4-4975-95ba-b96112aea189'', ownerId = ''user1'',
           created = ''2024-01-01T00:00:00.000Z'', updated = ''2024-01-01T00:00:00.000Z'',
           ftype = ''text/plain'', fsize = Finite 2\<rparr>), one_fragment)"
  unfolding one_fragment_eq
  using post_created [where req = "\<lparr>user = Some ''user1'', content_type = Some ''text/plain'',
        body = Buffer [72, 105], id_param = []\<rparr>" and owner = "''user1''" and h = "''text/plain''"
        and t = "''text/plain''" and b = "[72, 105]" and R = test_runtime and s = reset]
  by (simp add: trim_text_plain parse_text_plain supported_text_plain decode_body_plain
      test_runtime_def reset_def)

lemma well_keyed_one_fragment: "well_keyed one_fragment"
  by (auto simp: well_keyed_def one_fragment_eq JSON_roundtrip_def split: if_splits)

lemma same_for_user2: "same_for ''user2'' one_fragment reset"
  by (simp add: same_for_def one_fragment_eq reset_def)

lemma metadata_reset: "metadata reset k = None"
  by (simp add: reset_def)

lemma list_reset:
  "fst (get test_runtime None
          \<lparr>user = Some ''user2'', content_type = Some ''text/plain'', body = Buffer [72],
           id_param = ''30a84843-0cd4-4975-95ba-b96112aea189''\<rparr> reset)
     = Json 200 (FragmentsResponse (Ids {}))"
  by (simp add: get_def byUser_def listFragments_def db_query_def reset_def falsy_def)

lemma list_one_fragment:
  "get test_runtime None
      \<lparr>user = Some ''user1'', content_type = None, body = NoBuffer, id_param = []\<rparr> one_fragment
     = (Json 200 (FragmentsResponse (Ids {Some ''30a84843-0cd4-4975-95ba-b96112aea189''})),
        one_fragment)"
proof -
  have "db_query (metadata one_fragment) ''user1''
          = {JSON_roundtrip \<lparr>fid = ''30a84843-0cd4-4975-95ba-b96112aea189'', ownerId = ''user1'',
               created = ''2024-01-01T00:00:00.000Z'', updated = ''2024-01-01T00:00:00.000Z'',
               ftype = ''text/plain'', fsize = Finite 2\<rparr>}"
    by (auto simp: db_query_def one_fragment_eq)
  then show ?thesis
    by (simp add: get_def byUser_def listFragments_def falsy_def JSON_roundtrip_def)
qed

theorem owner_isolation_witness:
  "get_by_id_info test_runtime
      \<lparr>user = Some ''user2'', content_type = Some ''text/plain'', body = Buffer [72],
       id_param = ''30a84843-0cd4-4975-95ba-b96112aea189''\<rparr> one_fragment = (not_found, one_fragment)
   \<and> delete test_runtime
      \<lparr>user = Some ''user2'', content_type = Some ''text/plain'', body = Buffer [72],
       id_param = ''30a84843-0cd4-4975-95ba-b96112aea189''\<rparr> one_fragment = (not_found, one_fragment)
   \<and> put test_runtime
      \<lparr>user = Some ''user2'', content_type = Some ''text/plain'', body = Buffer [72],
       id_param = ''30a84843-0cd4-4975-95ba-b96112aea189''\<rparr> one_fragment = (not_found, one_fragment)
   \<and> get_by_id test_runtime
      \<lparr>user = Some ''user2'', content_type = Some ''text/plain'', body = Buffer [72],
       id_param = ''30a84843-0cd4-4975-95ba-b96112aea189''\<rparr> one_fragment = (not_found, one_fragment)
   \<and> get test_runtime None
      \<lparr>user = Some ''user2'', content_type = Some ''text/plain'', body = Buffer [72],
       id_param = ''30a84843-0cd4-4975-95ba-b96112aea189''\<rparr> one_fragment
     = (Json 200 (FragmentsResponse (Ids {})), one_fragment)
   \<and> same_for_others ''user2'' one_fragment
        (snd (post test_runtime
          \<lparr>user = Some ''user2'', content_type = Some ''text/plain'', body = Buffer [72],
           id_param = ''30a84843-0cd4-4975-95ba-b96112aea189''\<rparr> one_fragment))
   \<and> fst (get_by_id test_runtime
          \<lparr>user = Some ''user2'', content_type = Some ''text/plain'', body = Buffer [72],
           id_param = ''30a84843-0cd4-4975-95ba-b96112aea189''\<rparr> one_fragment)
     = fst (get_by_id test_runtime
          \<lparr>user = Some ''user2'', content_type = Some ''text/plain'', body = Buffer [72],
           id_param = ''30a84843-0cd4-4975-95ba-b96112aea189''\<rparr> reset)"
  using owner_isolation [where R = test_runtime and R' = test_runtime and s = reset
      and s' = one_fragment and st = one_fragment and ?s1.0 = one_fragment and ?s2.0 = reset
      and B = "''user2''" and e = None
      and req = "\<lparr>user = Some ''user1'', content_type = Some ''text/plain'', body = Buffer [72, 105],
       id_param = []\<rparr>"
      and f = "\<lparr>fid = ''30a84843-0cd4-4975-95ba-b96112aea189'', ownerId = ''user1'',
           created = ''2024-01-01T00:00:00.000Z'', updated = ''2024-01-01T00:00:00.000Z'',
           ftype = ''text/plain'', fsize = Finite 2\<rparr>"
      and r = "\<lparr>user = Some ''user2'', content_type = Some ''text/plain'', body = Buffer [72],
       id_param = ''30a84843-0cd4-4975-95ba-b96112aea189''\<rparr>"]
  apply (simp (no_asm_use) add: post_one_fragment well_keyed_one_fragment same_for_user2
      parseFragmentId_no_dot trim_text_plain parse_text_plain metadata_reset list_reset)
  apply (elim conjE)
  apply (intro conjI)
  apply assumption+
  done

theorem owner_isolation_counterexample:
  "route_put test_runtime
      \<lparr>raw_user = Some ''user2'', raw_content_type = Some ''text/plain'', has_body = False,
       raw_payload = [], raw_id_param = ''30a84843-0cd4-4975-95ba-b96112aea189''\<rparr> one_fragment
     = (Json 400 (ErrorResponse 400 ''Body required''), one_fragment)"
  by (simp add: route_put_def rawBody_def put_def falsy_def trim_text_plain parse_text_plain)

subsection \<open>Extensions of a read\<close>

lemma lastIndexOf_split:
  assumes "c \<notin> set e"
  shows "lastIndexOf (a @ c # e) c = Some (length a)"
proof -
  have "takeWhile (\<lambda>x. x \<noteq> c) (rev e @ c # rev a) = rev e"
    using assms by (subst takeWhile_append2) auto
  then show ?thesis by (simp add: lastIndexOf_def)
qed

lemma parseFragmentId_split:
  assumes "CHR ''.'' \<notin> set e"
  shows "parseFragmentId (a @ ''.'' @ e)
           = (if a = [] \<or> e = [] then (a @ ''.'' @ e, None) else (a, Some e))"
  using lastIndexOf_split [OF assms, of a]
  by (auto simp: parseFragmentId_def)

lemma parseFragmentId_Some:
  assumes "parseFragmentId p = (i, Some e)"
  shows "i \<noteq> [] \<and> e \<noteq> [] \<and> CHR ''.'' \<notin> set e \<and> p = i @ ''.'' @ e"
proof (cases "CHR ''.'' \<in> set p")
  case False
  then show ?thesis using assms by (simp add: parseFragmentId_no_dot)
next
  case True
  then obtain a b where p: "p = a @ CHR ''.'' # b" "CHR ''.'' \<notin> set b"
    using split_list_last [of "CHR ''.''" p] by blast
  with assms parseFragmentId_split [of b a] show ?thesis
    by (auto split: if_splits)
qed

lemma supported_family:
  "t \<in> set supportedTypes \<longleftrightarrow> t \<in> set textTypes \<or> t \<in> set imageTypes"
  by (auto simp: supportedTypes_def textTypes_def imageTypes_def)

lemma families_disjoint: "t \<in> set textTypes \<Longrightarrow> t \<notin> set imageTypes"
  by (auto simp: textTypes_def imageTypes_def)

lemma cross_family:
  "(src \<in> set textTypes \<and> t \<in> set imageTypes) \<or> (src \<in> set imageTypes \<and> t \<in> set textTypes)
     \<Longrightarrow> \<not> isConversionSupported src t"
  using families_disjoint [of src] families_disjoint [of t]
  by (auto simp: isConversionSupported_def)

lemma avif_unsupported:
  "src \<in> set supportedTypes \<Longrightarrow> \<not> isConversionSupported src ''image/avif''"
  by (auto simp: isConversionSupported_def supportedTypes_def textTypes_def imageTypes_def)

lemma byId_mimeType:
  assumes "byId R owner i s = Inr f"
  obtains src where "mimeType f = Inr src" "src \<in> set supportedTypes"
  using byId_valid [OF assms]
  by (auto simp: isSupportedType_def mimeType_def split: sum.splits)

lemma table_keys:
  "extensionToMimeType (''.'' @ x) = None \<longleftrightarrow>
     x \<notin> {''txt'', ''md'', ''html'', ''json'', ''csv'', ''yaml'', ''yml'', ''png'', ''jpg'',
          ''jpeg'', ''webp'', ''gif'', ''avif''}"
  by (simp add: extensionToMimeType_def)

lemma table_avif: "extensionToMimeType (''.'' @ ''avif'') = Some ''image/avif''"
  by (simp add: extensionToMimeType_def)

lemma get_with_extension:
  assumes "user req = Some owner" "owner \<noteq> []" "parseFragmentId (id_param req) = (i, Some ext)"
    "byId R owner i s = Inr f" "mimeType f = Inr src"
  shows "get_by_id R req s =
          (case extensionToMimeType (''.'' @ toLowerCase ext) of
             None \<Rightarrow> (Json 415 (ErrorResponse 415 (''Unknown or unsupported type: '' @ ext)), s)
           | Some t \<Rightarrow>
               if \<not> isConversionSupported src t
                 then (Json 415 (ErrorResponse 415 (''Cannot convert '' @ src @ '' to '' @ t)), s)
               else
                 (case getData f s of
                    None \<Rightarrow> (missing_data R f (Some ext), s)
                  | Some d \<Rightarrow>
                      if src \<noteq> t then
                        (case convertFragmentData R d src t of
                           Inl err \<Rightarrow> (Json 415 (ErrorResponse 415 (message err)), s)
                         | Inr responseData \<Rightarrow> (Send 200 t responseData, s))
                      else (Send 200 t d, s)))"
  using assms parseFragmentId_Some [OF assms(3)]
  by (simp add: get_by_id_def falsy_def split: option.splits)

lemma parseFragmentId_None:
  assumes "snd (parseFragmentId p) = None"
  shows "parseFragmentId p = (p, None)"
  using assms
  by (auto simp: parseFragmentId_def split: option.splits if_splits)

lemma mimeType_one_fragment:
  "mimeType \<lparr>fid = ''30a84843-0cd4-4975-95ba-b96112aea189'', ownerId = ''user1'',
           created = ''2024-01-01T00:00:00.000Z'', updated = ''2024-01-01T00:00:00.000Z'',
           ftype = ''text/plain'', fsize = Finite 2\<rparr> = Inr ''text/plain''"
  by (simp add: mimeType_def parse_text_plain)

lemma getData_one_fragment:
  "getData \<lparr>fid = ''30a84843-0cd4-4975-95ba-b96112aea189'', ownerId = ''user1'',
           created = ''2024-01-01T00:00:00.000Z'', updated = ''2024-01-01T00:00:00.000Z'',
           ftype = ''text/plain'', fsize = Finite 2\<rparr> one_fragment = Some [72, 105]"
  by (simp add: getData_def readFragmentData_def db_get_def one_fragment_eq)

lemma parse_with_extension:
  "CHR ''.'' \<notin> set e \<Longrightarrow> e \<noteq> [] \<Longrightarrow>
     parseFragmentId (''30a84843-0cd4-4975-95ba-b96112aea189'' @ ''.'' @ e)
       = (''30a84843-0cd4-4975-95ba-b96112aea189'', Some e)"
  using parseFragmentId_split [of e "''30a84843-0cd4-4975-95ba-b96112aea189''"] by simp

text \<open>
  C3, as amended. Let a request for the content of a stored fragment carry an extension. If
  the extension, in lower case, is none of txt, md, html, json, csv, yaml, yml, png, jpg, jpeg,
  webp, gif and avif, the answer is the error of an unknown extension (status 415, "Unknown or
  unsupported type"). If the extension maps to a type of the other family than the fragment's
  media type (text against image), the answer is the error of an unsupported conversion
  (status 415, "Cannot convert"). The extension avif is in the table of the code, and maps
  to a type of no family: for it the answer is the error of an unsupported conversion as well.
\<close>

theorem extension_errors:
  assumes "user req = Some owner" "owner \<noteq> []"
    "parseFragmentId (id_param req) = (i, Some ext)" "byId R owner i s = Inr f"
  shows "\<exists>src. mimeType f = Inr src
     \<and> (toLowerCase ext \<notin> {''txt'', ''md'', ''html'', ''json'', ''csv'', ''yaml'', ''yml'', ''png'',
                             ''jpg'', ''jpeg'', ''webp'', ''gif'', ''avif''} \<longrightarrow>
          get_by_id R req s
            = (Json 415 (ErrorResponse 415 (''Unknown or unsupported type: '' @ ext)), s))
     \<and> (\<forall>t. extensionToMimeType (''.'' @ toLowerCase ext) = Some t
              \<and> ((src \<in> set textTypes \<and> t \<in> set imageTypes)
                   \<or> (src \<in> set imageTypes \<and> t \<in> set textTypes)) \<longrightarrow>
          get_by_id R req s
            = (Json 415 (ErrorResponse 415 (''Cannot convert '' @ src @ '' to '' @ t)), s))
     \<and> (toLowerCase ext = ''avif'' \<longrightarrow>
          get_by_id R req s
            = (Json 415 (ErrorResponse 415 (''Cannot convert '' @ src @ '' to image/avif'')), s))"
proof -
  from byId_mimeType [OF assms(4)] obtain src where
    src: "mimeType f = Inr src" "src \<in> set supportedTypes" .
  note g = get_with_extension [OF assms src(1)]
  have a: "toLowerCase ext \<notin> {''txt'', ''md'', ''html'', ''json'', ''csv'', ''yaml'', ''yml'',
              ''png'', ''jpg'', ''jpeg'', ''webp'', ''gif'', ''avif''} \<longrightarrow>
          get_by_id R req s
            = (Json 415 (ErrorResponse 415 (''Unknown or unsupported type: '' @ ext)), s)"
  proof
    assume "toLowerCase ext \<notin> {''txt'', ''md'', ''html'', ''json'', ''csv'', ''yaml'', ''yml'',
              ''png'', ''jpg'', ''jpeg'', ''webp'', ''gif'', ''avif''}"
    then have "extensionToMimeType (''.'' @ toLowerCase ext) = None"
      using table_keys [of "toLowerCase ext"] by blast
    with g show "get_by_id R req s
            = (Json 415 (ErrorResponse 415 (''Unknown or unsupported type: '' @ ext)), s)"
      by simp
  qed
  have b: "\<forall>t. extensionToMimeType (''.'' @ toLowerCase ext) = Some t
              \<and> ((src \<in> set textTypes \<and> t \<in> set imageTypes)
                   \<or> (src \<in> set imageTypes \<and> t \<in> set textTypes)) \<longrightarrow>
          get_by_id R req s
            = (Json 415 (ErrorResponse 415 (''Cannot convert '' @ src @ '' to '' @ t)), s)"
  proof (intro allI impI)
    fix t
    assume t: "extensionToMimeType (''.'' @ toLowerCase ext) = Some t
              \<and> ((src \<in> set textTypes \<and> t \<in> set imageTypes)
                   \<or> (src \<in> set imageTypes \<and> t \<in> set textTypes))"
    then have "\<not> isConversionSupported src t" using cross_family [of src t] by simp
    with g t show "get_by_id R req s
            = (Json 415 (ErrorResponse 415 (''Cannot convert '' @ src @ '' to '' @ t)), s)"
      by simp
  qed
  have c: "toLowerCase ext = ''avif'' \<longrightarrow>
          get_by_id R req s
            = (Json 415 (ErrorResponse 415 (''Cannot convert '' @ src @ '' to image/avif'')), s)"
    using g table_avif avif_unsupported [OF src(2)] by simp
  from src(1) a b c show ?thesis by blast
qed

theorem extension_errors_witness:
  "get_by_id test_runtime
      \<lparr>user = Some ''user1'', content_type = None, body = NoBuffer,
       id_param = ''30a84843-0cd4-4975-95ba-b96112aea189.png''\<rparr> one_fragment
     = (Json 415 (ErrorResponse 415 ''Cannot convert text/plain to image/png''), one_fragment)
   \<and> get_by_id test_runtime
      \<lparr>user = Some ''user1'', content_type = None, body = NoBuffer,
       id_param = ''30a84843-0cd4-4975-95ba-b96112aea189.exe''\<rparr> one_fragment
     = (Json 415 (ErrorResponse 415 ''Unknown or unsupported type: exe''), one_fragment)"
  using extension_errors [where R = test_runtime and owner = "''user1''" and s = one_fragment
      and i = "''30a84843-0cd4-4975-95ba-b96112aea189''" and ext = "''png''"
      and req = "\<lparr>user = Some ''user1'', content_type = None, body = NoBuffer,
       id_param = ''30a84843-0cd4-4975-95ba-b96112aea189.png''\<rparr>"
      and f = "\<lparr>fid = ''30a84843-0cd4-4975-95ba-b96112aea189'', ownerId = ''user1'',
           created = ''2024-01-01T00:00:00.000Z'', updated = ''2024-01-01T00:00:00.000Z'',
           ftype = ''text/plain'', fsize = Finite 2\<rparr>"]
    extension_errors [where R = test_runtime and owner = "''user1''" and s = one_fragment
      and i = "''30a84843-0cd4-4975-95ba-b96112aea189''" and ext = "''exe''"
      and req = "\<lparr>user = Some ''user1'', content_type = None, body = NoBuffer,
       id_param = ''30a84843-0cd4-4975-95ba-b96112aea189.exe''\<rparr>"
      and f = "\<lparr>fid = ''30a84843-0cd4-4975-95ba-b96112aea189'', ownerId = ''user1'',
           created = ''2024-01-01T00:00:00.000Z'', updated = ''2024-01-01T00:00:00.000Z'',
           ftype = ''text/plain'', fsize = Finite 2\<rparr>"]
    parse_with_extension [of "''png''"] parse_with_extension [of "''exe''"]
  by (simp add: byId_one_fragment mimeType_one_fragment toLowerCase_def lower_char_def
      extensionToMimeType_def textTypes_def imageTypes_def)

theorem extension_errors_counterexample:
  "''avif'' \<notin> {''txt'', ''md'', ''html'', ''json'', ''csv'', ''yaml'', ''yml'', ''png'', ''jpg'',
               ''jpeg'', ''webp'', ''gif''}
   \<and> get_by_id test_runtime
      \<lparr>user = Some ''user1'', content_type = None, body = NoBuffer,
       id_param = ''30a84843-0cd4-4975-95ba-b96112aea189.avif''\<rparr> one_fragment
     = (Json 415 (ErrorResponse 415 ''Cannot convert text/plain to image/avif''), one_fragment)"
  using get_with_extension [where R = test_runtime and owner = "''user1''" and s = one_fragment
      and i = "''30a84843-0cd4-4975-95ba-b96112aea189''" and ext = "''avif''"
      and src = "''text/plain''"
      and req = "\<lparr>user = Some ''user1'', content_type = None, body = NoBuffer,
       id_param = ''30a84843-0cd4-4975-95ba-b96112aea189.avif''\<rparr>"
      and f = "\<lparr>fid = ''30a84843-0cd4-4975-95ba-b96112aea189'', ownerId = ''user1'',
           created = ''2024-01-01T00:00:00.000Z'', updated = ''2024-01-01T00:00:00.000Z'',
           ftype = ''text/plain'', fsize = Finite 2\<rparr>"]
    parse_with_extension [of "''avif''"]
  by (simp add: byId_one_fragment mimeType_one_fragment toLowerCase_def lower_char_def
      extensionToMimeType_def isConversionSupported_def textTypes_def imageTypes_def)

lemma get_without_extension:
  assumes "user req = Some owner" "owner \<noteq> []" "id_param req \<noteq> []"
    "snd (parseFragmentId (id_param req)) = None"
    "byId R owner (id_param req) s = Inr f" "getData f s = Some d"
  shows "get_by_id R req s = (Send 200 (ftype f) d, s)"
  using assms parseFragmentId_None [OF assms(4)]
  by (simp add: get_by_id_def falsy_def)

lemma get_same_extension:
  assumes u: "user req = Some owner" "user req' = Some owner" "owner \<noteq> []"
    and p: "parseFragmentId (id_param req) = (i, Some e)"
           "parseFragmentId (id_param req') = (i, Some e')"
    and l: "toLowerCase e = toLowerCase e'"
    and d: "\<forall>f. byId R owner i s = Inr f \<longrightarrow> getData f s \<noteq> None"
    and t: "extensionToMimeType (''.'' @ toLowerCase e) \<noteq> None"
  shows "get_by_id R req s = get_by_id R req' s"
proof (cases "byId R owner i s")
  case (Inl err)
  with u p parseFragmentId_Some [OF p(1)] parseFragmentId_Some [OF p(2)] show ?thesis
    by (simp add: get_by_id_def falsy_def)
next
  case (Inr f)
  from byId_mimeType [OF Inr] obtain src where src: "mimeType f = Inr src" by blast
  from d Inr obtain b where b: "getData f s = Some b" by auto
  from t obtain ty where ty: "extensionToMimeType (''.'' @ toLowerCase e) = Some ty" by auto
  with l have ty': "extensionToMimeType (''.'' @ toLowerCase e') = Some ty" by simp
  show ?thesis
    unfolding get_with_extension [OF u(1) u(3) p(1) Inr src]
      get_with_extension [OF u(2) u(3) p(2) Inr src]
    using ty ty' b by simp
qed

lemma lower_HTML: "toLowerCase ''HTML'' = ''html''"
  by (simp add: toLowerCase_def lower_char_def char_of_eq_iff)

lemma lower_html: "toLowerCase ''html'' = ''html''"
  by (simp add: toLowerCase_def lower_char_def)

lemma table_html: "extensionToMimeType ''.html'' = Some ''text/html''"
  by (simp add: extensionToMimeType_def)

text \<open>
  C10. The extension of a read is what follows the last dot of the id parameter, and the id
  what precedes it; a parameter without a dot, or whose last dot is its first or its last
  character, is the id as a whole, and then the stored content is sent as it is, under the
  stored type. With an extension, the handler looks the extension up in the table in lower
  case, after a dot: the answer for a stored fragment is the error of an unknown type when the
  table has no such key, and otherwise the error of an unsupported conversion, or the content
  converted to the type the table gives and sent under it. So two requests for the same id
  whose extensions differ only in case, and are in the table, are answered the same.
\<close>

theorem extension_resolution:
  "(CHR ''.'' \<notin> set e \<longrightarrow>
      parseFragmentId (a @ ''.'' @ e)
        = (if a = [] \<or> e = [] then (a @ ''.'' @ e, None) else (a, Some e)))
   \<and> (CHR ''.'' \<notin> set p \<longrightarrow> parseFragmentId p = (p, None))
   \<and> (user req = Some owner \<and> owner \<noteq> [] \<and> id_param req \<noteq> []
        \<and> snd (parseFragmentId (id_param req)) = None
        \<and> byId R owner (id_param req) s = Inr f \<and> getData f s = Some d \<longrightarrow>
      get_by_id R req s = (Send 200 (ftype f) d, s))
   \<and> (user req = Some owner \<and> owner \<noteq> [] \<and> parseFragmentId (id_param req) = (i, Some x)
        \<and> byId R owner i s = Inr f \<and> mimeType f = Inr src \<longrightarrow>
      get_by_id R req s =
        (case extensionToMimeType (''.'' @ toLowerCase x) of
           None \<Rightarrow> (Json 415 (ErrorResponse 415 (''Unknown or unsupported type: '' @ x)), s)
         | Some t \<Rightarrow>
             if \<not> isConversionSupported src t
               then (Json 415 (ErrorResponse 415 (''Cannot convert '' @ src @ '' to '' @ t)), s)
             else
               (case getData f s of
                  None \<Rightarrow> (missing_data R f (Some x), s)
                | Some d \<Rightarrow>
                    if src \<noteq> t then
                      (case convertFragmentData R d src t of
                         Inl err \<Rightarrow> (Json 415 (ErrorResponse 415 (message err)), s)
                       | Inr responseData \<Rightarrow> (Send 200 t responseData, s))
                    else (Send 200 t d, s))))
   \<and> (user req = Some owner \<and> user req' = Some owner \<and> owner \<noteq> []
        \<and> parseFragmentId (id_param req) = (i, Some x)
        \<and> parseFragmentId (id_param req') = (i, Some x')
        \<and> toLowerCase x = toLowerCase x'
        \<and> (\<forall>f. byId R owner i s = Inr f \<longrightarrow> getData f s \<noteq> None)
        \<and> extensionToMimeType (''.'' @ toLowerCase x) \<noteq> None \<longrightarrow>
      get_by_id R req s = get_by_id R req' s)"
proof -
  have a: "CHR ''.'' \<notin> set e \<longrightarrow>
      parseFragmentId (a @ ''.'' @ e)
        = (if a = [] \<or> e = [] then (a @ ''.'' @ e, None) else (a, Some e))"
    using parseFragmentId_split [of e a] by blast
  have b: "CHR ''.'' \<notin> set p \<longrightarrow> parseFragmentId p = (p, None)"
    using parseFragmentId_no_dot [of p] by blast
  have c: "user req = Some owner \<and> owner \<noteq> [] \<and> id_param req \<noteq> []
        \<and> snd (parseFragmentId (id_param req)) = None
        \<and> byId R owner (id_param req) s = Inr f \<and> getData f s = Some d \<longrightarrow>
      get_by_id R req s = (Send 200 (ftype f) d, s)"
    using get_without_extension [of req owner R s f d] by blast
  have l: "user req = Some owner \<and> owner \<noteq> [] \<and> parseFragmentId (id_param req) = (i, Some x)
        \<and> byId R owner i s = Inr f \<and> mimeType f = Inr src \<longrightarrow>
      get_by_id R req s =
        (case extensionToMimeType (''.'' @ toLowerCase x) of
           None \<Rightarrow> (Json 415 (ErrorResponse 415 (''Unknown or unsupported type: '' @ x)), s)
         | Some t \<Rightarrow>
             if \<not> isConversionSupported src t
               then (Json 415 (ErrorResponse 415 (''Cannot convert '' @ src @ '' to '' @ t)), s)
             else
               (case getData f s of
                  None \<Rightarrow> (missing_data R f (Some x), s)
                | Some d \<Rightarrow>
                    if src \<noteq> t then
                      (case convertFragmentData R d src t of
                         Inl err \<Rightarrow> (Json 415 (ErrorResponse 415 (message err)), s)
                       | Inr responseData \<Rightarrow> (Send 200 t responseData, s))
                    else (Send 200 t d, s)))"
    using get_with_extension [of req owner i x R s f src] by blast
  have d: "user req = Some owner \<and> user req' = Some owner \<and> owner \<noteq> []
        \<and> parseFragmentId (id_param req) = (i, Some x)
        \<and> parseFragmentId (id_param req') = (i, Some x')
        \<and> toLowerCase x = toLowerCase x'
        \<and> (\<forall>f. byId R owner i s = Inr f \<longrightarrow> getData f s \<noteq> None)
        \<and> extensionToMimeType (''.'' @ toLowerCase x) \<noteq> None \<longrightarrow>
      get_by_id R req s = get_by_id R req' s"
    using get_same_extension [of req owner req' i x x' R s] by blast
  from a b c l d show ?thesis by (intro conjI)
qed

lemma convert_Hi:
  "convertFragmentData R [72, 105] ''text/plain'' ''text/html'' = Inr [72, 105]"
  by (simp add: convertFragmentData_def textTypes_def convertTextToText_def utf8_encode_def
      encode_code_point_def decode_ascii del: utf8_decode.simps(2))

theorem extension_resolution_witness:
  "parseFragmentId ''30a84843-0cd4-4975-95ba-b96112aea189.HTML''
     = (''30a84843-0cd4-4975-95ba-b96112aea189'', Some ''HTML'')
   \<and> parseFragmentId ''30a84843-0cd4-4975-95ba-b96112aea189''
     = (''30a84843-0cd4-4975-95ba-b96112aea189'', None)
   \<and> get_by_id test_runtime
        \<lparr>user = Some ''user1'', content_type = None, body = NoBuffer,
         id_param = ''30a84843-0cd4-4975-95ba-b96112aea189''\<rparr> one_fragment
       = (Send 200 ''text/plain'' [72, 105], one_fragment)
   \<and> get_by_id test_runtime
        \<lparr>user = Some ''user1'', content_type = None, body = NoBuffer,
         id_param = ''30a84843-0cd4-4975-95ba-b96112aea189.HTML''\<rparr> one_fragment
       = (Send 200 ''text/html'' [72, 105], one_fragment)
   \<and> get_by_id test_runtime
        \<lparr>user = Some ''user1'', content_type = None, body = NoBuffer,
         id_param = ''30a84843-0cd4-4975-95ba-b96112aea189.html''\<rparr> one_fragment
       = (Send 200 ''text/html'' [72, 105], one_fragment)"
proof -
  have p1: "parseFragmentId ''30a84843-0cd4-4975-95ba-b96112aea189.HTML''
     = (''30a84843-0cd4-4975-95ba-b96112aea189'', Some ''HTML'')"
    using parse_with_extension [of "''HTML''"] by simp
  have p2: "parseFragmentId ''30a84843-0cd4-4975-95ba-b96112aea189.html''
     = (''30a84843-0cd4-4975-95ba-b96112aea189'', Some ''html'')"
    using parse_with_extension [of "''html''"] by simp
  have p3: "parseFragmentId ''30a84843-0cd4-4975-95ba-b96112aea189''
     = (''30a84843-0cd4-4975-95ba-b96112aea189'', None)"
    by (simp add: parseFragmentId_no_dot)
  show ?thesis
    using extension_resolution [where R = test_runtime and owner = "''user1''" and s = one_fragment
      and a = "''30a84843-0cd4-4975-95ba-b96112aea189''" and e = "''HTML''" and p = "''30a84843-0cd4-4975-95ba-b96112aea189''" and d = "[72, 105]"
      and i = "''30a84843-0cd4-4975-95ba-b96112aea189''" and x = "''HTML''" and x' = "''html''" and src = "''text/plain''"
      and req = "\<lparr>user = Some ''user1'', content_type = None, body = NoBuffer,
         id_param = ''30a84843-0cd4-4975-95ba-b96112aea189.HTML''\<rparr>"
      and req' = "\<lparr>user = Some ''user1'', content_type = None, body = NoBuffer,
         id_param = ''30a84843-0cd4-4975-95ba-b96112aea189.html''\<rparr>"
      and f = "\<lparr>fid = ''30a84843-0cd4-4975-95ba-b96112aea189'', ownerId = ''user1'',
           created = ''2024-01-01T00:00:00.000Z'', updated = ''2024-01-01T00:00:00.000Z'',
           ftype = ''text/plain'', fsize = Finite 2\<rparr>"]
      extension_resolution [where R = test_runtime and owner = "''user1''" and s = one_fragment
      and a = "''30a84843-0cd4-4975-95ba-b96112aea189''" and e = "''html''" and p = "''30a84843-0cd4-4975-95ba-b96112aea189''" and d = "[72, 105]"
      and i = "''30a84843-0cd4-4975-95ba-b96112aea189''" and x = "''html''" and x' = "''html''" and src = "''text/plain''"
      and req = "\<lparr>user = Some ''user1'', content_type = None, body = NoBuffer,
         id_param = ''30a84843-0cd4-4975-95ba-b96112aea189.html''\<rparr>"
      and req' = "\<lparr>user = Some ''user1'', content_type = None, body = NoBuffer,
         id_param = ''30a84843-0cd4-4975-95ba-b96112aea189.html''\<rparr>"
      and f = "\<lparr>fid = ''30a84843-0cd4-4975-95ba-b96112aea189'', ownerId = ''user1'',
           created = ''2024-01-01T00:00:00.000Z'', updated = ''2024-01-01T00:00:00.000Z'',
           ftype = ''text/plain'', fsize = Finite 2\<rparr>"]
      extension_resolution [where R = test_runtime and owner = "''user1''" and s = one_fragment
      and a = "''30a84843-0cd4-4975-95ba-b96112aea189''" and e = "''html''" and p = "''30a84843-0cd4-4975-95ba-b96112aea189''" and d = "[72, 105]"
      and i = "''30a84843-0cd4-4975-95ba-b96112aea189''" and x = "''html''" and x' = "''html''" and src = "''text/plain''"
      and req = "\<lparr>user = Some ''user1'', content_type = None, body = NoBuffer,
         id_param = ''30a84843-0cd4-4975-95ba-b96112aea189''\<rparr>"
      and req' = "\<lparr>user = Some ''user1'', content_type = None, body = NoBuffer,
         id_param = ''30a84843-0cd4-4975-95ba-b96112aea189.html''\<rparr>"
      and f = "\<lparr>fid = ''30a84843-0cd4-4975-95ba-b96112aea189'', ownerId = ''user1'',
           created = ''2024-01-01T00:00:00.000Z'', updated = ''2024-01-01T00:00:00.000Z'',
           ftype = ''text/plain'', fsize = Finite 2\<rparr>"]
    by (simp add: p1 p2 p3 byId_one_fragment getData_one_fragment mimeType_one_fragment
        lower_HTML lower_html table_html isConversionSupported_def textTypes_def convert_Hi)
qed

subsection \<open>Decoding what was encoded\<close>

lemma unat_byte: "n < 256 \<Longrightarrow> unat (of_nat n :: byte) = n"
  by (simp add: unat_of_nat)

lemma mod_32: "q < 32 \<Longrightarrow> (192 + q) mod 32 = (q::nat)"
  using mod_mult_self3 [of 6 32 q] by simp

lemma mod_64: "r < 64 \<Longrightarrow> (128 + r) mod 64 = (r::nat)"
  using mod_mult_self3 [of 2 64 r] by simp

lemma mod_16: "q < 16 \<Longrightarrow> (224 + q) mod 16 = (q::nat)"
  using mod_mult_self3 [of 14 16 q] by simp

lemma mod_8: "q < 8 \<Longrightarrow> (240 + q) mod 8 = (q::nat)"
  using mod_mult_self3 [of 30 8 q] by simp

lemma div_bounds: "k * m \<le> (c::nat) \<Longrightarrow> c < j * m \<Longrightarrow> 0 < m \<Longrightarrow> k \<le> c div m \<and> c div m < j"
  using div_le_mono [of "k * m" c m] less_mult_imp_div_less [of c j m] by simp

lemma split_aux:
  "k = h \<Longrightarrow> c = d * 64 + r0 \<Longrightarrow> d = h * 64 + r1 \<Longrightarrow> (c::nat) = k * 4096 + r1 * 64 + r0"
  by simp

lemma split_aux2:
  "k = h \<Longrightarrow> d = h * 64 + r2 \<Longrightarrow> c = d * 4096 + r1 * 64 + r0 \<Longrightarrow>
     (c::nat) = k * 262144 + r2 * 4096 + r1 * 64 + r0"
  by simp

lemma split_3: "(c::nat) = (c div 4096) * 4096 + ((c div 64) mod 64) * 64 + c mod 64"
proof -
  have "c div 4096 = c div 64 div 64" by (simp add: div_mult2_eq [symmetric])
  moreover have "c = c div 64 * 64 + c mod 64" by simp
  moreover have "c div 64 = c div 64 div 64 * 64 + c div 64 mod 64" by simp
  ultimately show ?thesis by (rule split_aux)
qed

lemma split_4:
  "(c::nat) = (c div 262144) * 262144 + ((c div 4096) mod 64) * 4096 + ((c div 64) mod 64) * 64
             + c mod 64"
proof -
  have "c div 262144 = c div 4096 div 64" by (simp add: div_mult2_eq [symmetric])
  moreover have "c div 4096 = c div 4096 div 64 * 64 + c div 4096 mod 64" by simp
  moreover note split_3 [of c]
  ultimately show ?thesis by (rule split_aux2)
qed

lemma roundtrip_1:
  assumes "c < 128"
  shows "utf8_decode (encode_code_point c @ bs) = c # utf8_decode bs"
proof -
  from assms have "unat (of_nat c :: byte) = c" by (simp add: unat_byte)
  with assms decode_ascii [of "of_nat c" bs] show ?thesis
    by (simp add: encode_code_point_def del: utf8_decode.simps)
qed

lemma roundtrip_2:
  assumes "128 \<le> c" "c < 2048"
  shows "utf8_decode (encode_code_point c @ bs) = c # utf8_decode bs"
proof -
  define q where "q = c div 64"
  define r where "r = c mod 64"
  have q: "2 \<le> q \<and> q < 32" unfolding q_def using assms by (intro div_bounds) simp_all
  have r: "r < 64" by (simp add: r_def)
  have c: "c = q * 64 + r" by (simp add: q_def r_def)
  have e: "encode_code_point c = [of_nat (192 + q), of_nat (128 + r)]"
    using assms by (simp add: encode_code_point_def q_def r_def)
  have u1: "unat (of_nat (192 + q) :: byte) = 192 + q" using q by (intro unat_byte) simp
  have u2: "unat (of_nat (128 + r) :: byte) = 128 + r" using r by (intro unat_byte) simp
  have n: "bytes_needed (unat (of_nat (192 + q) :: byte)) = 2"
    unfolding u1 using q by (simp add: bytes_needed_def)
  have k: "continuation 128 191 (of_nat (128 + r))"
    unfolding continuation_def u2 using r by simp
  have "utf8_decode (of_nat (192 + q) # of_nat (128 + r) # bs)
          = ((192 + q) mod 32 * 64 + (128 + r) mod 64) # utf8_decode bs"
    unfolding decode_two [OF n] using k u1 u2 by (simp del: utf8_decode.simps)
  with e c q r show ?thesis by (simp add: mod_32 mod_64 del: utf8_decode.simps)
qed

lemma div_range:
  assumes "(c::nat) div m = q" "0 < m"
  shows "q * m \<le> c \<and> c < q * m + m"
proof -
  have "c = q * m + c mod m" using assms(1) div_mult_mod_eq [of c m] by simp
  moreover have "c mod m < m" using assms(2) by simp
  ultimately show ?thesis by linarith
qed

lemma roundtrip_3:
  assumes "2048 \<le> c" "c < 65536" "\<not> (55296 \<le> c \<and> c \<le> 57343)"
  shows "utf8_decode (encode_code_point c @ bs) = c # utf8_decode bs"
proof -
  define q where "q = c div 4096"
  define d where "d = c div 64"
  define m where "m = d mod 64"
  define r where "r = c mod 64"
  have q: "0 \<le> q \<and> q < 16" unfolding q_def using assms by (intro div_bounds) simp_all
  have m: "m < 64" by (simp add: m_def)
  have r: "r < 64" by (simp add: r_def)
  have c: "c = q * 4096 + m * 64 + r"
    unfolding q_def m_def d_def r_def by (rule split_3)
  have ns: "\<not> ((55296 \<le> c \<and> c \<le> 57343) \<or> 1114112 \<le> c)" using assms by simp
  have e: "encode_code_point c = [of_nat (224 + q), of_nat (128 + m), of_nat (128 + r)]"
    unfolding encode_code_point_def using assms(1,2) ns
    by (simp add: q_def m_def d_def r_def del: de_Morgan_disj de_Morgan_conj not_le not_less)
  have u1: "unat (of_nat (224 + q) :: byte) = 224 + q" using q by (intro unat_byte) simp
  have u2: "unat (of_nat (128 + m) :: byte) = 128 + m" using m by (intro unat_byte) simp
  have u3: "unat (of_nat (128 + r) :: byte) = 128 + r" using r by (intro unat_byte) simp
  have n: "bytes_needed (unat (of_nat (224 + q) :: byte)) = 3"
    unfolding u1 using q by (simp add: bytes_needed_def)
  have lo: "lower_boundary (224 + q) \<le> 128 + m"
  proof (cases "q = 0")
    case True
    with div_range [of c 4096 q] have "c < 4096" by (simp add: q_def)
    with assms(1) have "32 \<le> d \<and> d < 64" unfolding d_def by (intro div_bounds) simp_all
    then have "32 \<le> m" by (simp add: m_def)
    then show ?thesis by (simp add: lower_boundary_def)
  next
    case False
    with q show ?thesis by (simp add: lower_boundary_def)
  qed
  have hi: "128 + m \<le> upper_boundary (224 + q)"
  proof (cases "q = 13")
    case True
    with div_range [of c 4096 q] have "53248 \<le> c \<and> c < 57344" by (simp add: q_def)
    with assms(3) have "832 * 64 \<le> c \<and> c < 864 * 64" by simp
    then have b: "832 \<le> d \<and> d < 864" unfolding d_def by (intro div_bounds) simp_all
    then have "d mod 64 = d - 13 * 64" by (intro mod_range) simp_all
    with b have "m < 32" unfolding m_def by linarith
    with True show ?thesis by (simp add: upper_boundary_def)
  next
    case False
    with q m show ?thesis by (simp add: upper_boundary_def)
  qed
  have k2: "continuation (lower_boundary (unat (of_nat (224 + q) :: byte)))
              (upper_boundary (unat (of_nat (224 + q) :: byte))) (of_nat (128 + m))"
    unfolding continuation_def u1 u2 using lo hi by simp
  have k3: "continuation 128 191 (of_nat (128 + r))"
    unfolding continuation_def u3 using r by simp
  have "utf8_decode (of_nat (224 + q) # of_nat (128 + m) # of_nat (128 + r) # bs)
          = ((224 + q) mod 16 * 4096 + (128 + m) mod 64 * 64 + (128 + r) mod 64) # utf8_decode bs"
    unfolding decode_three [OF n] using k2 k3 u1 u2 u3 by (simp del: utf8_decode.simps)
  with e c q m r show ?thesis by (simp add: mod_16 mod_64 del: utf8_decode.simps)
qed

lemma roundtrip_4:
  assumes "65536 \<le> c" "c < 1114112"
  shows "utf8_decode (encode_code_point c @ bs) = c # utf8_decode bs"
proof -
  define q where "q = c div 262144"
  define d where "d = c div 4096"
  define m2 where "m2 = d mod 64"
  define m1 where "m1 = (c div 64) mod 64"
  define r where "r = c mod 64"
  have q: "0 \<le> q \<and> q < 5" unfolding q_def using assms by (intro div_bounds) simp_all
  have m2: "m2 < 64" by (simp add: m2_def)
  have m1: "m1 < 64" by (simp add: m1_def)
  have r: "r < 64" by (simp add: r_def)
  have c: "c = q * 262144 + m2 * 4096 + m1 * 64 + r"
    unfolding q_def m2_def d_def m1_def r_def by (rule split_4)
  have e: "encode_code_point c
             = [of_nat (240 + q), of_nat (128 + m2), of_nat (128 + m1), of_nat (128 + r)]"
    using assms by (simp add: encode_code_point_def q_def m2_def d_def m1_def r_def)
  have u1: "unat (of_nat (240 + q) :: byte) = 240 + q" using q by (intro unat_byte) simp
  have u2: "unat (of_nat (128 + m2) :: byte) = 128 + m2" using m2 by (intro unat_byte) simp
  have u3: "unat (of_nat (128 + m1) :: byte) = 128 + m1" using m1 by (intro unat_byte) simp
  have u4: "unat (of_nat (128 + r) :: byte) = 128 + r" using r by (intro unat_byte) simp
  have n: "bytes_needed (unat (of_nat (240 + q) :: byte)) = 4"
    unfolding u1 using q by (simp add: bytes_needed_def)
  have lo: "lower_boundary (240 + q) \<le> 128 + m2"
  proof (cases "q = 0")
    case True
    with div_range [of c 262144 q] have "c < 64 * 4096" by (simp add: q_def)
    with assms(1) have "16 \<le> d \<and> d < 64" unfolding d_def by (intro div_bounds) simp_all
    then have "16 \<le> m2" by (simp add: m2_def)
    with True show ?thesis by (simp add: lower_boundary_def)
  next
    case False
    with q show ?thesis by (simp add: lower_boundary_def)
  qed
  have hi: "128 + m2 \<le> upper_boundary (240 + q)"
  proof (cases "q = 4")
    case True
    with div_range [of c 262144 q] have "256 * 4096 \<le> c" by (simp add: q_def)
    moreover from assms(2) have "c < 272 * 4096" by simp
    ultimately have b: "256 \<le> d \<and> d < 272" unfolding d_def by (intro div_bounds) simp_all
    then have "d mod 64 = d - 4 * 64" by (intro mod_range) simp_all
    with b have "m2 < 16" unfolding m2_def by linarith
    with True show ?thesis by (simp add: upper_boundary_def)
  next
    case False
    with q m2 show ?thesis by (simp add: upper_boundary_def)
  qed
  have k2: "continuation (lower_boundary (unat (of_nat (240 + q) :: byte)))
              (upper_boundary (unat (of_nat (240 + q) :: byte))) (of_nat (128 + m2))"
    unfolding continuation_def u1 u2 using lo hi by simp
  have k3: "continuation 128 191 (of_nat (128 + m1))"
    unfolding continuation_def u3 using m1 by simp
  have k4: "continuation 128 191 (of_nat (128 + r))"
    unfolding continuation_def u4 using r by simp
  have "utf8_decode (of_nat (240 + q) # of_nat (128 + m2) # of_nat (128 + m1) # of_nat (128 + r) # bs)
          = ((240 + q) mod 8 * 262144 + (128 + m2) mod 64 * 4096 + (128 + m1) mod 64 * 64
               + (128 + r) mod 64) # utf8_decode bs"
    unfolding decode_four [OF n] using k2 k3 k4 u1 u2 u3 u4 by (simp del: utf8_decode.simps)
  with e c q m2 m1 r show ?thesis by (simp add: mod_8 mod_64 del: utf8_decode.simps)
qed

lemma decode_encode_code_point:
  assumes "scalar_value c"
  shows "utf8_decode (encode_code_point c @ bs) = c # utf8_decode bs"
proof -
  consider "c < 128" | "128 \<le> c \<and> c < 2048"
    | "2048 \<le> c \<and> c < 65536 \<and> \<not> (55296 \<le> c \<and> c \<le> 57343)" | "65536 \<le> c \<and> c < 1114112"
    using assms unfolding scalar_value_def by linarith
  then show ?thesis
  proof cases
    case 1 then show ?thesis by (rule roundtrip_1)
  next
    case 2 then show ?thesis using roundtrip_2 by blast
  next
    case 3 then show ?thesis using roundtrip_3 by blast
  next
    case 4 then show ?thesis using roundtrip_4 by blast
  qed
qed

lemma decode_encode:
  "list_all scalar_value u \<Longrightarrow> utf8_decode (utf8_encode u) = u"
proof (induction u)
  case Nil
  then show ?case by (simp add: utf8_encode_def)
next
  case (Cons c u)
  then have "utf8_decode (encode_code_point c @ utf8_encode u) = c # utf8_decode (utf8_encode u)"
    using decode_encode_code_point [of c "utf8_encode u"] by simp
  with Cons show ?case by (simp add: utf8_encode_def)
qed

subsection \<open>Text conversions without a transformation\<close>

lemma convertTextToText_other:
  assumes "(src, tgt) \<notin> {(''text/markdown'', ''text/html''), (''text/html'', ''text/markdown''),
              (''application/json'', ''application/yaml''), (''application/yaml'', ''application/json''),
              (''text/csv'', ''application/json''), (''application/json'', ''text/csv'')}"
  shows "convertTextToText R X src tgt = Inr (utf8_encode (utf8_decode X))"
  using assms by (auto simp: convertTextToText_def Let_def)

lemma text_conversion_supported:
  "src \<in> set textTypes \<Longrightarrow> tgt \<in> set textTypes \<Longrightarrow> isConversionSupported src tgt"
  by (simp add: isConversionSupported_def)

text \<open>
  C9, as amended. For every pair of different text types that has no conversion of its own
  (markdown to html, html to markdown, json to yaml, yaml to json, csv to json and json to csv
  have one), the conversion decodes the input as UTF-8 and encodes the text again. So it
  returns the input bytes unchanged for every input that is the UTF-8 encoding of a text, and
  the read of a stored fragment with an extension of such a type sends the bytes so obtained
  under the type of the extension.
\<close>

theorem passthrough_conversion:
  assumes "src \<in> set textTypes" "tgt \<in> set textTypes" "src \<noteq> tgt"
    "(src, tgt) \<notin> {(''text/markdown'', ''text/html''), (''text/html'', ''text/markdown''),
        (''application/json'', ''application/yaml''), (''application/yaml'', ''application/json''),
        (''text/csv'', ''application/json''), (''application/json'', ''text/csv'')}"
  shows "convertFragmentData R X src tgt = Inr (utf8_encode (utf8_decode X))
     \<and> (list_all scalar_value u \<longrightarrow>
          convertFragmentData R (utf8_encode u) src tgt = Inr (utf8_encode u))
     \<and> (user req = Some owner \<and> owner \<noteq> [] \<and> parseFragmentId (id_param req) = (i, Some ext)
          \<and> extensionToMimeType (''.'' @ toLowerCase ext) = Some tgt
          \<and> byId R owner i s = Inr f \<and> mimeType f = Inr src \<and> getData f s = Some X \<longrightarrow>
        get_by_id R req s = (Send 200 tgt (utf8_encode (utf8_decode X)), s))"
proof -
  have a: "convertFragmentData R Y src tgt = Inr (utf8_encode (utf8_decode Y))" for Y
    using assms(1-3) convertTextToText_other [OF assms(4), of R Y]
    by (simp add: convertFragmentData_def)
  have b: "list_all scalar_value u \<longrightarrow>
          convertFragmentData R (utf8_encode u) src tgt = Inr (utf8_encode u)"
    using a [of "utf8_encode u"] decode_encode [of u] by simp
  have c: "user req = Some owner \<and> owner \<noteq> [] \<and> parseFragmentId (id_param req) = (i, Some ext)
          \<and> extensionToMimeType (''.'' @ toLowerCase ext) = Some tgt
          \<and> byId R owner i s = Inr f \<and> mimeType f = Inr src \<and> getData f s = Some X \<longrightarrow>
        get_by_id R req s = (Send 200 tgt (utf8_encode (utf8_decode X)), s)"
  proof
    assume h: "user req = Some owner \<and> owner \<noteq> [] \<and> parseFragmentId (id_param req) = (i, Some ext)
          \<and> extensionToMimeType (''.'' @ toLowerCase ext) = Some tgt
          \<and> byId R owner i s = Inr f \<and> mimeType f = Inr src \<and> getData f s = Some X"
    then have h1: "user req = Some owner" and h2: "owner \<noteq> []"
      and h3: "parseFragmentId (id_param req) = (i, Some ext)"
      and h4: "byId R owner i s = Inr f" and h5: "mimeType f = Inr src" by blast+
    note get_with_extension [OF h1 h2 h3 h4 h5]
    with h a [of X] assms(3) text_conversion_supported [OF assms(1,2)]
    show "get_by_id R req s = (Send 200 tgt (utf8_encode (utf8_decode X)), s)"
      by simp
  qed
  from a [of X] b c show ?thesis by (intro conjI)
qed

theorem passthrough_conversion_witness:
  "convertFragmentData test_runtime [72, 105] ''text/plain'' ''text/html'' = Inr [72, 105]
   \<and> convertFragmentData test_runtime (utf8_encode [233, 8364, 128512]) ''text/plain'' ''text/html''
       = Inr [195, 169, 226, 130, 172, 240, 159, 152, 128]
   \<and> get_by_id test_runtime
        \<lparr>user = Some ''user1'', content_type = None, body = NoBuffer,
         id_param = ''30a84843-0cd4-4975-95ba-b96112aea189.html''\<rparr> one_fragment
       = (Send 200 ''text/html'' [72, 105], one_fragment)"
  using passthrough_conversion [where R = test_runtime and src = "''text/plain''"
      and tgt = "''text/html''" and X = "[72, 105]" and u = "[233, 8364, 128512]"
      and owner = "''user1''" and s = one_fragment
      and i = "''30a84843-0cd4-4975-95ba-b96112aea189''" and ext = "''html''"
      and req = "\<lparr>user = Some ''user1'', content_type = None, body = NoBuffer,
         id_param = ''30a84843-0cd4-4975-95ba-b96112aea189.html''\<rparr>"
      and f = "\<lparr>fid = ''30a84843-0cd4-4975-95ba-b96112aea189'', ownerId = ''user1'',
           created = ''2024-01-01T00:00:00.000Z'', updated = ''2024-01-01T00:00:00.000Z'',
           ftype = ''text/plain'', fsize = Finite 2\<rparr>"]
    parse_with_extension [of "''html''"]
  by (simp add: textTypes_def byId_one_fragment mimeType_one_fragment getData_one_fragment
      lower_html table_html scalar_value_def utf8_encode_def encode_code_point_def decode_ascii
      del: utf8_decode.simps(2))

theorem passthrough_conversion_counterexample:
  "convertFragmentData test_runtime [255] ''text/plain'' ''text/html'' = Inr [239, 191, 189]"
  by (simp add: convertFragmentData_def textTypes_def convertTextToText_def bytes_needed_def
      utf8_encode_def encode_code_point_def)

subsection \<open>YAML to JSON\<close>





















subsection \<open>CSV to JSON\<close>







lemmas csv_eval = csv_rows_def csv_row_def trim_u_def trim_by_def js_whitespace_def value_at_def
  set_property_def ascii_def is_array_index_def enumerate_eq_zip Let_def

lemma csv_rows_example:
  "csv_rows [110, 97, 109, 101, 44, 97, 103, 101, 10, 74, 111, 104, 110, 44, 51, 48]
     = [JObject [([110, 97, 109, 101], JString [74, 111, 104, 110]),
                 ([97, 103, 101], JString [51, 48])]]"
  by (simp add: csv_eval)















end
